theory Spec2Isabelle
  imports Main
begin

section \<open>Inventory service: durable state\<close>

text \<open>
  The inventory database of \<^verbatim>\<open>inventory-service/init.sql\<close>: the table
  \<^verbatim>\<open>products\<close> (primary key \<^verbatim>\<open>id\<close>) is a map from the product id to
  its row; \<^verbatim>\<open>reservations\<close> and \<^verbatim>\<open>stock_audit_log\<close> are lists of rows in
  insertion order, and a \<^verbatim>\<open>SELECT\<close> returns the matching rows in that order, so
  \<^verbatim>\<open>rows[0]\<close> is the first match. Quantities and stock are integers. The columns
  \<^verbatim>\<open>description\<close>, \<^verbatim>\<open>price\<close>, \<^verbatim>\<open>created_at\<close> and \<^verbatim>\<open>updated_at\<close> are never
  read by the operations below and are left out. Telemetry and console output are
  left out as well.
\<close>

datatype reservation_status = active | released | committed

record Product =
  p_name :: string
  stock :: int
  lowStockThreshold :: int

record Reservation =
  r_id :: string
  r_orderId :: string
  r_productId :: string
  r_quantity :: int
  r_status :: reservation_status
  r_idempotencyKey :: "string option"

datatype audit_operation = op_reserve | op_release | op_adjust

record AuditRow =
  a_productId :: string
  a_operation :: audit_operation
  a_quantityChange :: int
  a_previousStock :: int
  a_newStock :: int
  a_orderId :: string
  a_reservationId :: string
  a_reason :: string

datatype verified_status = vs_confirmed | vs_not_found

text \<open>
  The events of \<^verbatim>\<open>inventoryPublisher.ts\<close>. The fields \<^verbatim>\<open>eventId\<close> (a fresh
  uuid) and \<^verbatim>\<open>timestamp\<close> (the wall clock) of every event are not modelled. A field
  the handlers fill with a non-null assertion (\<^verbatim>\<open>result.remainingStock!\<close>) holds
  whatever the result holds at run time, so it is an option here.
\<close>

datatype InventoryEvent =
    StockReserved string string int "int option" "string option"
      \<comment> \<open>orderId, productId, quantity, remainingStock, reservationId\<close>
  | StockReleased string string int "int option" string
      \<comment> \<open>orderId, productId, quantity, newStock, reason\<close>
  | LowStockAlert string int int
      \<comment> \<open>productId, currentStock, threshold\<close>
  | OrderVerified string string int verified_status bool "string option"
      \<comment> \<open>orderId, productId, quantity, status, recoveredFromCrash, reservationId\<close>

text \<open>
  The state of the inventory process: the three tables, the Service Bus sender of
  the topic \<^verbatim>\<open>inventory-events\<close> (\<open>inventoryEventsSender\<close> is \<open>False\<close> when the
  variable is \<^verbatim>\<open>null\<close>, the offline mode), the outcome of the SDK call
  \<^verbatim>\<open>sendMessages\<close> for each message (\<open>inventory_send_ok\<close>: the bus is outside the
  program), and the messages the topic has received. The last field is the text the
  runtime prints for a number inside a template literal (\<^verbatim>\<open>Number::toString\<close>): it
  is a parameter of the model, as the runtime prints the decimal digits of a safe
  integer only, and a rounded value or the exponent form of a larger number.
\<close>

record inventory =
  products :: "string \<rightharpoonup> Product"
  reservations :: "Reservation list"
  stock_audit_log :: "AuditRow list"
  inventoryEventsSender :: bool
  inventory_send_ok :: "InventoryEvent \<Rightarrow> bool"
  inventory_events :: "InventoryEvent list"
  number_toString :: "int \<Rightarrow> string"

text \<open>A JavaScript \<^verbatim>\<open>Error\<close> with its message: what a rejected promise carries.\<close>

datatype js_error = JsError string

section \<open>Inventory service: \<^verbatim>\<open>stockRepository.ts\<close>\<close>

text \<open>
  The decimal digits of an integer: what the runtime prints for a safe integer (one
  below \<open>2 ^ 53\<close> in absolute value). The sample states below take it as their
  \<open>number_toString\<close>; their stocks and quantities are a few hundred at most.
\<close>

function show_nat :: "nat \<Rightarrow> string" where
  "show_nat n =
     (if n < 10 then [''0123456789'' ! n]
      else show_nat (n div 10) @ [''0123456789'' ! (n mod 10)])"
  by pat_completeness auto
termination
  by (relation "measure (\<lambda>n. n)") auto

declare show_nat.simps [simp del]

definition show_int :: "int \<Rightarrow> string" where
  "show_int i = (if i < 0 then CHR ''-'' # show_nat (nat (- i)) else show_nat (nat i))"

fun show_reservation_status :: "reservation_status \<Rightarrow> string" where
  "show_reservation_status active = ''active''"
| "show_reservation_status released = ''released''"
| "show_reservation_status committed = ''committed''"

datatype reserve_status =
  rs_confirmed | rs_insufficient_stock | rs_product_not_found | rs_already_exists

record ReserveResult =
  success :: bool
  message :: string
  reservationId :: "string option"
  remainingStock :: "int option"
  status :: reserve_status

record ReleaseResult =
  rl_success :: bool
  rl_message :: string
  newStock :: "int option"

text \<open>
  JavaScript truthiness of an optional string (\<^verbatim>\<open>if (idempotencyKey)\<close>):
  \<^verbatim>\<open>undefined\<close> and the empty string are falsy.
\<close>

fun truthy :: "string option \<Rightarrow> bool" where
  "truthy None = False"
| "truthy (Some k) = (k \<noteq> [])"

text \<open>
  \<^verbatim>\<open>INSERT INTO reservations\<close> under the constraints of the schema: the primary
  key \<^verbatim>\<open>id\<close> and the \<^verbatim>\<open>UNIQUE\<close> column \<^verbatim>\<open>idempotency_key\<close> (a
  \<^verbatim>\<open>NULL\<close> key never conflicts). A violation makes the query reject.
\<close>

definition insert_reservation :: "inventory \<Rightarrow> Reservation \<Rightarrow> js_error + inventory" where
  "insert_reservation s r =
     (if r_id r \<in> set (map r_id (reservations s))
      then Inl (JsError ''duplicate key value violates unique constraint reservations_pkey'')
      else if r_idempotencyKey r \<noteq> None
              \<and> r_idempotencyKey r \<in> set (map r_idempotencyKey (reservations s))
      then Inl (JsError
        ''duplicate key value violates unique constraint reservations_idempotency_key_key'')
      else Inr (s\<lparr>reservations := reservations s @ [r]\<rparr>))"

text \<open>\<^verbatim>\<open>SELECT * FROM reservations WHERE idempotency_key = $1\<close>, first row.\<close>

definition find_by_idempotency_key :: "inventory \<Rightarrow> string \<Rightarrow> Reservation option" where
  "find_by_idempotency_key s k =
     find (\<lambda>r. r_idempotencyKey r = Some k) (reservations s)"

text \<open>
  The first step of \<^verbatim>\<open>reserveStock\<close>: the lookup runs only for a truthy key, and
  \<^verbatim>\<open>existingRes.rows[0]\<close> is the row it reports.
\<close>

definition existing_reservation :: "inventory \<Rightarrow> string option \<Rightarrow> Reservation option" where
  "existing_reservation s idempotencyKey =
     (case idempotencyKey of
        None \<Rightarrow> None
      | Some k \<Rightarrow> if truthy idempotencyKey then find_by_idempotency_key s k else None)"

text \<open>
  \<^verbatim>\<open>reserveStock(orderId, productId, quantity, idempotencyKey?)\<close>. The first
  argument is the value \<^verbatim>\<open>uuidv4()\<close> returns when the function reaches it. The
  result is the resolved \<^verbatim>\<open>ReserveResult\<close> (\<open>Inr\<close>) or the rethrown error
  (\<open>Inl\<close>), with the database after \<^verbatim>\<open>COMMIT\<close> or \<^verbatim>\<open>ROLLBACK\<close>.
\<close>

definition reserveStock ::
  "string \<Rightarrow> inventory \<Rightarrow> string \<Rightarrow> string \<Rightarrow> int \<Rightarrow> string option
     \<Rightarrow> (js_error + ReserveResult) \<times> inventory" where
  "reserveStock uuid s orderId productId quantity idempotencyKey =
     (case existing_reservation s idempotencyKey of
        Some existing \<Rightarrow>
          (Inr \<lparr>success = True,
                message = ''Reservation already exists (idempotent)'',
                reservationId = Some (r_id existing),
                remainingStock = None,
                status = rs_already_exists\<rparr>, s)
      | None \<Rightarrow>
          (case products s productId of
             None \<Rightarrow>
               (Inr \<lparr>success = False,
                     message = ''Product '' @ productId @ '' not found'',
                     reservationId = None,
                     remainingStock = None,
                     status = rs_product_not_found\<rparr>, s)
           | Some product \<Rightarrow>
               (let currentStock = stock product in
                if currentStock < quantity then
                  (Inr \<lparr>success = False,
                        message = ''Insufficient stock. Available: ''
                                  @ number_toString s currentStock
                                  @ '', Requested: '' @ number_toString s quantity,
                        reservationId = None,
                        remainingStock = Some currentStock,
                        status = rs_insufficient_stock\<rparr>, s)
                else
                  (let newStock = currentStock - quantity;
                       s1 = s\<lparr>products := (products s)(productId \<mapsto> product\<lparr>stock := newStock\<rparr>)\<rparr>
                   in case insert_reservation s1
                             \<lparr>r_id = uuid, r_orderId = orderId, r_productId = productId,
                              r_quantity = quantity, r_status = active,
                              r_idempotencyKey = idempotencyKey\<rparr> of
                        Inl e \<Rightarrow> (Inl e, s)
                      | Inr s2 \<Rightarrow>
                          (Inr \<lparr>success = True,
                                message = ''Stock reserved successfully'',
                                reservationId = Some uuid,
                                remainingStock = Some newStock,
                                status = rs_confirmed\<rparr>,
                           s2\<lparr>stock_audit_log := stock_audit_log s2 @
                                [\<lparr>a_productId = productId, a_operation = op_reserve,
                                  a_quantityChange = - quantity,
                                  a_previousStock = currentStock, a_newStock = newStock,
                                  a_orderId = orderId, a_reservationId = uuid,
                                  a_reason = ''order_reservation''\<rparr>]\<rparr>)))))"

text \<open>
  \<^verbatim>\<open>releaseStock(orderId, reservationId, reason)\<close>. The reservation is found by
  \<^verbatim>\<open>id\<close> and \<^verbatim>\<open>order_id\<close>; the \<^verbatim>\<open>UPDATE\<close> of its status is by \<^verbatim>\<open>id\<close>
  alone. When the product row is missing, \<^verbatim>\<open>productResult.rows[0].stock\<close> throws a
  \<^verbatim>\<open>TypeError\<close>, which is rolled back and rethrown.
\<close>

definition releaseStock ::
  "inventory \<Rightarrow> string \<Rightarrow> string \<Rightarrow> string \<Rightarrow> (js_error + ReleaseResult) \<times> inventory" where
  "releaseStock s orderId resId reason =
     (case find (\<lambda>r. r_id r = resId \<and> r_orderId r = orderId) (reservations s) of
        None \<Rightarrow>
          (Inr \<lparr>rl_success = False, rl_message = ''Reservation not found'',
                newStock = None\<rparr>, s)
      | Some reservation \<Rightarrow>
          if r_status reservation \<noteq> active then
            (Inr \<lparr>rl_success = False,
                  rl_message = ''Reservation already ''
                               @ show_reservation_status (r_status reservation),
                  newStock = None\<rparr>, s)
          else
            (case products s (r_productId reservation) of
               None \<Rightarrow>
                 (Inl (JsError ''Cannot read properties of undefined (reading stock)''), s)
             | Some product \<Rightarrow>
                 (let currentStock = stock product;
                      newStock = currentStock + r_quantity reservation
                  in (Inr \<lparr>rl_success = True, rl_message = ''Stock released successfully'',
                            newStock = Some newStock\<rparr>,
                      s\<lparr>products := (products s)
                           (r_productId reservation \<mapsto> product\<lparr>stock := newStock\<rparr>),
                        reservations :=
                           map (\<lambda>r. if r_id r = resId then r\<lparr>r_status := released\<rparr> else r)
                               (reservations s),
                        stock_audit_log := stock_audit_log s @
                           [\<lparr>a_productId = r_productId reservation, a_operation = op_release,
                             a_quantityChange = r_quantity reservation,
                             a_previousStock = currentStock, a_newStock = newStock,
                             a_orderId = orderId, a_reservationId = resId,
                             a_reason = reason\<rparr>]\<rparr>))))"

text \<open>
  \<^verbatim>\<open>findReservationByOrderId\<close>: the first row with the order id and status
  \<^verbatim>\<open>active\<close>.
\<close>

definition findReservationByOrderId :: "inventory \<Rightarrow> string \<Rightarrow> Reservation option" where
  "findReservationByOrderId s orderId =
     find (\<lambda>r. r_orderId r = orderId \<and> r_status r = active) (reservations s)"

section \<open>Inventory service: publisher, VerifyOrder consumer, gRPC handler\<close>

text \<open>
  \<^verbatim>\<open>publishInventoryEvent\<close>: without a sender the event is only logged; a failure
  of \<^verbatim>\<open>sendMessages\<close> is caught and not rethrown.
\<close>

definition publishInventoryEvent :: "inventory \<Rightarrow> InventoryEvent \<Rightarrow> inventory" where
  "publishInventoryEvent s ev =
     (if \<not> inventoryEventsSender s then s
      else if inventory_send_ok s ev then s\<lparr>inventory_events := inventory_events s @ [ev]\<rparr>
      else s)"

record VerifyOrderData =
  vo_orderId :: string
  vo_productId :: string
  vo_quantity :: int
  vo_idempotencyKey :: string
  vo_originalRequestTime :: string

text \<open>
  \<^verbatim>\<open>handleVerifyOrderMessage\<close> of \<^verbatim>\<open>verifyOrderConsumer.ts\<close>. The result is
  \<open>Some e\<close> when the handler rethrows \<open>e\<close> (the message is redelivered) and
  \<open>None\<close> when it returns (the message is completed).
\<close>

definition handleVerifyOrderMessage ::
  "string \<Rightarrow> inventory \<Rightarrow> VerifyOrderData \<Rightarrow> js_error option \<times> inventory" where
  "handleVerifyOrderMessage uuid s d =
     (case findReservationByOrderId s (vo_orderId d) of
        Some existing \<Rightarrow>
          (None, publishInventoryEvent s
             (OrderVerified (vo_orderId d) (vo_productId d) (vo_quantity d)
                vs_confirmed True (Some (r_id existing))))
      | None \<Rightarrow>
          (case reserveStock uuid s (vo_orderId d) (vo_productId d) (vo_quantity d)
                  (Some (''verify-'' @ vo_idempotencyKey d)) of
             (Inl e, s') \<Rightarrow> (Some e, s')
           | (Inr result, s') \<Rightarrow>
               if success result then
                 (None,
                  publishInventoryEvent
                    (publishInventoryEvent s'
                       (OrderVerified (vo_orderId d) (vo_productId d) (vo_quantity d)
                          vs_confirmed False (reservationId result)))
                    (StockReserved (vo_orderId d) (vo_productId d) (vo_quantity d)
                       (remainingStock result) (reservationId result)))
               else
                 (None, publishInventoryEvent s'
                    (OrderVerified (vo_orderId d) (vo_productId d) (vo_quantity d)
                       vs_not_found False None))))"

text \<open>
  The gRPC status codes the programs distinguish, and the error object a gRPC
  callback receives.
\<close>

datatype grpc_code = DEADLINE_EXCEEDED | UNAVAILABLE | INTERNAL

record grpc_error =
  code :: grpc_code
  g_message :: string

record ReleaseStockRequest =
  rq_orderId :: string
  rq_reservationId :: string
  rq_reason :: string

record ReleaseStockResponse =
  rr_success :: bool
  rr_message :: string
  rr_newStock :: int

text \<open>
  The \<^verbatim>\<open>ReleaseStock\<close> handler of \<^verbatim>\<open>inventoryHandler.ts\<close>: what it passes to the
  callback, and the state it leaves. \<^verbatim>\<open>applyGremlinLatency\<close> only delays the
  handler. \<^verbatim>\<open>result.newStock || 0\<close> is \<open>0\<close> for \<^verbatim>\<open>undefined\<close>.
\<close>

definition grpc_releaseStock ::
  "inventory \<Rightarrow> ReleaseStockRequest \<Rightarrow> (grpc_error + ReleaseStockResponse) \<times> inventory" where
  "grpc_releaseStock s rq =
     (case releaseStock s (rq_orderId rq) (rq_reservationId rq) (rq_reason rq) of
        (Inl (JsError m), s') \<Rightarrow> (Inl \<lparr>code = INTERNAL, g_message = m\<rparr>, s')
      | (Inr result, s') \<Rightarrow>
          (Inr \<lparr>rr_success = rl_success result, rr_message = rl_message result,
                rr_newStock = (case newStock result of None \<Rightarrow> 0 | Some n \<Rightarrow> n)\<rparr>,
           if rl_success result then
             publishInventoryEvent s'
               (StockReleased (rq_orderId rq) ''unknown'' 0 (newStock result) (rq_reason rq))
           else s'))"

section \<open>Inventory service: sequential runs\<close>

text \<open>
  One step of the inventory service: a call of \<^verbatim>\<open>reserveStock\<close> (with the uuid it
  draws), a call of \<^verbatim>\<open>releaseStock\<close>, or the delivery of one \<^verbatim>\<open>VerifyOrder\<close>
  message (with the uuid its \<^verbatim>\<open>reserveStock\<close> draws).
\<close>

datatype inventory_op =
    OpReserve string string string int "string option"
  | OpRelease string string string
  | OpVerify string VerifyOrderData

fun step :: "inventory \<Rightarrow> inventory_op \<Rightarrow> inventory" where
  "step s (OpReserve uuid orderId productId quantity k) =
     snd (reserveStock uuid s orderId productId quantity k)"
| "step s (OpRelease orderId resId reason) = snd (releaseStock s orderId resId reason)"
| "step s (OpVerify uuid d) = snd (handleVerifyOrderMessage uuid s d)"

definition run :: "inventory \<Rightarrow> inventory_op list \<Rightarrow> inventory" where
  "run s ops = foldl step s ops"

text \<open>The number of \<^verbatim>\<open>active\<close> reservation rows of an order.\<close>

definition active_count :: "inventory \<Rightarrow> string \<Rightarrow> nat" where
  "active_count s orderId =
     length (filter (\<lambda>r. r_orderId r = orderId \<and> r_status r = active) (reservations s))"

text \<open>No order has two \<^verbatim>\<open>active\<close> reservation rows.\<close>

definition at_most_one_active :: "inventory \<Rightarrow> bool" where
  "at_most_one_active s =
     list_all (\<lambda>r. active_count s (r_orderId r) \<le> 1) (reservations s)"

section \<open>Order service: durable state and repository\<close>

text \<open>
  The order database of \<^verbatim>\<open>order-service/init.sql\<close> and the repository functions
  (\<^verbatim>\<open>orderRepository\<close>, in \<^verbatim>\<open>src/unnamed/part_000\<close>). The table \<^verbatim>\<open>orders\<close> is
  a list of rows in insertion order. \<^verbatim>\<open>created_at\<close> and \<^verbatim>\<open>updated_at\<close> are left
  out; \<^verbatim>\<open>completed_at\<close> is kept, and \<^verbatim>\<open>CURRENT_TIMESTAMP\<close> is the first argument
  of the functions that reach it. The WebSocket broadcast and telemetry are left out.
\<close>

datatype order_status =
  pending | reserved | confirmed | failed | pending_verification | cancelled

fun show_order_status :: "order_status \<Rightarrow> string" where
  "show_order_status pending = ''pending''"
| "show_order_status reserved = ''reserved''"
| "show_order_status confirmed = ''confirmed''"
| "show_order_status failed = ''failed''"
| "show_order_status pending_verification = ''pending_verification''"
| "show_order_status cancelled = ''cancelled''"

record Order =
  o_id :: string
  o_customerId :: string
  o_productId :: string
  o_quantity :: int
  o_status :: order_status
  o_idempotencyKey :: "string option"
  o_reservationId :: "string option"
  o_completedAt :: "string option"
  o_errorMessage :: "string option"

record CreateOrderInput =
  ci_customerId :: string
  ci_productId :: string
  ci_quantity :: int
  ci_idempotencyKey :: "string option"

datatype order_event_data =
    CreatedData CreateOrderInput
  | StatusData "string option" "string option"

record OrderEventRow =
  oe_orderId :: string
  oe_eventType :: string
  oe_eventData :: order_event_data

datatype order_event_type =
  OrderCreated | OrderConfirmed | OrderFailed | OrderCancelled | OrderPendingVerification

text \<open>An event of \<^verbatim>\<open>orderPublisher.ts\<close>, without \<^verbatim>\<open>eventId\<close> and \<^verbatim>\<open>timestamp\<close>.\<close>

record OrderEvent =
  ev_eventType :: order_event_type
  ev_orderId :: string
  ev_customerId :: "string option"
  ev_productId :: "string option"
  ev_quantity :: "int option"
  ev_status :: "order_status option"
  ev_reason :: "string option"
  ev_reservationId :: "string option"

record ReserveStockRequest =
  rs_orderId :: string
  rs_productId :: string
  rs_quantity :: int
  rs_idempotencyKey :: "string option"

datatype grpc_request =
    ReserveStockCall ReserveStockRequest
  | ReleaseStockCall ReleaseStockRequest

text \<open>
  The state of the order process: the two tables, the two Service Bus senders
  (\<open>False\<close> for \<^verbatim>\<open>null\<close>), the outcome of \<^verbatim>\<open>sendMessages\<close> for each message, the
  messages the topic \<^verbatim>\<open>order-events\<close> and the queue \<^verbatim>\<open>verify-orders\<close> have
  received, and the requests the gRPC client has sent to the inventory service.
\<close>

record order_service =
  orders :: "Order list"
  order_events :: "OrderEventRow list"
  orderEventsSender :: bool
  verifyOrdersSender :: bool
  order_send_ok :: "OrderEvent \<Rightarrow> bool"
  verify_send_ok :: "VerifyOrderData \<Rightarrow> bool"
  order_events_topic :: "OrderEvent list"
  verify_orders_queue :: "VerifyOrderData list"
  grpc_requests :: "grpc_request list"

definition getOrder :: "order_service \<Rightarrow> string \<Rightarrow> Order option" where
  "getOrder s orderId = find (\<lambda>ord. o_id ord = orderId) (orders s)"

definition getOrderByIdempotencyKey :: "order_service \<Rightarrow> string \<Rightarrow> Order option" where
  "getOrderByIdempotencyKey s k = find (\<lambda>ord. o_idempotencyKey ord = Some k) (orders s)"

text \<open>
  \<^verbatim>\<open>INSERT INTO orders\<close> under the constraints of the schema: the primary key
  \<^verbatim>\<open>id\<close>, \<^verbatim>\<open>CHECK (quantity > 0)\<close> and the \<^verbatim>\<open>UNIQUE\<close> column
  \<^verbatim>\<open>idempotency_key\<close>.
\<close>

definition insert_order :: "order_service \<Rightarrow> Order \<Rightarrow> js_error + order_service" where
  "insert_order s ord =
     (if o_id ord \<in> set (map o_id (orders s))
      then Inl (JsError ''duplicate key value violates unique constraint orders_pkey'')
      else if \<not> 0 < o_quantity ord
      then Inl (JsError ''new row violates check constraint orders_quantity_check'')
      else if o_idempotencyKey ord \<noteq> None
              \<and> o_idempotencyKey ord \<in> set (map o_idempotencyKey (orders s))
      then Inl (JsError
        ''duplicate key value violates unique constraint orders_idempotency_key_key'')
      else Inr (s\<lparr>orders := orders s @ [ord]\<rparr>))"

text \<open>
  The lookup of an existing order by idempotency key, made only for a truthy key: the
  handler of \<^verbatim>\<open>POST /orders\<close> and \<^verbatim>\<open>createOrder\<close> both start with it.
\<close>

definition existing_order :: "order_service \<Rightarrow> string option \<Rightarrow> Order option" where
  "existing_order s idempotencyKey =
     (case idempotencyKey of
        None \<Rightarrow> None
      | Some k \<Rightarrow> if truthy idempotencyKey then getOrderByIdempotencyKey s k else None)"

text \<open>
  \<^verbatim>\<open>createOrder(input)\<close>; the first argument is the \<^verbatim>\<open>uuidv4()\<close> it draws for the
  id, and \<open>new_order_row\<close> is the row it inserts. An order that already holds a truthy
  key is returned as it is.
\<close>

definition new_order_row :: "string \<Rightarrow> CreateOrderInput \<Rightarrow> Order" where
  "new_order_row uuid input =
     \<lparr>o_id = uuid, o_customerId = ci_customerId input,
      o_productId = ci_productId input, o_quantity = ci_quantity input,
      o_status = pending, o_idempotencyKey = ci_idempotencyKey input,
      o_reservationId = None, o_completedAt = None, o_errorMessage = None\<rparr>"

definition createOrder ::
  "string \<Rightarrow> order_service \<Rightarrow> CreateOrderInput \<Rightarrow> (js_error + Order) \<times> order_service" where
  "createOrder uuid s input =
     (case existing_order s (ci_idempotencyKey input) of
        Some existing \<Rightarrow> (Inr existing, s)
      | None \<Rightarrow>
          (case insert_order s (new_order_row uuid input) of
             Inl e \<Rightarrow> (Inl e, s)
           | Inr s1 \<Rightarrow>
               (Inr (new_order_row uuid input),
                s1\<lparr>order_events := order_events s1 @
                     [\<lparr>oe_orderId = uuid, oe_eventType = ''OrderCreated'',
                       oe_eventData = CreatedData input\<rparr>]\<rparr>)))"

text \<open>
  \<^verbatim>\<open>updateOrderStatus(orderId, status, reservationId?, errorMessage?)\<close>:
  \<open>set_status\<close> is the \<^verbatim>\<open>SET\<close> clause the function builds, and the \<^verbatim>\<open>UPDATE\<close>
  carries no condition on the current status. The result is the updated row, or
  \<open>None\<close> (\<^verbatim>\<open>null\<close>) when no row has the id.
\<close>

definition set_status ::
  "string \<Rightarrow> order_status \<Rightarrow> string option \<Rightarrow> string option \<Rightarrow> Order \<Rightarrow> Order" where
  "set_status now st resId errorMessage ord =
     ord\<lparr>o_status := st,
         o_reservationId :=
           (case resId of None \<Rightarrow> o_reservationId ord | Some r \<Rightarrow> Some r),
         o_errorMessage :=
           (case errorMessage of None \<Rightarrow> o_errorMessage ord | Some m \<Rightarrow> Some m),
         o_completedAt :=
           (if st = confirmed \<or> st = failed \<or> st = cancelled then Some now
            else o_completedAt ord)\<rparr>"

definition updateOrderStatus ::
  "string \<Rightarrow> order_service \<Rightarrow> string \<Rightarrow> order_status \<Rightarrow> string option \<Rightarrow> string option
     \<Rightarrow> Order option \<times> order_service" where
  "updateOrderStatus now s orderId st resId errorMessage =
     (let s1 = s\<lparr>orders :=
                   map (\<lambda>ord. if o_id ord = orderId
                              then set_status now st resId errorMessage ord else ord)
                       (orders s)\<rparr>
      in case getOrder s1 orderId of
           None \<Rightarrow> (None, s1)
         | Some row \<Rightarrow>
             (Some row,
              s1\<lparr>order_events := order_events s1 @
                   [\<lparr>oe_orderId = orderId,
                     oe_eventType = ''Status_'' @ show_order_status st,
                     oe_eventData = StatusData resId errorMessage\<rparr>]\<rparr>))"

section \<open>Order service: publisher and gRPC client\<close>

text \<open>
  \<^verbatim>\<open>publishOrderEvent\<close> and \<^verbatim>\<open>sendVerifyOrderMessage\<close>: without a sender they
  return at once; a failure of \<^verbatim>\<open>sendMessages\<close> is rethrown.
\<close>

definition publishOrderEvent :: "order_service \<Rightarrow> OrderEvent \<Rightarrow> js_error + order_service" where
  "publishOrderEvent s ev =
     (if \<not> orderEventsSender s then Inr s
      else if order_send_ok s ev
      then Inr (s\<lparr>order_events_topic := order_events_topic s @ [ev]\<rparr>)
      else Inl (JsError ''sendMessages failed''))"

definition sendVerifyOrderMessage ::
  "order_service \<Rightarrow> VerifyOrderData \<Rightarrow> js_error + order_service" where
  "sendVerifyOrderMessage s m =
     (if \<not> verifyOrdersSender s then Inr s
      else if verify_send_ok s m
      then Inr (s\<lparr>verify_orders_queue := verify_orders_queue s @ [m]\<rparr>)
      else Inl (JsError ''sendMessages failed''))"

text \<open>
  What the callback of the gRPC call \<^verbatim>\<open>reserveStock\<close> receives as response, and what
  \<^verbatim>\<open>inventoryClient.reserveStock\<close> resolves to.
\<close>

record ReserveStockWire =
  w_success :: bool
  w_message :: string
  w_reservationId :: string
  w_remainingStock :: int
  w_status :: nat

datatype client_status =
  UNKNOWN | CONFIRMED | INSUFFICIENT_STOCK | PRODUCT_NOT_FOUND | ALREADY_EXISTS

record ReserveStockResponse =
  c_success :: bool
  c_message :: string
  c_reservationId :: string
  c_remainingStock :: int
  c_status :: client_status

definition statusMap :: "nat \<Rightarrow> client_status" where
  "statusMap n =
     (if n = 1 then CONFIRMED else if n = 2 then INSUFFICIENT_STOCK
      else if n = 3 then PRODUCT_NOT_FOUND else if n = 4 then ALREADY_EXISTS
      else UNKNOWN)"

text \<open>
  \<^verbatim>\<open>inventoryClient.reserveStock\<close>, applied to what the callback receives: an error
  with code \<^verbatim>\<open>DEADLINE_EXCEEDED\<close> (the deadline of \<^verbatim>\<open>GRPC_TIMEOUT_MS = 2000\<close>
  has passed) rejects with \<^verbatim>\<open>Error('TIMEOUT')\<close>, one with \<^verbatim>\<open>UNAVAILABLE\<close> with
  \<^verbatim>\<open>Error('UNAVAILABLE')\<close>, any other with the error itself.
\<close>

definition client_reserveStock ::
  "grpc_error + ReserveStockWire \<Rightarrow> js_error + ReserveStockResponse" where
  "client_reserveStock reply =
     (case reply of
        Inl e \<Rightarrow>
          if code e = DEADLINE_EXCEEDED then Inl (JsError ''TIMEOUT'')
          else if code e = UNAVAILABLE then Inl (JsError ''UNAVAILABLE'')
          else Inl (JsError (g_message e))
      | Inr response \<Rightarrow>
          Inr \<lparr>c_success = w_success response, c_message = w_message response,
                c_reservationId = w_reservationId response,
                c_remainingStock = w_remainingStock response,
                c_status = statusMap (w_status response)\<rparr>)"

section \<open>Order service: \<^verbatim>\<open>POST /orders\<close>\<close>

text \<open>
  The request as the handler reads it (a missing field is \<open>None\<close>), the response it
  sends, and what the environment supplies while the handler runs: the clock, the
  uuid drawn for the order id, the uuid drawn for a missing idempotency key, and what
  the callback of the reservation call receives. Customer and product ids are strings
  and the quantity is an integer.
\<close>

record CreateOrderRequest =
  body_customerId :: "string option"
  body_productId :: "string option"
  body_quantity :: "int option"
  body_idempotencyKey :: "string option"
  header_idempotencyKey :: "string option"

record HttpResponse =
  http_status :: nat
  body_success :: bool
  body_data :: "Order option"
  body_error :: "string option"
  body_message :: "string option"
  body_cached :: bool
  body_verificationRequired :: bool

record create_env =
  env_now :: string
  env_order_uuid :: string
  env_key_uuid :: string
  env_rpc :: "grpc_error + ReserveStockWire"

text \<open>\<^verbatim>\<open>idempotencyKey || uuidv4()\<close>.\<close>

definition requestIdempotencyKey :: "create_env \<Rightarrow> string option \<Rightarrow> string" where
  "requestIdempotencyKey env idempotencyKey =
     (case idempotencyKey of
        None \<Rightarrow> env_key_uuid env
      | Some k \<Rightarrow> if truthy idempotencyKey then k else env_key_uuid env)"

text \<open>The branch \<^verbatim>\<open>if (timedOut)\<close>.\<close>

definition reply_pending_verification ::
  "create_env \<Rightarrow> order_service \<Rightarrow> Order \<Rightarrow> string \<Rightarrow> int \<Rightarrow> string
     \<Rightarrow> (js_error + HttpResponse) \<times> order_service" where
  "reply_pending_verification env s ord productId quantity k =
     (case updateOrderStatus (env_now env) s (o_id ord) pending_verification None None of
        (_, s1) \<Rightarrow>
          (case sendVerifyOrderMessage s1
                  \<lparr>vo_orderId = o_id ord, vo_productId = productId, vo_quantity = quantity,
                   vo_idempotencyKey = k, vo_originalRequestTime = env_now env\<rparr> of
             Inl e \<Rightarrow> (Inl e, s1)
           | Inr s2 \<Rightarrow>
               (case publishOrderEvent s2
                       \<lparr>ev_eventType = OrderPendingVerification, ev_orderId = o_id ord,
                        ev_customerId = None, ev_productId = Some productId,
                        ev_quantity = Some quantity,
                        ev_status = Some pending_verification,
                        ev_reason = Some ''gRPC timeout - verification required'',
                        ev_reservationId = None\<rparr> of
                  Inl e \<Rightarrow> (Inl e, s2)
                | Inr s3 \<Rightarrow>
                    (Inr \<lparr>http_status = 202, body_success = True,
                          body_data = getOrder s3 (o_id ord), body_error = None,
                          body_message =
                            Some ''Order is being verified. Please check status later.'',
                          body_cached = False, body_verificationRequired = True\<rparr>,
                     s3))))"

text \<open>The branch \<^verbatim>\<open>if (reservationResult.success)\<close>.\<close>

definition reply_confirmed ::
  "create_env \<Rightarrow> order_service \<Rightarrow> Order \<Rightarrow> ReserveStockResponse
     \<Rightarrow> (js_error + HttpResponse) \<times> order_service" where
  "reply_confirmed env s ord result =
     (case updateOrderStatus (env_now env) s (o_id ord) confirmed
             (Some (c_reservationId result)) None of
        (_, s1) \<Rightarrow>
          (case publishOrderEvent s1
                  \<lparr>ev_eventType = OrderConfirmed, ev_orderId = o_id ord,
                   ev_customerId = None, ev_productId = None, ev_quantity = None,
                   ev_status = Some confirmed, ev_reason = None,
                   ev_reservationId = Some (c_reservationId result)\<rparr> of
             Inl e \<Rightarrow> (Inl e, s1)
           | Inr s2 \<Rightarrow>
               (Inr \<lparr>http_status = 201, body_success = True,
                     body_data = getOrder s2 (o_id ord), body_error = None,
                     body_message = None, body_cached = False,
                     body_verificationRequired = False\<rparr>,
                s2)))"

text \<open>The \<^verbatim>\<open>else\<close> branch: the reservation was refused.\<close>

definition reply_failed ::
  "create_env \<Rightarrow> order_service \<Rightarrow> Order \<Rightarrow> ReserveStockResponse
     \<Rightarrow> (js_error + HttpResponse) \<times> order_service" where
  "reply_failed env s ord result =
     (case updateOrderStatus (env_now env) s (o_id ord) failed None
             (Some (c_message result)) of
        (_, s1) \<Rightarrow>
          (case publishOrderEvent s1
                  \<lparr>ev_eventType = OrderFailed, ev_orderId = o_id ord,
                   ev_customerId = None, ev_productId = None, ev_quantity = None,
                   ev_status = Some failed, ev_reason = Some (c_message result),
                   ev_reservationId = None\<rparr> of
             Inl e \<Rightarrow> (Inl e, s1)
           | Inr s2 \<Rightarrow>
               (Inr \<lparr>http_status = 400, body_success = False,
                     body_data = getOrder s2 (o_id ord),
                     body_error = Some (c_message result),
                     body_message = None, body_cached = False,
                     body_verificationRequired = False\<rparr>,
                s2)))"

text \<open>
  The second half of the handler, from the reservation call on: the request is sent,
  \<^verbatim>\<open>inventoryClient.reserveStock\<close> resolves or rejects, a rejection with
  \<^verbatim>\<open>TIMEOUT\<close> or \<^verbatim>\<open>UNAVAILABLE\<close> sets \<^verbatim>\<open>timedOut\<close>, and any other is
  rethrown.
\<close>

definition reserve_and_reply ::
  "create_env \<Rightarrow> order_service \<Rightarrow> Order \<Rightarrow> string \<Rightarrow> int \<Rightarrow> string
     \<Rightarrow> (js_error + HttpResponse) \<times> order_service" where
  "reserve_and_reply env s ord productId quantity k =
     (let s1 = s\<lparr>grpc_requests := grpc_requests s @
                  [ReserveStockCall
                     \<lparr>rs_orderId = o_id ord, rs_productId = productId,
                      rs_quantity = quantity, rs_idempotencyKey = Some k\<rparr>]\<rparr>
      in case client_reserveStock (env_rpc env) of
           Inl (JsError errorMessage) \<Rightarrow>
             if errorMessage = ''TIMEOUT'' \<or> errorMessage = ''UNAVAILABLE''
             then reply_pending_verification env s1 ord productId quantity k
             else (Inl (JsError errorMessage), s1)
         | Inr reservationResult \<Rightarrow>
             if c_success reservationResult
             then reply_confirmed env s1 ord reservationResult
             else reply_failed env s1 ord reservationResult)"

text \<open>The reply for a request whose idempotency key already has an order.\<close>

definition cached_reply :: "Order \<Rightarrow> HttpResponse" where
  "cached_reply existingOrder =
     \<lparr>http_status = 200, body_success = True, body_data = Some existingOrder,
      body_error = None, body_message = None, body_cached = True,
      body_verificationRequired = False\<rparr>"

text \<open>
  The body of the outer \<^verbatim>\<open>try\<close> of the handler, for a request that has passed
  validation: \<open>Inl e\<close> when \<open>e\<close> reaches the outer \<^verbatim>\<open>catch\<close>.
\<close>

definition create_order_try ::
  "create_env \<Rightarrow> order_service \<Rightarrow> string \<Rightarrow> string \<Rightarrow> int \<Rightarrow> string option
     \<Rightarrow> (js_error + HttpResponse) \<times> order_service" where
  "create_order_try env s customerId productId quantity idempotencyKey =
     (case existing_order s idempotencyKey of
        Some existingOrder \<Rightarrow> (Inr (cached_reply existingOrder), s)
      | None \<Rightarrow>
          (case createOrder (env_order_uuid env) s
                  \<lparr>ci_customerId = customerId, ci_productId = productId,
                   ci_quantity = quantity,
                   ci_idempotencyKey = Some (requestIdempotencyKey env idempotencyKey)\<rparr> of
             (Inl e, s1) \<Rightarrow> (Inl e, s1)
           | (Inr ord, s1) \<Rightarrow>
               (case publishOrderEvent s1
                       \<lparr>ev_eventType = OrderCreated, ev_orderId = o_id ord,
                        ev_customerId = Some customerId, ev_productId = Some productId,
                        ev_quantity = Some quantity, ev_status = Some pending,
                        ev_reason = None, ev_reservationId = None\<rparr> of
                  Inl e \<Rightarrow> (Inl e, s1)
                | Inr s2 \<Rightarrow>
                    reserve_and_reply env s2 ord productId quantity
                      (requestIdempotencyKey env idempotencyKey))))"

definition bad_request :: "string \<Rightarrow> HttpResponse" where
  "bad_request e =
     \<lparr>http_status = 400, body_success = False, body_data = None, body_error = Some e,
      body_message = None, body_cached = False, body_verificationRequired = False\<rparr>"

definition internal_error :: "string \<Rightarrow> HttpResponse" where
  "internal_error e =
     \<lparr>http_status = 500, body_success = False, body_data = None, body_error = Some e,
      body_message = None, body_cached = False, body_verificationRequired = False\<rparr>"

text \<open>
  Validation: \<^verbatim>\<open>!customerId || !productId || !quantity\<close> holds for a missing field,
  an empty string and the quantity \<open>0\<close>.
\<close>

definition valid_request :: "CreateOrderRequest \<Rightarrow> bool" where
  "valid_request req =
     (truthy (body_customerId req) \<and> truthy (body_productId req)
      \<and> (case body_quantity req of None \<Rightarrow> False | Some q \<Rightarrow> 0 < q))"

text \<open>\<^verbatim>\<open>req.headers['idempotency-key'] || bodyIdempotencyKey\<close>.\<close>

definition request_key :: "CreateOrderRequest \<Rightarrow> string option" where
  "request_key req =
     (if truthy (header_idempotencyKey req) then header_idempotencyKey req
      else body_idempotencyKey req)"

text \<open>The handler of \<^verbatim>\<open>POST /orders\<close>.\<close>

definition post_orders ::
  "create_env \<Rightarrow> order_service \<Rightarrow> CreateOrderRequest \<Rightarrow> HttpResponse \<times> order_service" where
  "post_orders env s req =
     (case (body_customerId req, body_productId req, body_quantity req) of
        (Some customerId, Some productId, Some quantity) \<Rightarrow>
          if customerId = [] \<or> productId = [] \<or> quantity = 0
          then (bad_request ''Missing required fields: customerId, productId, quantity'', s)
          else if quantity \<le> 0
          then (bad_request ''Quantity must be positive'', s)
          else (case create_order_try env s customerId productId quantity (request_key req) of
                  (Inl (JsError m), s') \<Rightarrow> (internal_error m, s')
                | (Inr response, s') \<Rightarrow> (response, s'))
      | _ \<Rightarrow> (bad_request ''Missing required fields: customerId, productId, quantity'', s))"

section \<open>Order service: \<^verbatim>\<open>POST /orders/:id/cancel\<close>\<close>

definition http_reply ::
  "nat \<Rightarrow> bool \<Rightarrow> Order option \<Rightarrow> string option \<Rightarrow> HttpResponse" where
  "http_reply st ok d e =
     \<lparr>http_status = st, body_success = ok, body_data = d, body_error = e,
      body_message = None, body_cached = False, body_verificationRequired = False\<rparr>"

text \<open>
  The cancel handler. The call of \<^verbatim>\<open>inventoryClient.releaseStock\<close> is made for a
  confirmed order with a truthy reservation id; its result is not read and its error
  is caught, so only the request that was sent is recorded.
\<close>

definition post_cancel ::
  "string \<Rightarrow> order_service \<Rightarrow> string \<Rightarrow> HttpResponse \<times> order_service" where
  "post_cancel now s orderId =
     (case getOrder s orderId of
        None \<Rightarrow> (http_reply 404 False None (Some ''Order not found''), s)
      | Some ord \<Rightarrow>
          if o_status ord = cancelled
          then (http_reply 400 False None (Some ''Order is already cancelled''), s)
          else if o_status ord = failed
          then (http_reply 400 False None (Some ''Cannot cancel a failed order''), s)
          else
            (let s1 = (case o_reservationId ord of
                         Some resId \<Rightarrow>
                           if o_status ord = confirmed \<and> truthy (o_reservationId ord)
                           then s\<lparr>grpc_requests := grpc_requests s @
                                    [ReleaseStockCall
                                       \<lparr>rq_orderId = o_id ord, rq_reservationId = resId,
                                        rq_reason = ''Order cancelled by user''\<rparr>]\<rparr>
                           else s
                       | None \<Rightarrow> s)
             in case updateOrderStatus now s1 (o_id ord) cancelled None None of
                  (_, s2) \<Rightarrow>
                    (case publishOrderEvent s2
                            \<lparr>ev_eventType = OrderCancelled, ev_orderId = o_id ord,
                             ev_customerId = None, ev_productId = None, ev_quantity = None,
                             ev_status = Some cancelled,
                             ev_reason = Some ''Cancelled by user'',
                             ev_reservationId = None\<rparr> of
                       Inl (JsError m) \<Rightarrow> (http_reply 500 False None (Some m), s2)
                     | Inr s3 \<Rightarrow>
                         (http_reply 200 True (getOrder s3 (o_id ord)) None, s3))))"

section \<open>Order service: consumer of \<^verbatim>\<open>inventory-events\<close>\<close>

text \<open>
  The payload \<^verbatim>\<open>event.data\<close> as the handlers read it: every field but the order id
  may be missing.
\<close>

record InventoryEventData =
  d_orderId :: string
  d_reservationId :: "string option"
  d_reason :: "string option"
  d_status :: "string option"
  d_recoveredFromCrash :: "bool option"
  d_verified :: "bool option"

text \<open>
  The handlers return \<open>Some e\<close> when they throw \<open>e\<close> (the message is retried) and
  \<open>None\<close> otherwise.
\<close>

definition handleStockReserved ::
  "string \<Rightarrow> order_service \<Rightarrow> InventoryEventData \<Rightarrow> js_error option \<times> order_service" where
  "handleStockReserved now s d =
     (case updateOrderStatus now s (d_orderId d) confirmed (d_reservationId d) None of
        (None, s1) \<Rightarrow> (None, s1)
      | (Some ord, s1) \<Rightarrow>
          (case publishOrderEvent s1
                  \<lparr>ev_eventType = OrderConfirmed, ev_orderId = d_orderId d,
                   ev_customerId = None, ev_productId = None, ev_quantity = None,
                   ev_status = Some confirmed, ev_reason = None,
                   ev_reservationId = d_reservationId d\<rparr> of
             Inl e \<Rightarrow> (Some e, s1)
           | Inr s2 \<Rightarrow> (None, s2)))"

definition handleVerificationComplete ::
  "string \<Rightarrow> order_service \<Rightarrow> InventoryEventData \<Rightarrow> js_error option \<times> order_service" where
  "handleVerificationComplete now s d =
     (let verified = (case d_verified d of
                        Some v \<Rightarrow> v
                      | None \<Rightarrow> d_status d = Some ''confirmed'');
          reason = (if truthy (d_reason d) then d_reason d
                    else Some ''Verification failed - no reservation found'')
      in case getOrder s (d_orderId d) of
           None \<Rightarrow> (None, s)
         | Some ord \<Rightarrow>
             if o_status ord \<noteq> pending_verification then (None, s)
             else if verified then
               (case updateOrderStatus now s (d_orderId d) confirmed (d_reservationId d) None of
                  (_, s1) \<Rightarrow>
                    (case publishOrderEvent s1
                            \<lparr>ev_eventType = OrderConfirmed, ev_orderId = d_orderId d,
                             ev_customerId = None, ev_productId = None, ev_quantity = None,
                             ev_status = Some confirmed,
                             ev_reason = Some (''Verified via Schr'' @ [CHR 0xC3, CHR 0xB6]
                                               @ ''dinger recovery''),
                             ev_reservationId = d_reservationId d\<rparr> of
                       Inl e \<Rightarrow> (Some e, s1)
                     | Inr s2 \<Rightarrow> (None, s2)))
             else
               (case updateOrderStatus now s (d_orderId d) failed None reason of
                  (_, s1) \<Rightarrow>
                    (case publishOrderEvent s1
                            \<lparr>ev_eventType = OrderFailed, ev_orderId = d_orderId d,
                             ev_customerId = None, ev_productId = None, ev_quantity = None,
                             ev_status = Some failed, ev_reason = reason,
                             ev_reservationId = None\<rparr> of
                       Inl e \<Rightarrow> (Some e, s1)
                     | Inr s2 \<Rightarrow> (None, s2))))"

text \<open>
  \<^verbatim>\<open>processMessage\<close>: the dispatch on \<^verbatim>\<open>event.eventType\<close>.
  \<^verbatim>\<open>handleStockReleased\<close> only logs.
\<close>

definition processMessage ::
  "string \<Rightarrow> order_service \<Rightarrow> string \<Rightarrow> InventoryEventData
     \<Rightarrow> js_error option \<times> order_service" where
  "processMessage now s eventType d =
     (if eventType = ''StockReserved'' then handleStockReserved now s d
      else if eventType = ''StockReleased'' then (None, s)
      else if eventType = ''OrderVerified'' \<or> eventType = ''VerificationComplete''
      then handleVerificationComplete now s d
      else (None, s))"

text \<open>The status of the order with a given id, if there is one.\<close>

definition order_status_of :: "order_service \<Rightarrow> string \<Rightarrow> order_status option" where
  "order_status_of s orderId = map_option o_status (getOrder s orderId)"

definition terminal :: "order_status \<Rightarrow> bool" where
  "terminal st = (st = confirmed \<or> st = failed \<or> st = cancelled)"

section \<open>Schema constraints and sample data\<close>

text \<open>
  The constraints of \<^verbatim>\<open>reservations\<close> that every insert above maintains: ids are
  distinct and no two rows share a non-null idempotency key.
\<close>

definition reservations_wf :: "inventory \<Rightarrow> bool" where
  "reservations_wf s =
     (distinct (map r_id (reservations s))
      \<and> distinct (filter (\<lambda>k. k \<noteq> None) (map r_idempotencyKey (reservations s))))"

text \<open>
  The inventory after \<^verbatim>\<open>init.sql\<close> (three of its sample products), connected to
  a bus that accepts every message.
\<close>

definition shop :: inventory where
  "shop =
     \<lparr>products =
        [''SKU-001'' \<mapsto> \<lparr>p_name = ''Gaming Console X'', stock = 50,
                         lowStockThreshold = 10\<rparr>,
         ''SKU-002'' \<mapsto> \<lparr>p_name = ''Wireless Controller'', stock = 200,
                         lowStockThreshold = 20\<rparr>,
         ''SKU-003'' \<mapsto> \<lparr>p_name = ''Gaming Headset Pro'', stock = 100,
                         lowStockThreshold = 15\<rparr>],
      reservations = [], stock_audit_log = [], inventoryEventsSender = True,
      inventory_send_ok = (\<lambda>_. True), inventory_events = [],
      number_toString = show_int\<rparr>"

text \<open>The order service with empty tables, connected to a bus that accepts every message.\<close>

definition office :: order_service where
  "office =
     \<lparr>orders = [], order_events = [], orderEventsSender = True,
      verifyOrdersSender = True, order_send_ok = (\<lambda>_. True),
      verify_send_ok = (\<lambda>_. True), order_events_topic = [],
      verify_orders_queue = [], grpc_requests = []\<rparr>"

text \<open>A request for three controllers with the header \<^verbatim>\<open>Idempotency-Key: k-42\<close>.\<close>

definition request_k42 :: CreateOrderRequest where
  "request_k42 =
     \<lparr>body_customerId = Some ''C1'', body_productId = Some ''SKU-002'',
      body_quantity = Some 3, body_idempotencyKey = None,
      header_idempotencyKey = Some ''k-42''\<rparr>"

text \<open>
  Three environments of a request: the reservation call answers with a confirmed
  reservation, it runs into the deadline, and (for a second request) it answers again.
\<close>

definition env_confirmed :: create_env where
  "env_confirmed =
     \<lparr>env_now = ''2024-01-01T10:00:00Z'', env_order_uuid = ''order-1'',
      env_key_uuid = ''key-1'',
      env_rpc = Inr \<lparr>w_success = True, w_message = ''Stock reserved successfully'',
                       w_reservationId = ''res-1'', w_remainingStock = 197,
                       w_status = 1\<rparr>\<rparr>"

definition env_timeout :: create_env where
  "env_timeout =
     \<lparr>env_now = ''2024-01-01T10:00:00Z'', env_order_uuid = ''order-1'',
      env_key_uuid = ''key-1'',
      env_rpc = Inl \<lparr>code = DEADLINE_EXCEEDED, g_message = ''Deadline exceeded''\<rparr>\<rparr>"

definition env_second :: create_env where
  "env_second =
     \<lparr>env_now = ''2024-01-01T10:05:00Z'', env_order_uuid = ''order-2'',
      env_key_uuid = ''key-2'',
      env_rpc = Inr \<lparr>w_success = True, w_message = ''Stock reserved successfully'',
                       w_reservationId = ''res-2'', w_remainingStock = 194,
                       w_status = 1\<rparr>\<rparr>"

definition verify_order_1 :: VerifyOrderData where
  "verify_order_1 =
     \<lparr>vo_orderId = ''order-1'', vo_productId = ''SKU-002'', vo_quantity = 3,
      vo_idempotencyKey = ''k-42'',
      vo_originalRequestTime = ''2024-01-01T10:00:02Z''\<rparr>"

text \<open>
  The shop after one reservation of three controllers for \<^verbatim>\<open>order-1\<close> under the
  key \<^verbatim>\<open>k-42\<close>, and after the same reservation made with the empty string as key.
\<close>

definition shop_reserved :: inventory where
  "shop_reserved =
     snd (reserveStock ''res-1'' shop ''order-1'' ''SKU-002'' 3 (Some ''k-42''))"

definition shop_empty_key :: inventory where
  "shop_empty_key =
     snd (reserveStock ''res-1'' shop ''order-1'' ''SKU-002'' 3 (Some []))"

text \<open>
  Two runs of the inventory service from the shop. In the first, the
  \<^verbatim>\<open>VerifyOrder\<close> message of \<^verbatim>\<open>order-1\<close> is handled before the reservation
  call of the same order, delayed beyond its deadline, commits. In the second, the
  reservation call commits before the message is handled.
\<close>

definition racing_ops :: "inventory_op list" where
  "racing_ops =
     [OpVerify ''res-1'' verify_order_1,
      OpReserve ''res-2'' ''order-1'' ''SKU-002'' 3 (Some ''k-42'')]"

definition in_time_ops :: "inventory_op list" where
  "in_time_ops =
     [OpReserve ''res-1'' ''order-1'' ''SKU-002'' 3 (Some ''k-42''),
      OpVerify ''res-2'' verify_order_1]"

text \<open>A \<^verbatim>\<open>VerifyOrder\<close> message for more controllers than the shop has.\<close>

definition verify_order_big :: VerifyOrderData where
  "verify_order_big =
     \<lparr>vo_orderId = ''order-7'', vo_productId = ''SKU-002'', vo_quantity = 500,
      vo_idempotencyKey = ''k-77'',
      vo_originalRequestTime = ''2024-01-01T11:00:02Z''\<rparr>"

text \<open>The request the cancel handler sends for \<^verbatim>\<open>order-1\<close>.\<close>

definition release_order_1 :: ReleaseStockRequest where
  "release_order_1 =
     \<lparr>rq_orderId = ''order-1'', rq_reservationId = ''res-1'',
      rq_reason = ''Order cancelled by user''\<rparr>"

text \<open>
  States of the order service: after the request \<^verbatim>\<open>k-42\<close> was confirmed; after it
  ran into the deadline; and after the order left in \<^verbatim>\<open>pending_verification\<close> was
  cancelled. Then the events the consumer may receive for \<^verbatim>\<open>order-1\<close>.
\<close>

definition office_confirmed :: order_service where
  "office_confirmed = snd (post_orders env_confirmed office request_k42)"

definition office_pending :: order_service where
  "office_pending = snd (post_orders env_timeout office request_k42)"

definition office_cancelled :: order_service where
  "office_cancelled = snd (post_cancel ''2024-01-01T10:01:00Z'' office_pending ''order-1'')"

definition stock_reserved_order_1 :: InventoryEventData where
  "stock_reserved_order_1 =
     \<lparr>d_orderId = ''order-1'', d_reservationId = Some ''res-1'', d_reason = None,
      d_status = None, d_recoveredFromCrash = None, d_verified = None\<rparr>"

definition order_verified_order_1 :: InventoryEventData where
  "order_verified_order_1 =
     \<lparr>d_orderId = ''order-1'', d_reservationId = Some ''res-1'', d_reason = None,
      d_status = Some ''confirmed'', d_recoveredFromCrash = Some True,
      d_verified = None\<rparr>"

text \<open>
  Further environments of a request: the inventory service refuses the reservation,
  and the call fails with gRPC code \<^verbatim>\<open>INTERNAL\<close>. And a request without a quantity.
\<close>

definition env_refused :: create_env where
  "env_refused =
     \<lparr>env_now = ''2024-01-01T10:00:00Z'', env_order_uuid = ''order-1'',
      env_key_uuid = ''key-1'',
      env_rpc = Inr \<lparr>w_success = False,
                       w_message = ''Insufficient stock. Available: 200, Requested: 500'',
                       w_reservationId = [], w_remainingStock = 200,
                       w_status = 2\<rparr>\<rparr>"

definition env_internal :: create_env where
  "env_internal =
     \<lparr>env_now = ''2024-01-01T10:00:00Z'', env_order_uuid = ''order-1'',
      env_key_uuid = ''key-1'',
      env_rpc = Inl \<lparr>code = INTERNAL,
                       g_message = ''SCHRODINGER_CRASH: Service crashed after DB commit''\<rparr>\<rparr>"

definition request_no_quantity :: CreateOrderRequest where
  "request_no_quantity =
     \<lparr>body_customerId = Some ''C1'', body_productId = Some ''SKU-002'',
      body_quantity = None, body_idempotencyKey = None,
      header_idempotencyKey = Some ''k-42''\<rparr>"


text \<open>A request whose body carries the empty string as idempotency key, without header.\<close>

definition request_empty_key :: CreateOrderRequest where
  "request_empty_key =
     \<lparr>body_customerId = Some ''C1'', body_productId = Some ''SKU-002'',
      body_quantity = Some 3, body_idempotencyKey = Some [],
      header_idempotencyKey = None\<rparr>"

text \<open>
  The order service in offline mode (both senders \<^verbatim>\<open>null\<close>), and connected to a bus
  whose queue \<^verbatim>\<open>verify-orders\<close> refuses every message.
\<close>

definition office_offline :: order_service where
  "office_offline = office\<lparr>orderEventsSender := False, verifyOrdersSender := False\<rparr>"

definition office_queue_down :: order_service where
  "office_queue_down = office\<lparr>verify_send_ok := (\<lambda>_. False)\<rparr>"

text \<open>
  The request \<^verbatim>\<open>k-42\<close> while its reservation call is pending: the order row that
  \<^verbatim>\<open>createOrder\<close> has returned to the handler, and the state of the service after
  the insert and the publication of \<^verbatim>\<open>OrderCreated\<close>.
\<close>

definition order_1_pending :: Order where
  "order_1_pending =
     new_order_row ''order-1''
       \<lparr>ci_customerId = ''C1'', ci_productId = ''SKU-002'', ci_quantity = 3,
        ci_idempotencyKey = Some ''k-42''\<rparr>"

definition office_created :: order_service where
  "office_created =
     (case createOrder ''order-1'' office
             \<lparr>ci_customerId = ''C1'', ci_productId = ''SKU-002'', ci_quantity = 3,
              ci_idempotencyKey = Some ''k-42''\<rparr> of
        (_, s1) \<Rightarrow>
          (case publishOrderEvent s1
                  \<lparr>ev_eventType = OrderCreated, ev_orderId = ''order-1'',
                   ev_customerId = Some ''C1'', ev_productId = Some ''SKU-002'',
                   ev_quantity = Some 3, ev_status = Some pending,
                   ev_reason = None, ev_reservationId = None\<rparr> of
             Inl _ \<Rightarrow> s1
           | Inr s2 \<Rightarrow> s2))"

section \<open>Inventory service: lemmas\<close>

lemma reserveStock_existing:
  "existing_reservation s k = Some existing \<Longrightarrow>
   reserveStock uuid s orderId productId quantity k =
     (Inr \<lparr>success = True, message = ''Reservation already exists (idempotent)'',
           reservationId = Some (r_id existing), remainingStock = None,
           status = rs_already_exists\<rparr>, s)"
  by (simp add: reserveStock_def)

lemma reserveStock_not_found:
  "existing_reservation s k = None \<Longrightarrow> products s productId = None \<Longrightarrow>
   reserveStock uuid s orderId productId quantity k =
     (Inr \<lparr>success = False, message = ''Product '' @ productId @ '' not found'',
           reservationId = None, remainingStock = None,
           status = rs_product_not_found\<rparr>, s)"
  by (simp add: reserveStock_def)

lemma reserveStock_insufficient:
  "existing_reservation s k = None \<Longrightarrow> products s productId = Some product \<Longrightarrow>
   stock product < quantity \<Longrightarrow>
   reserveStock uuid s orderId productId quantity k =
     (Inr \<lparr>success = False,
           message = ''Insufficient stock. Available: ''
                     @ number_toString s (stock product)
                     @ '', Requested: '' @ number_toString s quantity,
           reservationId = None, remainingStock = Some (stock product),
           status = rs_insufficient_stock\<rparr>, s)"
  by (simp add: reserveStock_def Let_def)

lemma reserveStock_ok:
  "existing_reservation s k = None \<Longrightarrow> products s productId = Some product \<Longrightarrow>
   quantity \<le> stock product \<Longrightarrow>
   uuid \<notin> set (map r_id (reservations s)) \<Longrightarrow>
   k = None \<or> k \<notin> set (map r_idempotencyKey (reservations s)) \<Longrightarrow>
   reserveStock uuid s orderId productId quantity k =
     (Inr \<lparr>success = True, message = ''Stock reserved successfully'',
           reservationId = Some uuid, remainingStock = Some (stock product - quantity),
           status = rs_confirmed\<rparr>,
      s\<lparr>products := (products s)(productId \<mapsto> product\<lparr>stock := stock product - quantity\<rparr>),
        reservations := reservations s @
          [\<lparr>r_id = uuid, r_orderId = orderId, r_productId = productId,
            r_quantity = quantity, r_status = active, r_idempotencyKey = k\<rparr>],
        stock_audit_log := stock_audit_log s @
          [\<lparr>a_productId = productId, a_operation = op_reserve,
            a_quantityChange = - quantity,
            a_previousStock = stock product, a_newStock = stock product - quantity,
            a_orderId = orderId, a_reservationId = uuid,
            a_reason = ''order_reservation''\<rparr>]\<rparr>)"
  by (auto simp add: reserveStock_def insert_reservation_def Let_def)

lemma find_None_filter: "find P xs = None \<longleftrightarrow> filter P xs = []"
  by (induction xs) auto

lemma find_Some_props: "find P xs = Some x \<Longrightarrow> P x \<and> x \<in> set xs"
  by (induction xs) (auto split: if_splits)

lemma existing_None_truthy:
  "k \<noteq> [] \<Longrightarrow> existing_reservation s (Some k) = None \<Longrightarrow>
   Some k \<notin> set (map r_idempotencyKey (reservations s))"
  by (auto simp: existing_reservation_def find_by_idempotency_key_def find_None_filter filter_empty_conv)

lemma reserveStock_reservations:
  "reservations (snd (reserveStock uuid s orderId productId quantity k)) = reservations s \<or>
   reservations (snd (reserveStock uuid s orderId productId quantity k)) = reservations s @
          [\<lparr>r_id = uuid, r_orderId = orderId, r_productId = productId,
            r_quantity = quantity, r_status = active, r_idempotencyKey = k\<rparr>]"
  by (simp add: reserveStock_def insert_reservation_def Let_def split: option.splits)

lemma active_count_append:
  "reservations s' = reservations s @ [r] \<Longrightarrow>
   active_count s' oid = active_count s oid + (if r_orderId r = oid \<and> r_status r = active then 1 else 0)"
  by (simp add: active_count_def)

lemma at_most_one_active_iff:
  "at_most_one_active s \<longleftrightarrow> (\<forall>oid. active_count s oid \<le> 1)"
proof
  assume a: "at_most_one_active s"
  show "\<forall>oid. active_count s oid \<le> 1"
  proof
    fix oid
    show "active_count s oid \<le> 1"
    proof (cases "filter (\<lambda>r. r_orderId r = oid \<and> r_status r = active) (reservations s)")
      case Nil
      then show ?thesis by (simp add: active_count_def)
    next
      case (Cons r rs)
      then have "r \<in> set (filter (\<lambda>r. r_orderId r = oid \<and> r_status r = active) (reservations s))"
        by simp
      then have "r \<in> set (reservations s)" "r_orderId r = oid" by auto
      with a show ?thesis by (auto simp: at_most_one_active_def list_all_iff)
    qed
  qed
next
  assume "\<forall>oid. active_count s oid \<le> 1"
  then show "at_most_one_active s" by (simp add: at_most_one_active_def list_all_iff)
qed

lemma findReservation_None_count:
  "findReservationByOrderId s oid = None \<longleftrightarrow> active_count s oid = 0"
  by (simp add: findReservationByOrderId_def active_count_def find_None_filter)

lemma reserveStock_preserves:
  assumes "at_most_one_active s" "findReservationByOrderId s orderId = None"
  shows "at_most_one_active (snd (reserveStock uuid s orderId productId quantity k))"
proof -
  let ?s' = "snd (reserveStock uuid s orderId productId quantity k)"
  let ?row = "\<lparr>r_id = uuid, r_orderId = orderId, r_productId = productId,
            r_quantity = quantity, r_status = active, r_idempotencyKey = k\<rparr>"
  consider (same) "reservations ?s' = reservations s"
    | (added) "reservations ?s' = reservations s @ [?row]"
    using reserveStock_reservations[of uuid s orderId productId quantity k] by auto
  then show ?thesis
  proof cases
    case same
    with assms(1) show ?thesis by (simp add: at_most_one_active_iff active_count_def)
  next
    case added
    from assms(2) have z: "active_count s orderId = 0" by (simp add: findReservation_None_count)
    have "active_count ?s' oid \<le> 1" for oid
    proof -
      from assms(1) have "active_count s oid \<le> 1" by (simp add: at_most_one_active_iff)
      with z show ?thesis
        by (cases "oid = orderId") (simp_all add: active_count_append[OF added])
    qed
    then show ?thesis by (simp add: at_most_one_active_iff)
  qed
qed

lemma filter_map_release_le:
  "length (filter (\<lambda>r. r_orderId r = oid \<and> r_status r = active)
       (map (\<lambda>r. if r_id r = resId then r\<lparr>r_status := released\<rparr> else r) xs))
   \<le> length (filter (\<lambda>r. r_orderId r = oid \<and> r_status r = active) xs)"
  by (induction xs) auto

lemma releaseStock_active_count:
  "active_count (snd (releaseStock s orderId resId reason)) oid \<le> active_count s oid"
proof -
  have "reservations (snd (releaseStock s orderId resId reason)) = reservations s \<or>
        reservations (snd (releaseStock s orderId resId reason)) =
          map (\<lambda>r. if r_id r = resId then r\<lparr>r_status := released\<rparr> else r) (reservations s)"
    by (simp add: releaseStock_def Let_def split: option.splits)
  then show ?thesis
    using filter_map_release_le[of oid resId "reservations s"]
    by (auto simp: active_count_def)
qed

lemma releaseStock_preserves:
  "at_most_one_active s \<Longrightarrow> at_most_one_active (snd (releaseStock s orderId resId reason))"
  unfolding at_most_one_active_iff
  by (meson releaseStock_active_count le_trans)

lemma publish_reservations [simp]:
  "reservations (publishInventoryEvent s ev) = reservations s"
  by (simp add: publishInventoryEvent_def)

lemma publish_at_most [simp]:
  "at_most_one_active (publishInventoryEvent s ev) = at_most_one_active s"
  by (simp add: at_most_one_active_def active_count_def)

lemma handler_preserves:
  assumes "at_most_one_active s"
  shows "at_most_one_active (snd (handleVerifyOrderMessage uuid s d))"
proof (cases "findReservationByOrderId s (vo_orderId d)")
  case None
  from reserveStock_preserves[OF assms None, of uuid "vo_productId d" "vo_quantity d" "Some (''verify-'' @ vo_idempotencyKey d)"]
  show ?thesis using None
    by (auto simp: handleVerifyOrderMessage_def split: prod.splits sum.splits)
next
  case (Some a)
  then show ?thesis using assms by (simp add: handleVerifyOrderMessage_def)
qed

lemma distinct_keys_le1:
  "distinct (filter (\<lambda>k. k \<noteq> None) (map f xs)) \<Longrightarrow>
   length (filter (\<lambda>r. f r = Some k) xs) \<le> 1"
proof (induction xs)
  case Nil
  then show ?case by simp
next
  case (Cons x xs)
  show ?case
  proof (cases "f x = Some k")
    case True
    with Cons.prems have "Some k \<notin> set (map f xs)" by simp
    then have "filter (\<lambda>r. f r = Some k) xs = []"
      by (force simp: filter_empty_conv)
    with True show ?thesis by simp
  next
    case False
    with Cons.prems have "distinct (filter (\<lambda>k. k \<noteq> None) (map f xs))"
      by (cases "f x") simp_all
    with Cons.IH False show ?thesis by simp
  qed
qed

lemma find_Some_filter_ge1:
  "find P xs = Some x \<Longrightarrow> 1 \<le> length (filter P xs)"
  by (induction xs) (auto split: if_splits)

lemma find_append_None:
  "find P xs = None \<Longrightarrow> find P (xs @ ys) = find P ys"
  by (induction xs) (auto split: if_splits)

lemma reserveStock_success_cases:
  assumes "reserveStock uuid s orderId productId quantity k = (Inr r, s')" "success r"
  shows "(\<exists>existing. existing_reservation s k = Some existing \<and> s' = s
            \<and> reservationId r = Some (r_id existing) \<and> status r = rs_already_exists)
       \<or> (existing_reservation s k = None \<and> reservationId r = Some uuid
            \<and> status r = rs_confirmed
            \<and> reservations s' = reservations s @
                 [\<lparr>r_id = uuid, r_orderId = orderId, r_productId = productId,
                   r_quantity = quantity, r_status = active, r_idempotencyKey = k\<rparr>])"
  using assms
  by (auto simp add: reserveStock_def insert_reservation_def Let_def
           split: option.splits if_splits)

lemma reserveStock_bus [simp]:
  "inventoryEventsSender (snd (reserveStock uuid s orderId productId quantity k)) = inventoryEventsSender s"
  "inventory_send_ok (snd (reserveStock uuid s orderId productId quantity k)) = inventory_send_ok s"
  "inventory_events (snd (reserveStock uuid s orderId productId quantity k)) = inventory_events s"
  by (simp_all add: reserveStock_def insert_reservation_def Let_def split: option.splits)

lemma reserveStock_failure_state:
  "reserveStock uuid s orderId productId quantity k = (Inr result, s') \<Longrightarrow>
   \<not> success result \<Longrightarrow> s' = s"
  by (auto simp add: reserveStock_def insert_reservation_def Let_def split: option.splits if_splits)

lemma releaseStock_success_cases:
  assumes "releaseStock s orderId resId reason = (Inr result, s')" "rl_success result"
  shows "\<exists>reservation product.
           find (\<lambda>r. r_id r = resId \<and> r_orderId r = orderId) (reservations s) = Some reservation
         \<and> r_status reservation = active
         \<and> products s (r_productId reservation) = Some product
         \<and> newStock result = Some (stock product + r_quantity reservation)
         \<and> s' = s\<lparr>products := (products s)
                     (r_productId reservation \<mapsto>
                        product\<lparr>stock := stock product + r_quantity reservation\<rparr>),
                   reservations :=
                     map (\<lambda>r. if r_id r = resId then r\<lparr>r_status := released\<rparr> else r)
                         (reservations s),
                   stock_audit_log := stock_audit_log s @
                     [\<lparr>a_productId = r_productId reservation, a_operation = op_release,
                       a_quantityChange = r_quantity reservation,
                       a_previousStock = stock product,
                       a_newStock = stock product + r_quantity reservation,
                       a_orderId = orderId, a_reservationId = resId,
                       a_reason = reason\<rparr>]\<rparr>"
  using assms
  by (auto simp add: releaseStock_def Let_def split: option.splits if_splits)

lemma show_int_50: "show_int 50 = ''50''" and show_int_100: "show_int 100 = ''100''"
  by (simp_all add: show_int_def show_nat.simps)

lemma shop_products:
  "products shop ''SKU-002'' = Some \<lparr>p_name = ''Wireless Controller'', stock = 200, lowStockThreshold = 20\<rparr>"
  "products shop ''SKU-001'' = Some \<lparr>p_name = ''Gaming Console X'', stock = 50, lowStockThreshold = 10\<rparr>"
  "products shop ''SKU-999'' = None"
  "reservations shop = []"
  "stock_audit_log shop = []"
  "number_toString shop = show_int"
  by (simp_all add: shop_def)

lemma shop_existing: "existing_reservation shop k = None"
  by (simp add: existing_reservation_def find_by_idempotency_key_def shop_def split: option.splits)

lemma shop_reserved_eq:
  "shop_reserved = shop\<lparr>products := (products shop)
                (''SKU-002'' \<mapsto> \<lparr>p_name = ''Wireless Controller'', stock = 197, lowStockThreshold = 20\<rparr>),
           reservations :=
             [\<lparr>r_id = ''res-1'', r_orderId = ''order-1'', r_productId = ''SKU-002'',
               r_quantity = 3, r_status = active, r_idempotencyKey = Some ''k-42''\<rparr>],
           stock_audit_log :=
             [\<lparr>a_productId = ''SKU-002'', a_operation = op_reserve,
               a_quantityChange = - 3,
               a_previousStock = 200,
               a_newStock = 197,
               a_orderId = ''order-1'', a_reservationId = ''res-1'',
               a_reason = ''order_reservation''\<rparr>]\<rparr>"
  unfolding shop_reserved_def
  by (simp add: reserveStock_ok[OF shop_existing shop_products(1)] shop_products)

lemma shop_reserved_existing:
  "existing_reservation shop_reserved (Some ''k-42'') =
     Some \<lparr>r_id = ''res-1'', r_orderId = ''order-1'', r_productId = ''SKU-002'',
               r_quantity = 3, r_status = active, r_idempotencyKey = Some ''k-42''\<rparr>"
  by (simp add: shop_reserved_eq existing_reservation_def find_by_idempotency_key_def)

lemma shop_empty_key_eq:
  "shop_empty_key = shop\<lparr>products := (products shop)
                (''SKU-002'' \<mapsto> \<lparr>p_name = ''Wireless Controller'', stock = 197, lowStockThreshold = 20\<rparr>),
           reservations :=
             [\<lparr>r_id = ''res-1'', r_orderId = ''order-1'', r_productId = ''SKU-002'',
               r_quantity = 3, r_status = active, r_idempotencyKey = Some []\<rparr>],
           stock_audit_log :=
             [\<lparr>a_productId = ''SKU-002'', a_operation = op_reserve,
               a_quantityChange = - 3,
               a_previousStock = 200,
               a_newStock = 197,
               a_orderId = ''order-1'', a_reservationId = ''res-1'',
               a_reason = ''order_reservation''\<rparr>]\<rparr>"
  unfolding shop_empty_key_def
  by (simp add: reserveStock_ok[OF shop_existing shop_products(1)] shop_products)

lemma shop_find_none: "findReservationByOrderId shop orderId = None"
  by (simp add: findReservationByOrderId_def shop_def)

lemma racing_reservations:
  "reservations (run shop racing_ops) =
     [\<lparr>r_id = ''res-1'', r_orderId = ''order-1'', r_productId = ''SKU-002'',
       r_quantity = 3, r_status = active, r_idempotencyKey = Some ''verify-k-42''\<rparr>,
      \<lparr>r_id = ''res-2'', r_orderId = ''order-1'', r_productId = ''SKU-002'',
       r_quantity = 3, r_status = active, r_idempotencyKey = Some ''k-42''\<rparr>]"
  by (simp add: run_def racing_ops_def verify_order_1_def handleVerifyOrderMessage_def
        findReservationByOrderId_def reserveStock_def existing_reservation_def
        find_by_idempotency_key_def insert_reservation_def publishInventoryEvent_def
        shop_def Let_def)

lemma shop_bus:
  "inventoryEventsSender shop" "inventory_send_ok shop = (\<lambda>_. True)"
  "inventory_events shop = []"
  by (simp_all add: shop_def)

lemma shop_reserved_bus:
  "inventoryEventsSender shop_reserved" "inventory_send_ok shop_reserved = (\<lambda>_. True)"
  "inventory_events shop_reserved = []"
  by (simp_all add: shop_reserved_eq shop_def)

lemma shop_reserved_find:
  "findReservationByOrderId shop_reserved ''order-1'' =
     Some \<lparr>r_id = ''res-1'', r_orderId = ''order-1'', r_productId = ''SKU-002'',
           r_quantity = 3, r_status = active, r_idempotencyKey = Some ''k-42''\<rparr>"
  by (simp add: findReservationByOrderId_def shop_reserved_eq)

lemma shop_reserved_release_fst:
  "fst (grpc_releaseStock shop_reserved release_order_1) =
     Inr \<lparr>rr_success = True, rr_message = ''Stock released successfully'',
          rr_newStock = 200\<rparr>"
  by (simp add: grpc_releaseStock_def releaseStock_def release_order_1_def
        shop_reserved_eq shop_def Let_def)

lemma shop_reserved_release:
  "grpc_releaseStock shop_reserved release_order_1 =
     (Inr \<lparr>rr_success = True, rr_message = ''Stock released successfully'',
           rr_newStock = 200\<rparr>,
      snd (grpc_releaseStock shop_reserved release_order_1))"
  by (simp add: prod_eq_iff shop_reserved_release_fst)


lemma racing_stock:
  "map_option stock (products (run shop racing_ops) ''SKU-002'') = Some 194"
  by (simp add: run_def racing_ops_def verify_order_1_def handleVerifyOrderMessage_def
        findReservationByOrderId_def reserveStock_def existing_reservation_def
        find_by_idempotency_key_def insert_reservation_def publishInventoryEvent_def
        shop_def Let_def)

lemma in_time_run:
  "reservations (run shop in_time_ops) =
     [\<lparr>r_id = ''res-1'', r_orderId = ''order-1'', r_productId = ''SKU-002'',
       r_quantity = 3, r_status = active, r_idempotencyKey = Some ''k-42''\<rparr>]"
  "map_option stock (products (run shop in_time_ops) ''SKU-002'') = Some 197"
  by (simp_all add: run_def in_time_ops_def verify_order_1_def handleVerifyOrderMessage_def
        findReservationByOrderId_def reserveStock_def existing_reservation_def
        find_by_idempotency_key_def insert_reservation_def publishInventoryEvent_def
        shop_def Let_def)

section \<open>Order service: lemmas\<close>

lemma find_map_key:
  "(\<And>x. key (f x) = key x) \<Longrightarrow>
   find (\<lambda>x. key x = k) (map f xs) = map_option f (find (\<lambda>x. key x = k) xs)"
  by (induction xs) auto

lemma map_if_fresh:
  "k \<notin> set (map key xs) \<Longrightarrow> map (\<lambda>x. if key x = k then f x else x) xs = xs"
  by (induction xs) auto

lemma find_append_fresh:
  "k \<notin> set (map key xs) \<Longrightarrow> find (\<lambda>x. key x = k) (xs @ ys) = find (\<lambda>x. key x = k) ys"
  by (induction xs) auto

lemma find_append_Some:
  "find P xs = Some x \<Longrightarrow> find P (xs @ ys) = Some x"
  by (induction xs) (auto split: if_splits)

lemma find_Some_key_mem:
  "find (\<lambda>x. key x = k) xs = Some x \<Longrightarrow> k \<in> set (map key xs)"
  by (induction xs) (auto split: if_splits)

lemma set_status_id [simp]: "o_id (set_status now st r e ord) = o_id ord"
  by (simp add: set_status_def)

lemma set_status_key [simp]: "o_idempotencyKey (set_status now st r e ord) = o_idempotencyKey ord"
  by (simp add: set_status_def)

lemma set_status_status [simp]: "o_status (set_status now st r e ord) = st"
  by (simp add: set_status_def)

lemma getOrder_map_set_status:
  "find (\<lambda>ord. o_id ord = oid)
     (map (\<lambda>ord. if o_id ord = oid' then set_status now st r e ord else ord) xs) =
   map_option (\<lambda>ord. if o_id ord = oid' then set_status now st r e ord else ord)
     (find (\<lambda>ord. o_id ord = oid) xs)"
  by (rule find_map_key) simp

lemma updateOrderStatus_orders:
  "orders (snd (updateOrderStatus now s oid st r e)) =
     map (\<lambda>ord. if o_id ord = oid then set_status now st r e ord else ord) (orders s)"
  by (simp add: updateOrderStatus_def Let_def split: option.splits)

lemma updateOrderStatus_frame [simp]:
  "orderEventsSender (snd (updateOrderStatus now s oid st r e)) = orderEventsSender s"
  "verifyOrdersSender (snd (updateOrderStatus now s oid st r e)) = verifyOrdersSender s"
  "order_send_ok (snd (updateOrderStatus now s oid st r e)) = order_send_ok s"
  "verify_send_ok (snd (updateOrderStatus now s oid st r e)) = verify_send_ok s"
  "order_events_topic (snd (updateOrderStatus now s oid st r e)) = order_events_topic s"
  "verify_orders_queue (snd (updateOrderStatus now s oid st r e)) = verify_orders_queue s"
  "grpc_requests (snd (updateOrderStatus now s oid st r e)) = grpc_requests s"
  by (simp_all add: updateOrderStatus_def Let_def split: option.splits)

lemma getOrder_updateOrderStatus:
  "getOrder (snd (updateOrderStatus now s oid' st r e)) oid =
     map_option (\<lambda>ord. if o_id ord = oid' then set_status now st r e ord else ord)
       (getOrder s oid)"
  by (simp add: getOrder_def updateOrderStatus_orders getOrder_map_set_status)

lemma getOrder_id: "getOrder s oid = Some ord \<Longrightarrow> o_id ord = oid"
  by (auto simp: getOrder_def dest: find_Some_props)

lemma order_status_of_update:
  "order_status_of (snd (updateOrderStatus now s oid' st r e)) oid =
     (if oid = oid' then map_option (\<lambda>_. st) (order_status_of s oid)
      else order_status_of s oid)"
  by (cases "getOrder s oid")
     (auto simp: order_status_of_def getOrder_updateOrderStatus dest: getOrder_id)

lemma publishOrderEvent_orders:
  "publishOrderEvent s ev = Inr s' \<Longrightarrow> orders s' = orders s"
  by (auto simp: publishOrderEvent_def split: if_splits)

lemma publishOrderEvent_getOrder:
  "publishOrderEvent s ev = Inr s' \<Longrightarrow> getOrder s' oid = getOrder s oid"
  by (simp add: getOrder_def publishOrderEvent_orders)

lemma publishOrderEvent_status:
  "publishOrderEvent s ev = Inr s' \<Longrightarrow> order_status_of s' oid = order_status_of s oid"
  by (simp add: order_status_of_def publishOrderEvent_getOrder)

lemma sendVerify_orders:
  "sendVerifyOrderMessage s m = Inr s' \<Longrightarrow> orders s' = orders s"
  by (auto simp: sendVerifyOrderMessage_def split: if_splits)

lemma sendVerify_status:
  "sendVerifyOrderMessage s m = Inr s' \<Longrightarrow> order_status_of s' oid = order_status_of s oid"
  by (simp add: order_status_of_def getOrder_def sendVerify_orders)

lemma update_then_publish_status:
  assumes "order_status_of (snd (updateOrderStatus now s x st' r e)) oid = v"
  shows "order_status_of
           (snd (case updateOrderStatus now s x st' r e of
                   (_, s1) \<Rightarrow>
                     (case publishOrderEvent s1 ev of
                        Inl err \<Rightarrow> (Some err, s1)
                      | Inr s2 \<Rightarrow> (None, s2)))) oid = v"
proof (cases "updateOrderStatus now s x st' r e")
  case (Pair a s1)
  with assms have s1: "order_status_of s1 oid = v" by simp
  show ?thesis
  proof (cases "publishOrderEvent s1 ev")
    case (Inl err)
    with Pair s1 show ?thesis by simp
  next
    case (Inr s2)
    with Pair s1 publishOrderEvent_status[OF Inr, of oid] show ?thesis by simp
  qed
qed

lemma handleVerificationComplete_status:
  assumes "order_status_of s oid = Some st" "st \<noteq> pending_verification"
  shows "order_status_of (snd (handleVerificationComplete now s d)) oid = Some st"
proof (cases "getOrder s (d_orderId d)")
  case None
  then show ?thesis using assms by (simp add: handleVerificationComplete_def)
next
  case (Some ord)
  show ?thesis
  proof (cases "o_status ord = pending_verification")
    case False
    with Some show ?thesis using assms by (simp add: handleVerificationComplete_def Let_def)
  next
    case True
    with Some assms have ne: "oid \<noteq> d_orderId d"
      by (auto simp: order_status_of_def)
    have u: "order_status_of (snd (updateOrderStatus now s (d_orderId d) st' r e)) oid = Some st"
      for st' r e using ne assms(1) by (simp add: order_status_of_update)
    show ?thesis using Some True
      by (simp add: handleVerificationComplete_def Let_def update_then_publish_status[OF u])
  qed
qed

lemma post_cancel_status:
  assumes "order_status_of s oid = Some st"
    and "cancelId \<noteq> oid \<or> st = failed \<or> st = cancelled"
  shows "order_status_of (snd (post_cancel now s cancelId)) oid = Some st"
proof (cases "getOrder s cancelId")
  case None
  then show ?thesis using assms by (simp add: post_cancel_def)
next
  case (Some ord)
  then have id: "o_id ord = cancelId" by (rule getOrder_id)
  show ?thesis
  proof (cases "o_status ord = cancelled \<or> o_status ord = failed")
    case True
    with Some show ?thesis using assms(1) by (auto simp: post_cancel_def)
  next
    case False
    with Some assms have ne: "oid \<noteq> cancelId" by (auto simp: order_status_of_def)
    define s1 where "s1 = (case o_reservationId ord of
                         Some resId \<Rightarrow>
                           if o_status ord = confirmed \<and> truthy (o_reservationId ord)
                           then s\<lparr>grpc_requests := grpc_requests s @
                                    [ReleaseStockCall
                                       \<lparr>rq_orderId = o_id ord, rq_reservationId = resId,
                                        rq_reason = ''Order cancelled by user''\<rparr>]\<rparr>
                           else s
                       | None \<Rightarrow> s)"
    have o1: "orders s1 = orders s" by (simp add: s1_def split: option.splits)
    then have "order_status_of s1 oid = Some st" using assms(1)
      by (simp add: order_status_of_def getOrder_def)
    with ne id have u: "order_status_of (snd (updateOrderStatus now s1 (o_id ord) cancelled None None)) oid = Some st"
      by (simp add: order_status_of_update)
    obtain a s2 where up: "updateOrderStatus now s1 (o_id ord) cancelled None None = (a, s2)"
      by fastforce
    with u have s2: "order_status_of s2 oid = Some st" by simp
    show ?thesis
    proof (cases "publishOrderEvent s2
                            \<lparr>ev_eventType = OrderCancelled, ev_orderId = o_id ord,
                             ev_customerId = None, ev_productId = None, ev_quantity = None,
                             ev_status = Some cancelled,
                             ev_reason = Some ''Cancelled by user'',
                             ev_reservationId = None\<rparr>")
      case (Inl err)
      with Some False up s2 show ?thesis
        by (cases err) (simp add: post_cancel_def Let_def s1_def[symmetric])
    next
      case (Inr s3)
      with Some False up s2 publishOrderEvent_status[OF Inr, of oid] show ?thesis
        by (simp add: post_cancel_def Let_def s1_def[symmetric])
    qed
  qed
qed

lemma find_None_key_notin:
  "find (\<lambda>x. key x = k) xs = None \<Longrightarrow> k \<notin> set (map key xs)"
  by (induction xs) (auto split: if_splits)

lemma createOrder_cases:
  "createOrder uuid s input = (res, s1) \<Longrightarrow>
     (\<exists>existing. existing_order s (ci_idempotencyKey input) = Some existing
        \<and> res = Inr existing \<and> s1 = s)
   \<or> (existing_order s (ci_idempotencyKey input) = None
        \<and> (\<exists>e. res = Inl e) \<and> s1 = s)
   \<or> (existing_order s (ci_idempotencyKey input) = None
        \<and> res = Inr (new_order_row uuid input)
        \<and> uuid \<notin> set (map o_id (orders s))
        \<and> s1 = s\<lparr>orders := orders s @ [new_order_row uuid input],
                  order_events := order_events s @
                     [\<lparr>oe_orderId = uuid, oe_eventType = ''OrderCreated'',
                       oe_eventData = CreatedData input\<rparr>]\<rparr>)"
  by (auto simp: createOrder_def insert_order_def new_order_row_def
           split: option.splits if_splits)

lemma new_order_row_id [simp]: "o_id (new_order_row uuid input) = uuid"
  by (simp add: new_order_row_def)

lemma order_status_of_mem:
  "order_status_of s oid = Some st \<Longrightarrow> oid \<in> set (map o_id (orders s))"
  by (auto simp: order_status_of_def getOrder_def dest: find_Some_key_mem)

lemma order_status_of_append:
  "order_status_of s oid = Some st \<Longrightarrow> orders s1 = orders s @ xs \<Longrightarrow>
   order_status_of s1 oid = Some st"
  by (auto simp: order_status_of_def getOrder_def find_append_Some)

lemma order_status_of_cong:
  "orders s1 = orders s \<Longrightarrow> order_status_of s1 oid = order_status_of s oid"
  by (simp add: order_status_of_def getOrder_def)

lemma reply_pending_verification_status:
  assumes "oid \<noteq> o_id ord"
  shows "order_status_of (snd (reply_pending_verification env s ord p q k)) oid
         = order_status_of s oid"
proof -
  obtain a s1 where u: "updateOrderStatus (env_now env) s (o_id ord) pending_verification None None = (a, s1)"
    by fastforce
  from assms order_status_of_update[of "env_now env" s "o_id ord" pending_verification None None oid] u
  have s1: "order_status_of s1 oid = order_status_of s oid" by simp
  show ?thesis
  proof (cases "sendVerifyOrderMessage s1
                  \<lparr>vo_orderId = o_id ord, vo_productId = p, vo_quantity = q,
                   vo_idempotencyKey = k, vo_originalRequestTime = env_now env\<rparr>")
    case (Inl e)
    with u s1 show ?thesis by (simp add: reply_pending_verification_def)
  next
    case (Inr s2)
    note s2 = sendVerify_status[OF Inr, of oid]
    show ?thesis
    proof (cases "publishOrderEvent s2
                       \<lparr>ev_eventType = OrderPendingVerification, ev_orderId = o_id ord,
                        ev_customerId = None, ev_productId = Some p,
                        ev_quantity = Some q,
                        ev_status = Some pending_verification,
                        ev_reason = Some ''gRPC timeout - verification required'',
                        ev_reservationId = None\<rparr>")
      case (Inl e)
      with u s1 s2 Inr show ?thesis by (simp add: reply_pending_verification_def)
    next
      case (Inr s3)
      with u s1 s2 \<open>sendVerifyOrderMessage s1 _ = Inr s2\<close> publishOrderEvent_status[OF Inr, of oid]
      show ?thesis by (simp add: reply_pending_verification_def)
    qed
  qed
qed

lemma update_publish_reply_status:
  assumes "order_status_of (snd (updateOrderStatus now s x st' r e)) oid = v"
  shows "order_status_of
           (snd (case updateOrderStatus now s x st' r e of
                   (_, s1) \<Rightarrow>
                     (case publishOrderEvent s1 ev of
                        Inl err \<Rightarrow> (Inl err, s1)
                      | Inr s2 \<Rightarrow> (Inr (f s2), s2)))) oid = v"
proof (cases "updateOrderStatus now s x st' r e")
  case (Pair a s1)
  with assms have s1: "order_status_of s1 oid = v" by simp
  show ?thesis
  proof (cases "publishOrderEvent s1 ev")
    case (Inl err)
    with Pair s1 show ?thesis by simp
  next
    case (Inr s2)
    with Pair s1 publishOrderEvent_status[OF Inr, of oid] show ?thesis by simp
  qed
qed

lemma reply_confirmed_status:
  assumes "oid \<noteq> o_id ord"
  shows "order_status_of (snd (reply_confirmed env s ord result)) oid = order_status_of s oid"
  unfolding reply_confirmed_def
  by (rule update_publish_reply_status) (simp add: order_status_of_update assms)

lemma reply_failed_status:
  assumes "oid \<noteq> o_id ord"
  shows "order_status_of (snd (reply_failed env s ord result)) oid = order_status_of s oid"
  unfolding reply_failed_def
  by (rule update_publish_reply_status) (simp add: order_status_of_update assms)

lemma find_notin_None:
  "k \<notin> set (map key xs) \<Longrightarrow> find (\<lambda>x. key x = k) xs = None"
  by (induction xs) auto

lemma existing_order_request_key:
  assumes "existing_order s key = None"
    and "truthy key \<or> Some (env_key_uuid env) \<notin> set (map o_idempotencyKey (orders s))"
  shows "existing_order s (Some (requestIdempotencyKey env key)) = None"
proof (cases "truthy key")
  case True
  then obtain k where "key = Some k" "k \<noteq> []" by (cases key) auto
  with assms(1) show ?thesis by (simp add: requestIdempotencyKey_def)
next
  case False
  with assms(2) have n: "Some (env_key_uuid env) \<notin> set (map o_idempotencyKey (orders s))" by simp
  from False have "requestIdempotencyKey env key = env_key_uuid env"
    by (cases key) (simp_all add: requestIdempotencyKey_def)
  with find_notin_None[OF n] show ?thesis
    by (simp add: existing_order_def getOrderByIdempotencyKey_def)
qed

lemma reserve_and_reply_status:
  assumes "oid \<noteq> o_id ord"
  shows "order_status_of (snd (reserve_and_reply env s ord p q k)) oid = order_status_of s oid"
proof -
  define s1 where "s1 = s\<lparr>grpc_requests := grpc_requests s @
                  [ReserveStockCall
                     \<lparr>rs_orderId = o_id ord, rs_productId = p,
                      rs_quantity = q, rs_idempotencyKey = Some k\<rparr>]\<rparr>"
  have s1: "order_status_of s1 oid = order_status_of s oid"
    by (simp add: s1_def order_status_of_def getOrder_def)
  show ?thesis
  proof (cases "client_reserveStock (env_rpc env)")
    case (Inl e)
    obtain m where e: "e = JsError m" by (cases e)
    with Inl s1 assms show ?thesis
      by (simp add: reserve_and_reply_def Let_def s1_def[symmetric]
            reply_pending_verification_status)
  next
    case (Inr r)
    with s1 assms show ?thesis
      by (simp add: reserve_and_reply_def Let_def s1_def[symmetric]
            reply_confirmed_status reply_failed_status)
  qed
qed

lemma create_order_try_status:
  assumes st: "order_status_of s oid = Some st"
    and fresh: "truthy key \<or> Some (env_key_uuid env) \<notin> set (map o_idempotencyKey (orders s))"
  shows "order_status_of (snd (create_order_try env s c p q key)) oid = Some st"
proof (cases "existing_order s key")
  case (Some a)
  with st show ?thesis by (simp add: create_order_try_def)
next
  case None
  let ?input = "\<lparr>ci_customerId = c, ci_productId = p, ci_quantity = q,
                   ci_idempotencyKey = Some (requestIdempotencyKey env key)\<rparr>"
  obtain res s1 where c: "createOrder (env_order_uuid env) s ?input = (res, s1)"
    by fastforce
  have ex: "existing_order s (ci_idempotencyKey ?input) = None"
    using existing_order_request_key[OF None fresh] by simp
  from createOrder_cases[OF c] ex
  consider (err) e where "res = Inl e" "s1 = s"
    | (new) "res = Inr (new_order_row (env_order_uuid env) ?input)"
        "env_order_uuid env \<notin> set (map o_id (orders s))"
        "orders s1 = orders s @ [new_order_row (env_order_uuid env) ?input]"
    by auto
  then show ?thesis
  proof cases
    case err
    with None c st show ?thesis by (simp add: create_order_try_def)
  next
    case new
    from order_status_of_mem[OF st] new(2) have ne: "oid \<noteq> env_order_uuid env" by blast
    from order_status_of_append[OF st new(3)] have s1: "order_status_of s1 oid = Some st" .
    show ?thesis
    proof (cases "publishOrderEvent s1
                       \<lparr>ev_eventType = OrderCreated, ev_orderId = env_order_uuid env,
                        ev_customerId = Some c, ev_productId = Some p,
                        ev_quantity = Some q, ev_status = Some pending,
                        ev_reason = None, ev_reservationId = None\<rparr>")
      case (Inl e)
      with None c new(1) s1 show ?thesis by (simp add: create_order_try_def)
    next
      case (Inr s2)
      from publishOrderEvent_status[OF Inr, of oid] s1 have "order_status_of s2 oid = Some st" by simp
      with None c new(1) Inr ne show ?thesis
        by (simp add: create_order_try_def reserve_and_reply_status)
    qed
  qed
qed

lemma catch_status:
  assumes "order_status_of (snd x) oid = v"
  shows "order_status_of
             (snd (case x of
                     (Inl (JsError m), s') \<Rightarrow> (internal_error m, s')
                   | (Inr response, s') \<Rightarrow> (response, s'))) oid = v"
proof (cases x)
  case (Pair a s')
  with assms show ?thesis
  proof (cases a)
    case (Inl e)
    with Pair assms show ?thesis by (cases e) simp
  next
    case (Inr r)
    with Pair assms show ?thesis by simp
  qed
qed

lemma post_orders_status:
  assumes st: "order_status_of s oid = Some st"
    and fresh: "truthy (request_key req)
                \<or> Some (env_key_uuid env) \<notin> set (map o_idempotencyKey (orders s))"
  shows "order_status_of (snd (post_orders env s req)) oid = Some st"
proof (cases "body_customerId req")
  case None
  with st show ?thesis by (simp add: post_orders_def)
next
  case c: (Some c)
  show ?thesis
  proof (cases "body_productId req")
    case None
    with c st show ?thesis by (simp add: post_orders_def)
  next
    case p: (Some p)
    show ?thesis
    proof (cases "body_quantity req")
      case None
      with c p st show ?thesis by (simp add: post_orders_def)
    next
      case q: (Some q)
      show ?thesis
      proof (cases "c = [] \<or> p = [] \<or> q = 0 \<or> q \<le> 0")
        case True
        with c p q st show ?thesis by (auto simp add: post_orders_def)
      next
        case False
        with c p q catch_status[OF create_order_try_status[OF st fresh, of c p q]]
        show ?thesis by (simp add: post_orders_def)
      qed
    qed
  qed
qed

lemma find_append_fresh_img:
  "k \<notin> key ` set xs \<Longrightarrow> find (\<lambda>x. key x = k) (xs @ ys) = find (\<lambda>x. key x = k) ys"
  by (induction xs) auto

lemma map_if_fresh_img:
  "k \<notin> key ` set xs \<Longrightarrow> map (\<lambda>x. if key x = k then f x else x) xs = xs"
  by (induction xs) auto

lemma existing_order_None_key:
  "existing_order s key = None \<Longrightarrow> truthy key \<Longrightarrow> key \<notin> set (map o_idempotencyKey (orders s))"
  by (cases key)
     (auto simp: existing_order_def getOrderByIdempotencyKey_def dest: find_None_key_notin)

lemma createOrder_new:
  assumes "existing_order s (ci_idempotencyKey input) = None"
    and "uuid \<notin> set (map o_id (orders s))"
    and "0 < ci_quantity input"
    and "ci_idempotencyKey input \<notin> set (map o_idempotencyKey (orders s))"
  shows "createOrder uuid s input =
           (Inr (new_order_row uuid input),
            s\<lparr>orders := orders s @ [new_order_row uuid input],
              order_events := order_events s @
                 [\<lparr>oe_orderId = uuid, oe_eventType = ''OrderCreated'',
                   oe_eventData = CreatedData input\<rparr>]\<rparr>)"
  using assms by (simp add: createOrder_def insert_order_def new_order_row_def)

lemma request_key_fresh:
  assumes "existing_order s key = None"
    and "\<not> truthy key \<longrightarrow> Some (env_key_uuid env) \<notin> set (map o_idempotencyKey (orders s))"
  shows "Some (requestIdempotencyKey env key) \<notin> set (map o_idempotencyKey (orders s))"
proof (cases "truthy key")
  case True
  then obtain k where k: "key = Some k" "k \<noteq> []" by (cases key) auto
  with existing_order_None_key[OF assms(1) True] show ?thesis
    by (simp add: requestIdempotencyKey_def)
next
  case False
  then have "requestIdempotencyKey env key = env_key_uuid env"
    by (cases key) (simp_all add: requestIdempotencyKey_def)
  with assms(2) False show ?thesis by simp
qed

lemma updateOrderStatus_new_row:
  assumes "uuid \<notin> set (map o_id xs)" "o_id row = uuid" "orders s = xs @ [row]"
  shows "updateOrderStatus now s uuid st r e =
           (Some (set_status now st r e row),
            s\<lparr>orders := xs @ [set_status now st r e row],
              order_events := order_events s @
                   [\<lparr>oe_orderId = uuid,
                     oe_eventType = ''Status_'' @ show_order_status st,
                     oe_eventData = StatusData r e\<rparr>]\<rparr>)"
  using assms
  by (simp add: updateOrderStatus_def getOrder_def Let_def map_if_fresh_img find_append_fresh_img)


lemma reply_pending_verification_new_row:
  assumes "o_id row \<notin> set (map o_id xs)" "orders s = xs @ [row]"
    and "orderEventsSender s" "verifyOrdersSender s"
    and "\<forall>ev. order_send_ok s ev" "\<forall>m. verify_send_ok s m"
  shows "reply_pending_verification env s row productId quantity k =
     (Inr \<lparr>http_status = 202, body_success = True,
           body_data = Some (set_status (env_now env) pending_verification None None row),
           body_error = None,
           body_message = Some ''Order is being verified. Please check status later.'',
           body_cached = False, body_verificationRequired = True\<rparr>,
      s\<lparr>orders := xs @ [set_status (env_now env) pending_verification None None row],
        order_events := order_events s @
          [\<lparr>oe_orderId = o_id row, oe_eventType = ''Status_pending_verification'',
            oe_eventData = StatusData None None\<rparr>],
        verify_orders_queue := verify_orders_queue s @
          [\<lparr>vo_orderId = o_id row, vo_productId = productId, vo_quantity = quantity,
            vo_idempotencyKey = k, vo_originalRequestTime = env_now env\<rparr>],
        order_events_topic := order_events_topic s @
          [\<lparr>ev_eventType = OrderPendingVerification, ev_orderId = o_id row,
            ev_customerId = None, ev_productId = Some productId,
            ev_quantity = Some quantity, ev_status = Some pending_verification,
            ev_reason = Some ''gRPC timeout - verification required'',
            ev_reservationId = None\<rparr>]\<rparr>)"
  using assms
  by (simp add: reply_pending_verification_def
        updateOrderStatus_new_row[OF assms(1) refl assms(2)]
        sendVerifyOrderMessage_def publishOrderEvent_def getOrder_def find_append_fresh_img)

lemma valid_request_fields:
  "valid_request req \<Longrightarrow>
   \<exists>c p q. body_customerId req = Some c \<and> c \<noteq> [] \<and> body_productId req = Some p \<and> p \<noteq> []
     \<and> body_quantity req = Some q \<and> 0 < q"
  by (cases "body_customerId req"; cases "body_productId req"; cases "body_quantity req")
     (auto simp: valid_request_def)

lemma post_orders_valid:
  assumes "body_customerId req = Some c" "c \<noteq> []" "body_productId req = Some p" "p \<noteq> []"
    "body_quantity req = Some q" "0 < q"
  shows "post_orders env s req =
           (case create_order_try env s c p q (request_key req) of
              (Inl (JsError m), s') \<Rightarrow> (internal_error m, s')
            | (Inr response, s') \<Rightarrow> (response, s'))"
  using assms by (simp add: post_orders_def)

lemma post_orders_invalid:
  "\<not> valid_request req \<Longrightarrow>
   snd (post_orders env s req) = s \<and> http_status (fst (post_orders env s req)) = 400
   \<and> body_data (fst (post_orders env s req)) = None"
  by (cases "body_customerId req"; cases "body_productId req"; cases "body_quantity req")
     (auto simp: valid_request_def post_orders_def bad_request_def)

lemma post_orders_cached:
  assumes "valid_request req" "existing_order s (request_key req) = Some existing"
  shows "post_orders env s req = (cached_reply existing, s)"
proof -
  from valid_request_fields[OF assms(1)] obtain c p q where
    f: "body_customerId req = Some c" "c \<noteq> []" "body_productId req = Some p" "p \<noteq> []"
    "body_quantity req = Some q" "0 < q" by blast
  show ?thesis
    by (simp add: post_orders_valid[OF f] create_order_try_def assms(2))
qed


lemma publish_reply_outcome:
  assumes "(case publishOrderEvent s1 ev of
              Inl e \<Rightarrow> (Inl e, s1)
            | Inr s2 \<Rightarrow> (Inr (f s2), s2)) = (Inr resp, s')"
  shows "publishOrderEvent s1 ev = Inr s' \<and> resp = f s'"
  using assms by (cases "publishOrderEvent s1 ev") auto

lemma reply_confirmed_outcome:
  assumes g: "getOrder s (o_id ord) = Some o0"
    and r: "reply_confirmed env s ord result = (Inr resp, s')"
  shows "http_status resp = 201
       \<and> body_data resp =
           Some (set_status (env_now env) confirmed (Some (c_reservationId result)) None o0)"
proof -
  obtain a s1 where u: "updateOrderStatus (env_now env) s (o_id ord) confirmed
             (Some (c_reservationId result)) None = (a, s1)" by fastforce
  from getOrder_updateOrderStatus[of "env_now env" s "o_id ord" confirmed
         "Some (c_reservationId result)" None "o_id ord"] u g getOrder_id[OF g]
  have g1: "getOrder s1 (o_id ord) =
      Some (set_status (env_now env) confirmed (Some (c_reservationId result)) None o0)"
    by simp
  from r u have "(case publishOrderEvent s1
                  \<lparr>ev_eventType = OrderConfirmed, ev_orderId = o_id ord,
                   ev_customerId = None, ev_productId = None, ev_quantity = None,
                   ev_status = Some confirmed, ev_reason = None,
                   ev_reservationId = Some (c_reservationId result)\<rparr> of
             Inl e \<Rightarrow> (Inl e, s1)
           | Inr s2 \<Rightarrow>
               (Inr \<lparr>http_status = 201, body_success = True,
                     body_data = getOrder s2 (o_id ord), body_error = None,
                     body_message = None, body_cached = False,
                     body_verificationRequired = False\<rparr>,
                s2)) = (Inr resp, s')"
    by (simp add: reply_confirmed_def)
  from publish_reply_outcome[OF this] publishOrderEvent_getOrder g1
  show ?thesis by auto
qed

lemma reply_failed_outcome:
  assumes g: "getOrder s (o_id ord) = Some o0"
    and r: "reply_failed env s ord result = (Inr resp, s')"
  shows "http_status resp = 400
       \<and> body_data resp =
           Some (set_status (env_now env) failed None (Some (c_message result)) o0)"
proof -
  obtain a s1 where u: "updateOrderStatus (env_now env) s (o_id ord) failed None
             (Some (c_message result)) = (a, s1)" by fastforce
  from getOrder_updateOrderStatus[of "env_now env" s "o_id ord" failed None
         "Some (c_message result)" "o_id ord"] u g getOrder_id[OF g]
  have g1: "getOrder s1 (o_id ord) =
      Some (set_status (env_now env) failed None (Some (c_message result)) o0)"
    by simp
  from r u have "(case publishOrderEvent s1
                  \<lparr>ev_eventType = OrderFailed, ev_orderId = o_id ord,
                   ev_customerId = None, ev_productId = None, ev_quantity = None,
                   ev_status = Some failed, ev_reason = Some (c_message result),
                   ev_reservationId = None\<rparr> of
             Inl e \<Rightarrow> (Inl e, s1)
           | Inr s2 \<Rightarrow>
               (Inr \<lparr>http_status = 400, body_success = False,
                     body_data = getOrder s2 (o_id ord),
                     body_error = Some (c_message result),
                     body_message = None, body_cached = False,
                     body_verificationRequired = False\<rparr>,
                s2)) = (Inr resp, s')"
    by (simp add: reply_failed_def)
  from publish_reply_outcome[OF this] publishOrderEvent_getOrder g1
  show ?thesis by auto
qed

lemma sendVerify_getOrder:
  "sendVerifyOrderMessage s m = Inr s' \<Longrightarrow> getOrder s' oid = getOrder s oid"
  by (simp add: getOrder_def sendVerify_orders)

lemma reply_pending_verification_outcome:
  assumes g: "getOrder s (o_id ord) = Some o0"
    and r: "reply_pending_verification env s ord p q k = (Inr resp, s')"
  shows "http_status resp = 202
       \<and> body_data resp =
           Some (set_status (env_now env) pending_verification None None o0)"
proof -
  obtain a s1 where u: "updateOrderStatus (env_now env) s (o_id ord) pending_verification
             None None = (a, s1)" by fastforce
  from getOrder_updateOrderStatus[of "env_now env" s "o_id ord" pending_verification None
         None "o_id ord"] u g getOrder_id[OF g]
  have g1: "getOrder s1 (o_id ord) =
      Some (set_status (env_now env) pending_verification None None o0)"
    by simp
  show ?thesis
  proof (cases "sendVerifyOrderMessage s1
                  \<lparr>vo_orderId = o_id ord, vo_productId = p, vo_quantity = q,
                   vo_idempotencyKey = k, vo_originalRequestTime = env_now env\<rparr>")
    case (Inl e)
    with r u show ?thesis by (simp add: reply_pending_verification_def)
  next
    case (Inr s2)
    from sendVerify_getOrder[OF Inr] g1 have g2: "getOrder s2 (o_id ord) =
      Some (set_status (env_now env) pending_verification None None o0)" by simp
    from r u Inr have "(case publishOrderEvent s2
                       \<lparr>ev_eventType = OrderPendingVerification, ev_orderId = o_id ord,
                        ev_customerId = None, ev_productId = Some p,
                        ev_quantity = Some q,
                        ev_status = Some pending_verification,
                        ev_reason = Some ''gRPC timeout - verification required'',
                        ev_reservationId = None\<rparr> of
                  Inl e \<Rightarrow> (Inl e, s2)
                | Inr s3 \<Rightarrow>
                    (Inr \<lparr>http_status = 202, body_success = True,
                          body_data = getOrder s3 (o_id ord), body_error = None,
                          body_message =
                            Some ''Order is being verified. Please check status later.'',
                          body_cached = False, body_verificationRequired = True\<rparr>,
                     s3)) = (Inr resp, s')"
      by (simp add: reply_pending_verification_def)
    from publish_reply_outcome[OF this] publishOrderEvent_getOrder g2
    show ?thesis by auto
  qed
qed

lemma reserve_and_reply_outcome:
  assumes g: "getOrder s (o_id ord) = Some o0"
    and r: "reserve_and_reply env s ord p q k = (Inr resp, s')"
  shows "\<exists>row. body_data resp = Some row \<and> o_id row = o_id ord
       \<and> (http_status resp = 201 \<and> o_status row = confirmed
            \<or> http_status resp = 202 \<and> o_status row = pending_verification
            \<or> http_status resp = 400 \<and> o_status row = failed)"
proof -
  define s1 where "s1 = s\<lparr>grpc_requests := grpc_requests s @
                  [ReserveStockCall
                     \<lparr>rs_orderId = o_id ord, rs_productId = p,
                      rs_quantity = q, rs_idempotencyKey = Some k\<rparr>]\<rparr>"
  from g have g1: "getOrder s1 (o_id ord) = Some o0" by (simp add: s1_def getOrder_def)
  from getOrder_id[OF g] have id: "o_id o0 = o_id ord" .
  show ?thesis
  proof (cases "client_reserveStock (env_rpc env)")
    case (Inl e)
    obtain m where e: "e = JsError m" by (cases e)
    show ?thesis
    proof (cases "m = ''TIMEOUT'' \<or> m = ''UNAVAILABLE''")
      case True
      with r Inl e have "reply_pending_verification env s1 ord p q k = (Inr resp, s')"
        by (auto simp: reserve_and_reply_def Let_def s1_def)
      from reply_pending_verification_outcome[OF g1 this] id show ?thesis by simp
    next
      case False
      with r Inl e show ?thesis by (simp add: reserve_and_reply_def Let_def)
    qed
  next
    case (Inr result)
    show ?thesis
    proof (cases "c_success result")
      case True
      with r Inr have "reply_confirmed env s1 ord result = (Inr resp, s')"
        by (simp add: reserve_and_reply_def Let_def s1_def)
      from reply_confirmed_outcome[OF g1 this] id show ?thesis by simp
    next
      case False
      with r Inr have "reply_failed env s1 ord result = (Inr resp, s')"
        by (simp add: reserve_and_reply_def Let_def s1_def)
      from reply_failed_outcome[OF g1 this] id show ?thesis by simp
    qed
  qed
qed

lemma find_Some_ex: "x \<in> set xs \<Longrightarrow> P x \<Longrightarrow> find P xs \<noteq> None"
  by (induction xs) auto

lemma createOrder_exists:
  assumes "createOrder uuid s input = (Inr ord, s1)"
  shows "getOrder s1 (o_id ord) \<noteq> None"
proof -
  from createOrder_cases[OF assms]
  consider (old) "existing_order s (ci_idempotencyKey input) = Some ord" "s1 = s"
    | (new) "ord = new_order_row uuid input"
        "orders s1 = orders s @ [new_order_row uuid input]"
    by auto
  then show ?thesis
  proof cases
    case old
    then have "ord \<in> set (orders s)"
      by (cases "ci_idempotencyKey input")
         (auto simp: existing_order_def getOrderByIdempotencyKey_def
               split: if_splits dest: find_Some_props)
    with old(2) show ?thesis by (simp add: getOrder_def find_Some_ex)
  next
    case new
    have "find (\<lambda>x. o_id x = uuid) (orders s @ [new_order_row uuid input]) \<noteq> None"
      by (rule find_Some_ex[of "new_order_row uuid input"]) simp_all
    with new show ?thesis by (simp add: getOrder_def)
  qed
qed

lemma create_order_try_outcome:
  assumes "create_order_try env s c p q key = (Inr resp, s')"
  shows "(\<exists>existing. existing_order s key = Some existing \<and> resp = cached_reply existing
            \<and> s' = s)
       \<or> (existing_order s key = None
          \<and> (\<exists>row. body_data resp = Some row
                \<and> (http_status resp = 201 \<and> o_status row = confirmed
                     \<or> http_status resp = 202 \<and> o_status row = pending_verification
                     \<or> http_status resp = 400 \<and> o_status row = failed)))"
proof (cases "existing_order s key")
  case (Some existing)
  with assms show ?thesis by (simp add: create_order_try_def)
next
  case None
  let ?input = "\<lparr>ci_customerId = c, ci_productId = p, ci_quantity = q,
                   ci_idempotencyKey = Some (requestIdempotencyKey env key)\<rparr>"
  obtain res s1 where cr: "createOrder (env_order_uuid env) s ?input = (res, s1)"
    by fastforce
  show ?thesis
  proof (cases res)
    case (Inl e)
    with assms None cr show ?thesis by (simp add: create_order_try_def)
  next
    case (Inr ord)
    from createOrder_exists[OF cr[unfolded Inr]] obtain o0 where
      g: "getOrder s1 (o_id ord) = Some o0" by auto
    show ?thesis
    proof (cases "publishOrderEvent s1
                       \<lparr>ev_eventType = OrderCreated, ev_orderId = o_id ord,
                        ev_customerId = Some c, ev_productId = Some p,
                        ev_quantity = Some q, ev_status = Some pending,
                        ev_reason = None, ev_reservationId = None\<rparr>")
      case (Inl e)
      with assms None cr Inr show ?thesis by (simp add: create_order_try_def)
    next
      case pub: (Inr s2)
      from publishOrderEvent_getOrder[OF pub] g have g2: "getOrder s2 (o_id ord) = Some o0"
        by simp
      from assms None cr Inr pub
      have "reserve_and_reply env s2 ord p q (requestIdempotencyKey env key) = (Inr resp, s')"
        by (simp add: create_order_try_def)
      from reserve_and_reply_outcome[OF g2 this] None show ?thesis by blast
    qed
  qed
qed


lemma keyed_map:
  assumes "\<And>x. o_id (f x) = o_id x" "\<And>x. o_idempotencyKey (f x) = o_idempotencyKey x"
  shows "map_option o_id (find (\<lambda>ord. o_idempotencyKey ord = k) (map f xs)) =
         map_option o_id (find (\<lambda>ord. o_idempotencyKey ord = k) xs)"
  using assms by (induction xs) auto

lemma keyed_update:
  "map_option o_id (getOrderByIdempotencyKey (snd (updateOrderStatus now s oid st r e)) k) =
   map_option o_id (getOrderByIdempotencyKey s k)"
  unfolding getOrderByIdempotencyKey_def updateOrderStatus_orders
  by (rule keyed_map) simp_all

lemma keyed_publish:
  "publishOrderEvent s ev = Inr s' \<Longrightarrow>
   getOrderByIdempotencyKey s' k = getOrderByIdempotencyKey s k"
  by (simp add: getOrderByIdempotencyKey_def publishOrderEvent_orders)

lemma keyed_send:
  "sendVerifyOrderMessage s m = Inr s' \<Longrightarrow>
   getOrderByIdempotencyKey s' k = getOrderByIdempotencyKey s k"
  by (simp add: getOrderByIdempotencyKey_def sendVerify_orders)

lemma update_publish_reply_keyed:
  "map_option o_id (getOrderByIdempotencyKey
           (snd (case updateOrderStatus now s x st' r e of
                   (_, s1) \<Rightarrow>
                     (case publishOrderEvent s1 ev of
                        Inl err \<Rightarrow> (Inl err, s1)
                      | Inr s2 \<Rightarrow> (Inr (f s2), s2)))) k) =
   map_option o_id (getOrderByIdempotencyKey s k)"
proof (cases "updateOrderStatus now s x st' r e")
  case (Pair a s1)
  with keyed_update[of now s x st' r e k]
  have s1: "map_option o_id (getOrderByIdempotencyKey s1 k) =
            map_option o_id (getOrderByIdempotencyKey s k)" by simp
  show ?thesis
  proof (cases "publishOrderEvent s1 ev")
    case (Inl err)
    with Pair s1 show ?thesis by simp
  next
    case (Inr s2)
    with Pair s1 keyed_publish[OF Inr, of k] show ?thesis by simp
  qed
qed

lemma reply_pending_verification_keyed:
  "map_option o_id
     (getOrderByIdempotencyKey (snd (reply_pending_verification env s ord p q k)) k') =
   map_option o_id (getOrderByIdempotencyKey s k')"
proof -
  obtain a s1 where u: "updateOrderStatus (env_now env) s (o_id ord) pending_verification
       None None = (a, s1)" by fastforce
  with keyed_update[of "env_now env" s "o_id ord" pending_verification None None k']
  have s1: "map_option o_id (getOrderByIdempotencyKey s1 k') =
            map_option o_id (getOrderByIdempotencyKey s k')" by simp
  show ?thesis
  proof (cases "sendVerifyOrderMessage s1
                  \<lparr>vo_orderId = o_id ord, vo_productId = p, vo_quantity = q,
                   vo_idempotencyKey = k, vo_originalRequestTime = env_now env\<rparr>")
    case (Inl e)
    with u s1 show ?thesis by (simp add: reply_pending_verification_def)
  next
    case (Inr s2)
    note s2 = keyed_send[OF Inr, of k']
    show ?thesis
    proof (cases "publishOrderEvent s2
                       \<lparr>ev_eventType = OrderPendingVerification, ev_orderId = o_id ord,
                        ev_customerId = None, ev_productId = Some p,
                        ev_quantity = Some q,
                        ev_status = Some pending_verification,
                        ev_reason = Some ''gRPC timeout - verification required'',
                        ev_reservationId = None\<rparr>")
      case (Inl e)
      with u s1 s2 Inr show ?thesis by (simp add: reply_pending_verification_def)
    next
      case (Inr s3)
      with u s1 s2 \<open>sendVerifyOrderMessage s1 _ = Inr s2\<close> keyed_publish[OF Inr, of k']
      show ?thesis by (simp add: reply_pending_verification_def)
    qed
  qed
qed

lemma reserve_and_reply_keyed:
  "map_option o_id (getOrderByIdempotencyKey (snd (reserve_and_reply env s ord p q k)) k') =
   map_option o_id (getOrderByIdempotencyKey s k')"
proof -
  define s1 where "s1 = s\<lparr>grpc_requests := grpc_requests s @
                  [ReserveStockCall
                     \<lparr>rs_orderId = o_id ord, rs_productId = p,
                      rs_quantity = q, rs_idempotencyKey = Some k\<rparr>]\<rparr>"
  have s1: "getOrderByIdempotencyKey s1 k' = getOrderByIdempotencyKey s k'"
    by (simp add: s1_def getOrderByIdempotencyKey_def)
  show ?thesis
  proof (cases "client_reserveStock (env_rpc env)")
    case (Inl e)
    obtain m where e: "e = JsError m" by (cases e)
    with Inl s1 show ?thesis
      by (simp add: reserve_and_reply_def Let_def s1_def[symmetric]
            reply_pending_verification_keyed)
  next
    case (Inr r)
    with s1 show ?thesis
      by (simp add: reserve_and_reply_def Let_def s1_def[symmetric]
            reply_confirmed_def reply_failed_def update_publish_reply_keyed)
  qed
qed

lemma post_orders_keyed:
  assumes v: "valid_request req" and k: "request_key req = Some k" "k \<noteq> []"
    and d: "body_data (fst (post_orders env s req)) = Some ord1"
  shows "\<exists>ord2. existing_order (snd (post_orders env s req)) (Some k) = Some ord2
               \<and> o_id ord2 = o_id ord1"
proof (cases "existing_order s (request_key req)")
  case (Some ex)
  from post_orders_cached[OF v Some, of env] d k Some show ?thesis
    by (simp add: cached_reply_def)
next
  case None
  from valid_request_fields[OF v] obtain c p q where
    f: "body_customerId req = Some c" "c \<noteq> []" "body_productId req = Some p" "p \<noteq> []"
    "body_quantity req = Some q" "0 < q" by blast
  have rk: "requestIdempotencyKey env (request_key req) = k"
    using k by (simp add: requestIdempotencyKey_def)
  let ?input = "\<lparr>ci_customerId = c, ci_productId = p, ci_quantity = q,
                   ci_idempotencyKey = Some k\<rparr>"
  from None k have ex: "existing_order s (ci_idempotencyKey ?input) = None" by simp
  obtain res s1 where cr: "createOrder (env_order_uuid env) s ?input = (res, s1)"
    by fastforce
  from createOrder_cases[OF cr] ex
  consider (err) e where "res = Inl e" "s1 = s"
    | (new) "res = Inr (new_order_row (env_order_uuid env) ?input)"
        "orders s1 = orders s @ [new_order_row (env_order_uuid env) ?input]"
    by auto
  then show ?thesis
  proof cases
    case err
    obtain m where "e = JsError m" by (cases e)
    with err cr None d show ?thesis
      by (simp add: post_orders_valid[OF f] create_order_try_def rk internal_error_def)
  next
    case new
    let ?row = "new_order_row (env_order_uuid env) ?input"
    from None k have "find (\<lambda>ord. o_idempotencyKey ord = Some k) (orders s) = None"
      by (simp add: existing_order_def getOrderByIdempotencyKey_def)
    then have k1: "getOrderByIdempotencyKey s1 k = Some ?row"
      by (simp add: getOrderByIdempotencyKey_def new(2) find_append_None new_order_row_def)
    show ?thesis
    proof (cases "publishOrderEvent s1
                       \<lparr>ev_eventType = OrderCreated, ev_orderId = env_order_uuid env,
                        ev_customerId = Some c, ev_productId = Some p,
                        ev_quantity = Some q, ev_status = Some pending,
                        ev_reason = None, ev_reservationId = None\<rparr>")
      case (Inl e)
      obtain m where "e = JsError m" by (cases e)
      with Inl new(1) cr None d show ?thesis
        by (simp add: post_orders_valid[OF f] create_order_try_def rk internal_error_def)
    next
      case pub: (Inr s2)
      from keyed_publish[OF pub, of k] k1 have k2: "getOrderByIdempotencyKey s2 k = Some ?row"
        by simp
      obtain r s' where rr: "reserve_and_reply env s2 ?row p q k = (r, s')" by fastforce
      from reserve_and_reply_keyed[of env s2 ?row p q k k] rr k2
      have k3: "map_option o_id (getOrderByIdempotencyKey s' k) = Some (env_order_uuid env)"
        by simp
      have po: "post_orders env s req =
                  (case (r, s') of (Inl (JsError m), s') \<Rightarrow> (internal_error m, s')
                                 | (Inr response, s') \<Rightarrow> (response, s'))"
        using None cr new(1) pub rr
        by (simp add: post_orders_valid[OF f] create_order_try_def rk)
      show ?thesis
      proof (cases r)
        case (Inl e)
        obtain m where "e = JsError m" by (cases e)
        with Inl po d show ?thesis by (simp add: internal_error_def)
      next
        case (Inr resp)
        from createOrder_exists[OF cr[unfolded new(1)]] publishOrderEvent_getOrder[OF pub]
        obtain o0 where g: "getOrder s2 (o_id ?row) = Some o0" by auto
        from reserve_and_reply_outcome[OF g rr[unfolded Inr]] Inr po d
        have id1: "o_id ord1 = env_order_uuid env" by auto
        from k3 obtain ord2 where "getOrderByIdempotencyKey s' k = Some ord2"
          "o_id ord2 = env_order_uuid env" by auto
        with id1 Inr po k show ?thesis by (simp add: existing_order_def)
      qed
    qed
  qed
qed

lemma reply_pending_verification_row:
  assumes "o_id row \<notin> set (map o_id xs)" "orders s = xs @ [row]"
  shows "reply_pending_verification env s row productId quantity k =
     (if verifyOrdersSender s \<and> \<not> verify_send_ok s
            \<lparr>vo_orderId = o_id row, vo_productId = productId, vo_quantity = quantity,
             vo_idempotencyKey = k, vo_originalRequestTime = env_now env\<rparr>
      then (Inl (JsError ''sendMessages failed''),
            s\<lparr>orders := xs @ [set_status (env_now env) pending_verification None None row],
              order_events := order_events s @
                [\<lparr>oe_orderId = o_id row, oe_eventType = ''Status_pending_verification'',
                  oe_eventData = StatusData None None\<rparr>]\<rparr>)
      else if orderEventsSender s \<and> \<not> order_send_ok s
            \<lparr>ev_eventType = OrderPendingVerification, ev_orderId = o_id row,
             ev_customerId = None, ev_productId = Some productId,
             ev_quantity = Some quantity, ev_status = Some pending_verification,
             ev_reason = Some ''gRPC timeout - verification required'',
             ev_reservationId = None\<rparr>
      then (Inl (JsError ''sendMessages failed''),
            s\<lparr>orders := xs @ [set_status (env_now env) pending_verification None None row],
              order_events := order_events s @
                [\<lparr>oe_orderId = o_id row, oe_eventType = ''Status_pending_verification'',
                  oe_eventData = StatusData None None\<rparr>],
              verify_orders_queue := verify_orders_queue s @
                (if verifyOrdersSender s
                 then [\<lparr>vo_orderId = o_id row, vo_productId = productId,
                        vo_quantity = quantity, vo_idempotencyKey = k,
                        vo_originalRequestTime = env_now env\<rparr>]
                 else [])\<rparr>)
      else (Inr \<lparr>http_status = 202, body_success = True,
                 body_data = Some (set_status (env_now env) pending_verification None None row),
                 body_error = None,
                 body_message = Some ''Order is being verified. Please check status later.'',
                 body_cached = False, body_verificationRequired = True\<rparr>,
            s\<lparr>orders := xs @ [set_status (env_now env) pending_verification None None row],
              order_events := order_events s @
                [\<lparr>oe_orderId = o_id row, oe_eventType = ''Status_pending_verification'',
                  oe_eventData = StatusData None None\<rparr>],
              verify_orders_queue := verify_orders_queue s @
                (if verifyOrdersSender s
                 then [\<lparr>vo_orderId = o_id row, vo_productId = productId,
                        vo_quantity = quantity, vo_idempotencyKey = k,
                        vo_originalRequestTime = env_now env\<rparr>]
                 else []),
              order_events_topic := order_events_topic s @
                (if orderEventsSender s
                 then [\<lparr>ev_eventType = OrderPendingVerification, ev_orderId = o_id row,
                        ev_customerId = None, ev_productId = Some productId,
                        ev_quantity = Some quantity, ev_status = Some pending_verification,
                        ev_reason = Some ''gRPC timeout - verification required'',
                        ev_reservationId = None\<rparr>]
                 else [])\<rparr>))"
  using assms
  by (simp add: reply_pending_verification_def
        updateOrderStatus_new_row[OF assms(1) refl assms(2)]
        sendVerifyOrderMessage_def publishOrderEvent_def getOrder_def find_append_fresh_img)

lemmas order_defs =
  post_orders_def create_order_try_def reserve_and_reply_def reply_pending_verification_def
  reply_confirmed_def reply_failed_def createOrder_def insert_order_def new_order_row_def
  existing_order_def getOrderByIdempotencyKey_def requestIdempotencyKey_def request_key_def
  updateOrderStatus_def set_status_def getOrder_def publishOrderEvent_def
  sendVerifyOrderMessage_def client_reserveStock_def statusMap_def post_cancel_def
  http_reply_def internal_error_def bad_request_def cached_reply_def Let_def

lemma office_confirmed_orders:
  "orders office_confirmed =
     [\<lparr>o_id = ''order-1'', o_customerId = ''C1'', o_productId = ''SKU-002'', o_quantity = 3,
       o_status = confirmed, o_idempotencyKey = Some ''k-42'',
       o_reservationId = Some ''res-1'', o_completedAt = Some ''2024-01-01T10:00:00Z'',
       o_errorMessage = None\<rparr>]"
  by (simp add: office_confirmed_def office_def env_confirmed_def request_k42_def order_defs)

lemma office_pending_orders:
  "orders office_pending =
     [\<lparr>o_id = ''order-1'', o_customerId = ''C1'', o_productId = ''SKU-002'', o_quantity = 3,
       o_status = pending_verification, o_idempotencyKey = Some ''k-42'',
       o_reservationId = None, o_completedAt = None, o_errorMessage = None\<rparr>]"
  by (simp add: office_pending_def office_def env_timeout_def request_k42_def order_defs)

lemma office_pending_bus:
  "orderEventsSender office_pending" "order_send_ok office_pending = (\<lambda>_. True)"
  by (simp_all add: office_pending_def office_def env_timeout_def request_k42_def order_defs)

lemma office_cancelled_orders:
  "orders office_cancelled =
     [\<lparr>o_id = ''order-1'', o_customerId = ''C1'', o_productId = ''SKU-002'', o_quantity = 3,
       o_status = cancelled, o_idempotencyKey = Some ''k-42'',
       o_reservationId = None, o_completedAt = Some ''2024-01-01T10:01:00Z'',
       o_errorMessage = None\<rparr>]"
  by (simp add: office_cancelled_def office_pending_orders office_pending_bus order_defs)


lemma office_cancelled_bus:
  "orderEventsSender office_cancelled" "order_send_ok office_cancelled = (\<lambda>_. True)"
  by (simp_all add: office_cancelled_def office_pending_orders office_pending_bus order_defs)

lemma office_confirmed_bus:
  "orderEventsSender office_confirmed" "order_send_ok office_confirmed = (\<lambda>_. True)"
  by (simp_all add: office_confirmed_def office_def env_confirmed_def request_k42_def order_defs)

lemma office_status:
  "order_status_of office_confirmed ''order-1'' = Some confirmed"
  "order_status_of office_pending ''order-1'' = Some pending_verification"
  "order_status_of office_cancelled ''order-1'' = Some cancelled"
  by (simp_all add: order_status_of_def getOrder_def office_confirmed_orders
        office_pending_orders office_cancelled_orders)

lemma request_k42_valid: "valid_request request_k42"
  by (simp add: valid_request_def request_k42_def)

lemma request_k42_key: "request_key request_k42 = Some ''k-42''"
  by (simp add: request_key_def request_k42_def)

lemma office_existing: "existing_order office k = None"
  by (cases k) (simp_all add: existing_order_def getOrderByIdempotencyKey_def office_def)

lemma office_confirmed_existing:
  "existing_order office_confirmed (Some ''k-42'') =
     Some \<lparr>o_id = ''order-1'', o_customerId = ''C1'', o_productId = ''SKU-002'',
           o_quantity = 3, o_status = confirmed, o_idempotencyKey = Some ''k-42'',
           o_reservationId = Some ''res-1'',
           o_completedAt = Some ''2024-01-01T10:00:00Z'', o_errorMessage = None\<rparr>"
  by (simp add: existing_order_def getOrderByIdempotencyKey_def office_confirmed_orders)

lemma office_created_orders:
  "orders office_created = [order_1_pending]"
  "orderEventsSender office_created" "order_send_ok office_created = (\<lambda>_. True)"
  by (simp_all add: office_created_def order_1_pending_def office_def order_defs)

subsection \<open>Cancelling an order and releasing its reservation\<close>

lemma publishOrderEvent_grpc:
  "publishOrderEvent s ev = Inr s' \<Longrightarrow> grpc_requests s' = grpc_requests s"
  by (auto simp: publishOrderEvent_def split: if_splits)

lemma publish_products:
  "products (publishInventoryEvent s ev) = products s"
  by (simp add: publishInventoryEvent_def)

lemma find_map_pred:
  "(\<And>x. P (f x) = P x) \<Longrightarrow> find P (map f xs) = map_option f (find P xs)"
  by (induction xs) auto

lemma post_cancel_confirmed:
  assumes g: "getOrder os oid = Some ord" and c: "o_status ord = confirmed"
    and r: "o_reservationId ord = Some rid" "rid \<noteq> []"
  shows "grpc_requests (snd (post_cancel now os oid)) = grpc_requests os @
           [ReleaseStockCall \<lparr>rq_orderId = oid, rq_reservationId = rid,
                              rq_reason = ''Order cancelled by user''\<rparr>]
       \<and> order_status_of (snd (post_cancel now os oid)) oid = Some cancelled"
proof -
  from g have id: "o_id ord = oid" by (rule getOrder_id)
  define s1 where "s1 = os\<lparr>grpc_requests := grpc_requests os @
           [ReleaseStockCall \<lparr>rq_orderId = oid, rq_reservationId = rid,
                              rq_reason = ''Order cancelled by user''\<rparr>]\<rparr>"
  have g1: "order_status_of s1 oid = Some confirmed"
    using g c by (simp add: s1_def order_status_of_def getOrder_def)
  obtain a s2 where u: "updateOrderStatus now s1 oid cancelled None None = (a, s2)"
    by fastforce
  from order_status_of_update[of now s1 oid cancelled None None oid] u g1
  have st2: "order_status_of s2 oid = Some cancelled" by simp
  from updateOrderStatus_frame(7)[of now s1 oid cancelled None None] u
  have rq2: "grpc_requests s2 = grpc_requests s1" by simp
  let ?ev = "\<lparr>ev_eventType = OrderCancelled, ev_orderId = oid,
              ev_customerId = None, ev_productId = None, ev_quantity = None,
              ev_status = Some cancelled, ev_reason = Some ''Cancelled by user'',
              ev_reservationId = None\<rparr>"
  have pc: "post_cancel now os oid =
              (case publishOrderEvent s2 ?ev of
                 Inl (JsError m) \<Rightarrow> (http_reply 500 False None (Some m), s2)
               | Inr s3 \<Rightarrow> (http_reply 200 True (getOrder s3 (o_id ord)) None, s3))"
    using g c r id u by (simp add: post_cancel_def s1_def[symmetric])
  show ?thesis
  proof (cases "publishOrderEvent s2 ?ev")
    case (Inl e)
    obtain m where "e = JsError m" by (cases e)
    with Inl pc st2 rq2 show ?thesis by (simp add: s1_def)
  next
    case (Inr s3)
    with pc st2 rq2 publishOrderEvent_grpc[OF Inr] publishOrderEvent_status[OF Inr, of oid]
    show ?thesis by (simp add: s1_def)
  qed
qed

lemma releaseStock_active:
  assumes f: "find (\<lambda>r. r_id r = rid \<and> r_orderId r = oid) (reservations db) = Some r"
    and a: "r_status r = active" and p: "products db (r_productId r) = Some p"
  shows "releaseStock db oid rid reason =
     (Inr \<lparr>rl_success = True, rl_message = ''Stock released successfully'',
           newStock = Some (stock p + r_quantity r)\<rparr>,
      db\<lparr>products := (products db)(r_productId r \<mapsto> p\<lparr>stock := stock p + r_quantity r\<rparr>),
          reservations :=
            map (\<lambda>x. if r_id x = rid then x\<lparr>r_status := released\<rparr> else x) (reservations db),
          stock_audit_log := stock_audit_log db @
            [\<lparr>a_productId = r_productId r, a_operation = op_release,
              a_quantityChange = r_quantity r, a_previousStock = stock p,
              a_newStock = stock p + r_quantity r, a_orderId = oid,
              a_reservationId = rid, a_reason = reason\<rparr>]\<rparr>)"
  using assms by (simp add: releaseStock_def Let_def)

lemma releaseStock_refused:
  assumes "find (\<lambda>r. r_id r = resId \<and> r_orderId r = orderId) (reservations db) = None
           \<or> (\<exists>r. find (\<lambda>r. r_id r = resId \<and> r_orderId r = orderId) (reservations db) = Some r
                  \<and> r_status r \<noteq> active)"
  shows "snd (releaseStock db orderId resId reason) = db
       \<and> (\<exists>res. fst (releaseStock db orderId resId reason) = Inr res
                \<and> \<not> rl_success res \<and> newStock res = None)"
  using assms by (auto simp: releaseStock_def)

lemma handleStockReserved_other:
  assumes "d_orderId d \<noteq> oid"
  shows "order_status_of (snd (handleStockReserved now s d)) oid = order_status_of s oid"
proof -
  obtain a s1 where u: "updateOrderStatus now s (d_orderId d) confirmed (d_reservationId d)
        None = (a, s1)" by fastforce
  from order_status_of_update[of now s "d_orderId d" confirmed "d_reservationId d" None oid]
    u assms
  have s1: "order_status_of s1 oid = order_status_of s oid" by simp
  show ?thesis
  proof (cases a)
    case None
    with u s1 show ?thesis by (simp add: handleStockReserved_def)
  next
    case (Some ord)
    show ?thesis
    proof (cases "publishOrderEvent s1
                  \<lparr>ev_eventType = OrderConfirmed, ev_orderId = d_orderId d,
                   ev_customerId = None, ev_productId = None, ev_quantity = None,
                   ev_status = Some confirmed, ev_reason = None,
                   ev_reservationId = d_reservationId d\<rparr>")
      case (Inl e)
      with u Some s1 show ?thesis by (simp add: handleStockReserved_def)
    next
      case (Inr s2)
      with u Some s1 publishOrderEvent_status[OF Inr, of oid] show ?thesis
        by (simp add: handleStockReserved_def)
    qed
  qed
qed

lemma post_cancel_refused:
  assumes "order_status_of s oid = Some st" "st = failed \<or> st = cancelled"
  shows "snd (post_cancel now s oid) = s \<and> http_status (fst (post_cancel now s oid)) = 400
       \<and> \<not> body_success (fst (post_cancel now s oid))"
  using assms
  by (cases "getOrder s oid") (auto simp: order_status_of_def post_cancel_def http_reply_def)

lemma post_cancel_cancels:
  assumes "order_status_of s oid = Some st" "st \<noteq> failed" "st \<noteq> cancelled"
  shows "order_status_of (snd (post_cancel now s oid)) oid = Some cancelled"
proof -
  from assms(1) obtain ord where g: "getOrder s oid = Some ord" and st: "o_status ord = st"
    by (auto simp: order_status_of_def)
  from g have id: "o_id ord = oid" by (rule getOrder_id)
  define s1 where "s1 = (case o_reservationId ord of
                         Some resId \<Rightarrow>
                           if o_status ord = confirmed \<and> truthy (o_reservationId ord)
                           then s\<lparr>grpc_requests := grpc_requests s @
                                    [ReleaseStockCall
                                       \<lparr>rq_orderId = o_id ord, rq_reservationId = resId,
                                        rq_reason = ''Order cancelled by user''\<rparr>]\<rparr>
                           else s
                       | None \<Rightarrow> s)"
  have g1: "order_status_of s1 oid = Some st"
    using g st by (simp add: s1_def order_status_of_def getOrder_def split: option.splits)
  obtain a s2 where u: "updateOrderStatus now s1 oid cancelled None None = (a, s2)"
    by fastforce
  from order_status_of_update[of now s1 oid cancelled None None oid] u g1
  have st2: "order_status_of s2 oid = Some cancelled" by simp
  let ?ev = "\<lparr>ev_eventType = OrderCancelled, ev_orderId = oid,
              ev_customerId = None, ev_productId = None, ev_quantity = None,
              ev_status = Some cancelled, ev_reason = Some ''Cancelled by user'',
              ev_reservationId = None\<rparr>"
  have pc: "post_cancel now s oid =
              (case publishOrderEvent s2 ?ev of
                 Inl (JsError m) \<Rightarrow> (http_reply 500 False None (Some m), s2)
               | Inr s3 \<Rightarrow> (http_reply 200 True (getOrder s3 (o_id ord)) None, s3))"
    using g st assms(2,3) id u by (simp add: post_cancel_def s1_def[symmetric] Let_def)
  show ?thesis
  proof (cases "publishOrderEvent s2 ?ev")
    case (Inl e)
    obtain m where "e = JsError m" by (cases e)
    with Inl pc st2 show ?thesis by simp
  next
    case (Inr s3)
    with pc st2 publishOrderEvent_status[OF Inr, of oid] show ?thesis by simp
  qed
qed

section \<open>Claim C1: terminal order statuses\<close>

text \<open>
  Claim C1 fails as stated. The cancel handler refuses only a \<^verbatim>\<open>cancelled\<close> or
  \<^verbatim>\<open>failed\<close> order, so a \<^verbatim>\<open>confirmed\<close> order becomes \<^verbatim>\<open>cancelled\<close>. And two paths
  call \<^verbatim>\<open>updateOrderStatus\<close>, whose \<^verbatim>\<open>UPDATE\<close> has no condition on the status,
  without reading the order first. \<^verbatim>\<open>handleStockReserved\<close>: the order that ran into
  the deadline and was cancelled while in \<^verbatim>\<open>pending_verification\<close> becomes
  \<^verbatim>\<open>confirmed\<close> when the \<^verbatim>\<open>StockReserved\<close> event of its late reservation arrives.
  The reply path of \<^verbatim>\<open>POST /orders\<close>: the order that is cancelled while its
  reservation call is pending becomes \<^verbatim>\<open>confirmed\<close> when the call returns.
\<close>

theorem terminal_status_counterexample:
  "order_status_of office_confirmed ''order-1'' = Some confirmed
   \<and> order_status_of
         (snd (post_cancel ''2024-01-01T10:02:00Z'' office_confirmed ''order-1''))
         ''order-1'' = Some cancelled
   \<and> order_status_of office_cancelled ''order-1'' = Some cancelled
   \<and> order_status_of
         (snd (processMessage ''2024-01-01T10:02:00Z'' office_cancelled ''StockReserved''
                 stock_reserved_order_1)) ''order-1'' = Some confirmed
   \<and> order_status_of office_created ''order-1'' = Some pending
   \<and> order_status_of
         (snd (post_cancel ''2024-01-01T10:00:01Z'' office_created ''order-1''))
         ''order-1'' = Some cancelled
   \<and> order_status_of
         (snd (reserve_and_reply env_confirmed
                 (snd (post_cancel ''2024-01-01T10:00:01Z'' office_created ''order-1''))
                 order_1_pending ''SKU-002'' 3 ''k-42'')) ''order-1'' = Some confirmed"
proof -
  have a: "order_status_of
         (snd (processMessage ''2024-01-01T10:02:00Z'' office_cancelled ''StockReserved''
                 stock_reserved_order_1)) ''order-1'' = Some confirmed"
    by (simp add: processMessage_def handleStockReserved_def stock_reserved_order_1_def
          order_status_of_def office_cancelled_orders office_cancelled_bus order_defs)
  have b: "order_status_of
         (snd (post_cancel ''2024-01-01T10:02:00Z'' office_confirmed ''order-1''))
         ''order-1'' = Some cancelled"
    by (simp add: order_status_of_def office_confirmed_orders office_confirmed_bus order_defs)
  have c: "order_status_of office_created ''order-1'' = Some pending"
    by (simp add: order_status_of_def getOrder_def office_created_orders order_1_pending_def
          new_order_row_def)
  define s1 where "s1 = snd (post_cancel ''2024-01-01T10:00:01Z'' office_created ''order-1'')"
  have o1: "orders s1 =
      [\<lparr>o_id = ''order-1'', o_customerId = ''C1'', o_productId = ''SKU-002'', o_quantity = 3,
        o_status = cancelled, o_idempotencyKey = Some ''k-42'',
        o_reservationId = None, o_completedAt = Some ''2024-01-01T10:00:01Z'',
        o_errorMessage = None\<rparr>]"
    "orderEventsSender s1" "order_send_ok s1 = (\<lambda>_. True)"
    by (simp_all add: s1_def office_created_orders order_1_pending_def order_defs)
  have d: "order_status_of s1 ''order-1'' = Some cancelled"
    by (simp add: order_status_of_def getOrder_def o1)
  have e: "order_status_of
         (snd (reserve_and_reply env_confirmed s1 order_1_pending ''SKU-002'' 3 ''k-42''))
         ''order-1'' = Some confirmed"
    by (simp add: order_status_of_def o1 order_1_pending_def env_confirmed_def order_defs)
  show ?thesis using a b c d e unfolding s1_def by (simp add: office_status)
qed

text \<open>
  Claim C1, as amended. Let an order have a status in \<^verbatim>\<open>{confirmed, failed,
  cancelled}\<close>. It keeps that status when the consumer handles any event other than a
  \<^verbatim>\<open>StockReserved\<close> event for this order (in particular \<^verbatim>\<open>OrderVerified\<close> and
  \<^verbatim>\<open>VerificationComplete\<close>, which act only on an order in
  \<^verbatim>\<open>pending_verification\<close>), when a cancel request for another order is handled, and
  when the reply path of the create request of another order runs. A cancel request
  for the order itself is refused with 400 and changes nothing if the order is
  \<^verbatim>\<open>failed\<close> or \<^verbatim>\<open>cancelled\<close>, and turns a \<^verbatim>\<open>confirmed\<close> order into
  \<^verbatim>\<open>cancelled\<close>. What a \<^verbatim>\<open>StockReserved\<close> event for the order and the reply path
  of its own create request do to it is not part of this statement.
\<close>

theorem terminal_status_kept:
  assumes "order_status_of s orderId = Some st" and "terminal st"
  shows "(eventType \<noteq> ''StockReserved'' \<or> d_orderId d \<noteq> orderId \<longrightarrow>
            order_status_of (snd (processMessage now s eventType d)) orderId = Some st)
         \<and> (cancelId \<noteq> orderId \<longrightarrow>
              order_status_of (snd (post_cancel now s cancelId)) orderId = Some st)
         \<and> (st \<noteq> confirmed \<longrightarrow>
              snd (post_cancel now s orderId) = s
              \<and> http_status (fst (post_cancel now s orderId)) = 400
              \<and> \<not> body_success (fst (post_cancel now s orderId)))
         \<and> (st = confirmed \<longrightarrow>
              order_status_of (snd (post_cancel now s orderId)) orderId = Some cancelled)
         \<and> (o_id ord \<noteq> orderId \<longrightarrow>
              order_status_of (snd (reserve_and_reply env s ord productId quantity k))
                orderId = Some st)"
proof (intro conjI impI)
  from assms(2) have np: "st \<noteq> pending_verification" by (auto simp: terminal_def)
  assume "eventType \<noteq> ''StockReserved'' \<or> d_orderId d \<noteq> orderId"
  then show "order_status_of (snd (processMessage now s eventType d)) orderId = Some st"
    using handleVerificationComplete_status[OF assms(1) np, of now d] assms(1)
      handleStockReserved_other[of d orderId now s]
    by (auto simp: processMessage_def)
next
  assume "cancelId \<noteq> orderId"
  then have "cancelId \<noteq> orderId \<or> st = failed \<or> st = cancelled" by simp
  then show "order_status_of (snd (post_cancel now s cancelId)) orderId = Some st"
    by (rule post_cancel_status[OF assms(1)])
next
  assume "st \<noteq> confirmed"
  with assms(2) have f: "st = failed \<or> st = cancelled" by (auto simp: terminal_def)
  from post_cancel_refused[OF assms(1) f, of now]
  show "snd (post_cancel now s orderId) = s"
    "http_status (fst (post_cancel now s orderId)) = 400"
    "\<not> body_success (fst (post_cancel now s orderId))" by simp_all
next
  assume "st = confirmed"
  then show "order_status_of (snd (post_cancel now s orderId)) orderId = Some cancelled"
    using post_cancel_cancels[OF assms(1), of now] by simp
next
  assume "o_id ord \<noteq> orderId"
  then show "order_status_of (snd (reserve_and_reply env s ord productId quantity k))
                orderId = Some st"
    using reserve_and_reply_status[of orderId ord env s productId quantity k] assms(1)
    by auto
qed

theorem terminal_status_kept_witness:
  "order_status_of office_cancelled ''order-1'' = Some cancelled \<and> terminal cancelled
   \<and> order_status_of
         (snd (processMessage ''2024-01-01T10:02:00Z'' office_cancelled ''OrderVerified''
                 order_verified_order_1)) ''order-1'' = Some cancelled
   \<and> snd (post_cancel ''2024-01-01T10:02:00Z'' office_cancelled ''order-1'') =
       office_cancelled
   \<and> http_status (fst (post_cancel ''2024-01-01T10:02:00Z'' office_cancelled ''order-1''))
       = 400
   \<and> order_status_of office_confirmed ''order-1'' = Some confirmed \<and> terminal confirmed
   \<and> order_status_of
         (snd (post_cancel ''2024-01-01T10:02:00Z'' office_confirmed ''order-1''))
         ''order-1'' = Some cancelled
   \<and> order_status_of
         (snd (post_cancel ''2024-01-01T10:02:00Z'' office_confirmed ''order-2''))
         ''order-1'' = Some confirmed"
proof -
  have t: "terminal cancelled" "terminal confirmed" by (simp_all add: terminal_def)
  have e: "''OrderVerified'' \<noteq> ''StockReserved''" by simp
  note th = terminal_status_kept[OF office_status(3) t(1),
         of "''OrderVerified''" order_verified_order_1 "''2024-01-01T10:02:00Z''"]
  note th' = terminal_status_kept[OF office_status(1) t(2),
         of _ _ "''2024-01-01T10:02:00Z''" "''order-2''"]
  from th e have a: "order_status_of
         (snd (processMessage ''2024-01-01T10:02:00Z'' office_cancelled ''OrderVerified''
                 order_verified_order_1)) ''order-1'' = Some cancelled"
    "snd (post_cancel ''2024-01-01T10:02:00Z'' office_cancelled ''order-1'') =
       office_cancelled"
    "http_status (fst (post_cancel ''2024-01-01T10:02:00Z'' office_cancelled ''order-1''))
       = 400"
    by simp_all
  from th' have b: "order_status_of
         (snd (post_cancel ''2024-01-01T10:02:00Z'' office_confirmed ''order-1''))
         ''order-1'' = Some cancelled"
    "order_status_of
         (snd (post_cancel ''2024-01-01T10:02:00Z'' office_confirmed ''order-2''))
         ''order-1'' = Some confirmed"
    by simp_all
  show ?thesis using a b t office_status by simp
qed

section \<open>Claim C2: reserve idempotence\<close>

text \<open>
  Claim C2 fails as stated for a pair of calls whose first call reserves nothing: two
  calls with the key \<^verbatim>\<open>k-42\<close> for more units than the stock are both answered
  with \<^verbatim>\<open>insufficient_stock\<close>, and no reservation row exists afterwards. It also
  fails for the empty string as key, which the lookup skips: the second call runs into
  the unique constraint and throws.
\<close>

theorem reserve_idempotence_counterexample:
  "reserveStock ''res-1'' shop ''order-1'' ''SKU-001'' 100 (Some ''k-42'') =
     (Inr \<lparr>success = False,
           message = ''Insufficient stock. Available: 50, Requested: 100'',
           reservationId = None, remainingStock = Some 50,
           status = rs_insufficient_stock\<rparr>, shop)
   \<and> reserveStock ''res-2'' shop ''order-1'' ''SKU-001'' 100 (Some ''k-42'') =
     (Inr \<lparr>success = False,
           message = ''Insufficient stock. Available: 50, Requested: 100'',
           reservationId = None, remainingStock = Some 50,
           status = rs_insufficient_stock\<rparr>, shop)
   \<and> filter (\<lambda>r. r_idempotencyKey r = Some ''k-42'') (reservations shop) = []
   \<and> reserveStock ''res-1'' shop ''order-1'' ''SKU-002'' 3 (Some []) =
     (Inr \<lparr>success = True, message = ''Stock reserved successfully'',
           reservationId = Some ''res-1'', remainingStock = Some 197,
           status = rs_confirmed\<rparr>, shop_empty_key)
   \<and> reserveStock ''res-2'' shop_empty_key ''order-1'' ''SKU-002'' 3 (Some []) =
     (Inl (JsError
        ''duplicate key value violates unique constraint reservations_idempotency_key_key''),
      shop_empty_key)"
proof -
  have a: "reserveStock uuid shop ''order-1'' ''SKU-001'' 100 (Some ''k-42'') =
     (Inr \<lparr>success = False,
           message = ''Insufficient stock. Available: 50, Requested: 100'',
           reservationId = None, remainingStock = Some 50,
           status = rs_insufficient_stock\<rparr>, shop)" for uuid
    by (simp add: reserveStock_insufficient[OF shop_existing shop_products(2)]
          shop_products(6) show_int_50 show_int_100)
  have b: "reserveStock ''res-1'' shop ''order-1'' ''SKU-002'' 3 (Some []) =
     (Inr \<lparr>success = True, message = ''Stock reserved successfully'',
           reservationId = Some ''res-1'', remainingStock = Some 197,
           status = rs_confirmed\<rparr>, shop_empty_key)"
    by (simp add: reserveStock_ok[OF shop_existing shop_products(1)] shop_products shop_empty_key_eq)
  have c: "reserveStock ''res-2'' shop_empty_key ''order-1'' ''SKU-002'' 3 (Some []) =
     (Inl (JsError
        ''duplicate key value violates unique constraint reservations_idempotency_key_key''),
      shop_empty_key)"
    by (simp add: reserveStock_def existing_reservation_def insert_reservation_def
          shop_empty_key_eq shop_products Let_def)
  show ?thesis using a b c by (simp add: shop_products)
qed

text \<open>
  Claim C2, as amended. In a table that satisfies its constraints, let a call of
  \<^verbatim>\<open>reserveStock\<close> with a non-empty idempotency key succeed (with status
  \<^verbatim>\<open>confirmed\<close> or \<^verbatim>\<open>already_exists\<close>). Then exactly one reservation row holds
  the key, and a second call with the same key, whatever its other arguments, returns
  success with status \<^verbatim>\<open>already_exists\<close> and the reservation id of the first call
  (and no \<^verbatim>\<open>remainingStock\<close>), and leaves the whole database, the product stock
  included, as it was.
\<close>

theorem reserve_idempotence:
  assumes "k \<noteq> []" and "reservations_wf s"
      and "reserveStock uuid1 s orderId1 productId1 quantity1 (Some k) = (Inr r1, s1)"
      and "success r1"
  shows "reserveStock uuid2 s1 orderId2 productId2 quantity2 (Some k) =
           (Inr \<lparr>success = True, message = ''Reservation already exists (idempotent)'',
                 reservationId = reservationId r1, remainingStock = None,
                 status = rs_already_exists\<rparr>, s1)
         \<and> length (filter (\<lambda>r. r_idempotencyKey r = Some k) (reservations s1)) = 1"
proof -
  from reserveStock_success_cases[OF assms(3,4)]
  consider (old) existing where "existing_reservation s (Some k) = Some existing" "s1 = s"
        "reservationId r1 = Some (r_id existing)"
    | (new) "existing_reservation s (Some k) = None" "reservationId r1 = Some uuid1"
        "reservations s1 = reservations s @
                 [\<lparr>r_id = uuid1, r_orderId = orderId1, r_productId = productId1,
                   r_quantity = quantity1, r_status = active, r_idempotencyKey = Some k\<rparr>]"
    by auto
  then show ?thesis
  proof cases
    case old
    from old(1) assms(1) have f: "find (\<lambda>r. r_idempotencyKey r = Some k) (reservations s) = Some existing"
      by (simp add: existing_reservation_def find_by_idempotency_key_def)
    from assms(2) have "length (filter (\<lambda>r. r_idempotencyKey r = Some k) (reservations s)) \<le> 1"
      unfolding reservations_wf_def by (elim conjE) (rule distinct_keys_le1)
    with find_Some_filter_ge1[OF f]
    have "length (filter (\<lambda>r. r_idempotencyKey r = Some k) (reservations s)) = 1" by simp
    with old show ?thesis by (simp add: reserveStock_def)
  next
    case new
    from new(1) assms(1) have f: "find (\<lambda>r. r_idempotencyKey r = Some k) (reservations s) = None"
      by (simp add: existing_reservation_def find_by_idempotency_key_def)
    then have e: "filter (\<lambda>r. r_idempotencyKey r = Some k) (reservations s) = []"
      by (simp add: find_None_filter)
    have "existing_reservation s1 (Some k) =
            Some \<lparr>r_id = uuid1, r_orderId = orderId1, r_productId = productId1,
                   r_quantity = quantity1, r_status = active, r_idempotencyKey = Some k\<rparr>"
      using assms(1) new(3) find_append_None[OF f]
      by (simp add: existing_reservation_def find_by_idempotency_key_def)
    with new(2,3) e show ?thesis by (simp add: reserveStock_def)
  qed
qed

theorem reserve_idempotence_witness:
  "reserveStock ''res-1'' shop ''order-1'' ''SKU-002'' 3 (Some ''k-42'') =
     (Inr \<lparr>success = True, message = ''Stock reserved successfully'',
           reservationId = Some ''res-1'', remainingStock = Some 197,
           status = rs_confirmed\<rparr>, shop_reserved)
   \<and> reserveStock ''res-2'' shop_reserved ''order-1'' ''SKU-002'' 3 (Some ''k-42'') =
     (Inr \<lparr>success = True, message = ''Reservation already exists (idempotent)'',
           reservationId = Some ''res-1'', remainingStock = None,
           status = rs_already_exists\<rparr>, shop_reserved)
   \<and> length (filter (\<lambda>r. r_idempotencyKey r = Some ''k-42'') (reservations shop_reserved)) = 1"
proof -
  have wf: "reservations_wf shop" by (simp add: reservations_wf_def shop_def)
  have first: "reserveStock ''res-1'' shop ''order-1'' ''SKU-002'' 3 (Some ''k-42'') =
     (Inr \<lparr>success = True, message = ''Stock reserved successfully'',
           reservationId = Some ''res-1'', remainingStock = Some 197,
           status = rs_confirmed\<rparr>, shop_reserved)"
    by (simp add: reserveStock_ok[OF shop_existing shop_products(1)] shop_products shop_reserved_eq)
  have k: "''k-42'' \<noteq> []" by simp
  from reserve_idempotence[OF k wf first, of "''res-2''" "''order-1''" "''SKU-002''" 3] first
  show ?thesis by simp
qed

section \<open>Claim C3: at most one active reservation per order\<close>

text \<open>
  Claim C3, at the run of the timeout protocol, starting from the shop with an empty
  reservations table: the reservation call of \<^verbatim>\<open>order-1\<close> (key \<^verbatim>\<open>k-42\<close>) is
  delayed beyond the client's deadline, the \<^verbatim>\<open>VerifyOrder\<close> message of the order is
  handled first, and then the delayed call commits. The handler looks for an
  \<^verbatim>\<open>active\<close> reservation of the order, finds none and reserves under the key
  \<^verbatim>\<open>verify-k-42\<close>; \<^verbatim>\<open>reserveStock\<close> itself looks up the key only, which differs
  from the handler's, and not the order. The code leaves two \<^verbatim>\<open>active\<close> rows for
  \<^verbatim>\<open>order-1\<close> and has deducted the three units twice (stock 194 for 200), where
  the claim allows one \<^verbatim>\<open>active\<close> row. When the call commits before the message
  is handled, the handler's lookup finds the reservation and adds none.
\<close>

theorem one_active_reservation_violated:
  "reservations shop = []
   \<and> map_option stock (products shop ''SKU-002'') = Some 200
   \<and> reservations (run shop racing_ops) =
       [\<lparr>r_id = ''res-1'', r_orderId = ''order-1'', r_productId = ''SKU-002'',
         r_quantity = 3, r_status = active, r_idempotencyKey = Some ''verify-k-42''\<rparr>,
        \<lparr>r_id = ''res-2'', r_orderId = ''order-1'', r_productId = ''SKU-002'',
         r_quantity = 3, r_status = active, r_idempotencyKey = Some ''k-42''\<rparr>]
   \<and> \<not> at_most_one_active (run shop racing_ops)
   \<and> map_option stock (products (run shop racing_ops) ''SKU-002'') = Some 194
   \<and> map r_id (reservations (run shop in_time_ops)) = [''res-1'']
   \<and> at_most_one_active (run shop in_time_ops)
   \<and> map_option stock (products (run shop in_time_ops) ''SKU-002'') = Some 197"
  by (simp add: racing_reservations racing_stock in_time_run at_most_one_active_def
        active_count_def shop_products)

section \<open>Claim C4: the reference behaviour of \<^verbatim>\<open>reserveStock\<close>\<close>

text \<open>
  Claim C4 fails as stated in its first case: for a key that already has a
  reservation the result carries no \<^verbatim>\<open>remainingStock\<close> at all (the function returns
  before it reads the product), although the product has a current stock; and the
  lookup is made only for a truthy key, so a second call with the empty string as key
  is not answered with \<^verbatim>\<open>already_exists\<close>: it passes the stock check, runs into
  the unique constraint at the insert, is rolled back and throws.
\<close>

theorem reserveStock_reference_counterexample:
  "map_option r_id (find (\<lambda>r. r_idempotencyKey r = Some ''k-42'') (reservations shop_reserved))
     = Some ''res-1''
   \<and> map_option stock (products shop_reserved ''SKU-002'') = Some 197
   \<and> reserveStock ''res-2'' shop_reserved ''order-1'' ''SKU-002'' 3 (Some ''k-42'') =
     (Inr \<lparr>success = True, message = ''Reservation already exists (idempotent)'',
          reservationId = Some ''res-1'', remainingStock = None,
          status = rs_already_exists\<rparr>, shop_reserved)
   \<and> map_option r_id (find (\<lambda>r. r_idempotencyKey r = Some []) (reservations shop_empty_key))
     = Some ''res-1''
   \<and> reserveStock ''res-2'' shop_empty_key ''order-1'' ''SKU-002'' 3 (Some []) =
     (Inl (JsError
        ''duplicate key value violates unique constraint reservations_idempotency_key_key''),
      shop_empty_key)"
proof -
  have a: "reserveStock ''res-2'' shop_reserved ''order-1'' ''SKU-002'' 3 (Some ''k-42'') =
     (Inr \<lparr>success = True, message = ''Reservation already exists (idempotent)'',
          reservationId = Some ''res-1'', remainingStock = None,
          status = rs_already_exists\<rparr>, shop_reserved)"
    by (simp add: reserveStock_existing[OF shop_reserved_existing])
  have b: "reserveStock ''res-2'' shop_empty_key ''order-1'' ''SKU-002'' 3 (Some []) =
     (Inl (JsError
        ''duplicate key value violates unique constraint reservations_idempotency_key_key''),
      shop_empty_key)"
    by (simp add: reserveStock_def existing_reservation_def insert_reservation_def
          shop_empty_key_eq shop_products Let_def)
  show ?thesis using a b by (simp add: shop_reserved_eq shop_empty_key_eq)
qed

text \<open>
  Claim C4, as amended. \<^verbatim>\<open>reserveStock(orderId, productId, quantity > 0,
  idempotencyKey?)\<close> behaves as follows. If the key is truthy and a reservation with
  it exists, the result is success with status \<^verbatim>\<open>already_exists\<close> and that
  reservation's id, without a \<^verbatim>\<open>remainingStock\<close>, and nothing changes. Otherwise, if
  the product row is missing, the result is \<^verbatim>\<open>product_not_found\<close> and nothing
  changes; if the stock is below the quantity, it is \<^verbatim>\<open>insufficient_stock\<close> with
  the current stock as \<^verbatim>\<open>remainingStock\<close> and nothing changes. Otherwise, the
  drawn uuid being new: if the key is the empty string and a reservation row holds
  the empty string as key already, the insert violates the unique constraint, the
  transaction is rolled back and the call throws, and nothing changes; in every other
  case the stock becomes \<open>stock - quantity\<close>, one \<^verbatim>\<open>active\<close> reservation row and
  one audit row with the previous and the new stock are appended, and the result is
  success with status \<^verbatim>\<open>confirmed\<close> and \<open>remainingStock = stock - quantity\<close>. The
  numbers in the message of \<^verbatim>\<open>insufficient_stock\<close> are printed by the runtime.
\<close>

theorem reserveStock_reference:
  assumes "0 < quantity"
  shows
  "(existing_reservation s k = Some existing \<longrightarrow>
      reserveStock uuid s orderId productId quantity k =
        (Inr \<lparr>success = True, message = ''Reservation already exists (idempotent)'',
              reservationId = Some (r_id existing), remainingStock = None,
              status = rs_already_exists\<rparr>, s))
   \<and> (existing_reservation s k = None \<and> products s productId = None \<longrightarrow>
      reserveStock uuid s orderId productId quantity k =
        (Inr \<lparr>success = False, message = ''Product '' @ productId @ '' not found'',
              reservationId = None, remainingStock = None,
              status = rs_product_not_found\<rparr>, s))
   \<and> (existing_reservation s k = None \<and> products s productId = Some product
        \<and> stock product < quantity \<longrightarrow>
      reserveStock uuid s orderId productId quantity k =
        (Inr \<lparr>success = False,
              message = ''Insufficient stock. Available: ''
                        @ number_toString s (stock product)
                        @ '', Requested: '' @ number_toString s quantity,
              reservationId = None, remainingStock = Some (stock product),
              status = rs_insufficient_stock\<rparr>, s))
   \<and> (existing_reservation s k = None \<and> products s productId = Some product
        \<and> quantity \<le> stock product
        \<and> uuid \<notin> set (map r_id (reservations s))
        \<and> k = Some [] \<and> Some [] \<in> set (map r_idempotencyKey (reservations s)) \<longrightarrow>
      reserveStock uuid s orderId productId quantity k =
        (Inl (JsError
           ''duplicate key value violates unique constraint reservations_idempotency_key_key''),
         s))
   \<and> (existing_reservation s k = None \<and> products s productId = Some product
        \<and> quantity \<le> stock product
        \<and> uuid \<notin> set (map r_id (reservations s))
        \<and> \<not> (k = Some [] \<and> Some [] \<in> set (map r_idempotencyKey (reservations s)))
        \<longrightarrow>
      reserveStock uuid s orderId productId quantity k =
        (Inr \<lparr>success = True, message = ''Stock reserved successfully'',
              reservationId = Some uuid,
              remainingStock = Some (stock product - quantity),
              status = rs_confirmed\<rparr>,
         s\<lparr>products := (products s)
                (productId \<mapsto> product\<lparr>stock := stock product - quantity\<rparr>),
           reservations := reservations s @
             [\<lparr>r_id = uuid, r_orderId = orderId, r_productId = productId,
               r_quantity = quantity, r_status = active, r_idempotencyKey = k\<rparr>],
           stock_audit_log := stock_audit_log s @
             [\<lparr>a_productId = productId, a_operation = op_reserve,
               a_quantityChange = - quantity,
               a_previousStock = stock product,
               a_newStock = stock product - quantity,
               a_orderId = orderId, a_reservationId = uuid,
               a_reason = ''order_reservation''\<rparr>]\<rparr>))"
proof (intro conjI impI)
  assume "existing_reservation s k = Some existing"
  then show "reserveStock uuid s orderId productId quantity k =
        (Inr \<lparr>success = True, message = ''Reservation already exists (idempotent)'',
              reservationId = Some (r_id existing), remainingStock = None,
              status = rs_already_exists\<rparr>, s)"
    by (rule reserveStock_existing)
next
  assume "existing_reservation s k = None \<and> products s productId = None"
  then show "reserveStock uuid s orderId productId quantity k =
        (Inr \<lparr>success = False, message = ''Product '' @ productId @ '' not found'',
              reservationId = None, remainingStock = None,
              status = rs_product_not_found\<rparr>, s)"
    by (simp add: reserveStock_not_found)
next
  assume "existing_reservation s k = None \<and> products s productId = Some product
        \<and> stock product < quantity"
  then show "reserveStock uuid s orderId productId quantity k =
        (Inr \<lparr>success = False,
              message = ''Insufficient stock. Available: ''
                        @ number_toString s (stock product)
                        @ '', Requested: '' @ number_toString s quantity,
              reservationId = None, remainingStock = Some (stock product),
              status = rs_insufficient_stock\<rparr>, s)"
    by (simp add: reserveStock_insufficient)
next
  assume "existing_reservation s k = None \<and> products s productId = Some product
        \<and> quantity \<le> stock product
        \<and> uuid \<notin> set (map r_id (reservations s))
        \<and> k = Some [] \<and> Some [] \<in> set (map r_idempotencyKey (reservations s))"
  then show "reserveStock uuid s orderId productId quantity k =
        (Inl (JsError
           ''duplicate key value violates unique constraint reservations_idempotency_key_key''),
         s)"
    by (simp add: reserveStock_def existing_reservation_def insert_reservation_def Let_def)
next
  assume a: "existing_reservation s k = None \<and> products s productId = Some product
        \<and> quantity \<le> stock product
        \<and> uuid \<notin> set (map r_id (reservations s))
        \<and> \<not> (k = Some [] \<and> Some [] \<in> set (map r_idempotencyKey (reservations s)))"
  have "k = None \<or> k \<notin> set (map r_idempotencyKey (reservations s))"
  proof (cases k)
    case None
    then show ?thesis by simp
  next
    case (Some key)
    show ?thesis
    proof (cases "key = []")
      case True
      with a Some show ?thesis by simp
    next
      case False
      with a Some existing_None_truthy[of key s] show ?thesis by simp
    qed
  qed
  with a show "reserveStock uuid s orderId productId quantity k =
        (Inr \<lparr>success = True, message = ''Stock reserved successfully'',
              reservationId = Some uuid,
              remainingStock = Some (stock product - quantity),
              status = rs_confirmed\<rparr>,
         s\<lparr>products := (products s)
                (productId \<mapsto> product\<lparr>stock := stock product - quantity\<rparr>),
           reservations := reservations s @
             [\<lparr>r_id = uuid, r_orderId = orderId, r_productId = productId,
               r_quantity = quantity, r_status = active, r_idempotencyKey = k\<rparr>],
           stock_audit_log := stock_audit_log s @
             [\<lparr>a_productId = productId, a_operation = op_reserve,
               a_quantityChange = - quantity,
               a_previousStock = stock product,
               a_newStock = stock product - quantity,
               a_orderId = orderId, a_reservationId = uuid,
               a_reason = ''order_reservation''\<rparr>]\<rparr>)"
    by (simp add: reserveStock_ok)
qed

theorem reserveStock_reference_witness:
  "fst (reserveStock ''res-1'' shop ''order-1'' ''SKU-002'' 3 (Some ''k-42'')) =
     Inr \<lparr>success = True, message = ''Stock reserved successfully'',
          reservationId = Some ''res-1'', remainingStock = Some 197,
          status = rs_confirmed\<rparr>
   \<and> map_option stock (products shop_reserved ''SKU-002'') = Some 197
   \<and> fst (reserveStock ''res-2'' shop ''order-2'' ''SKU-001'' 100 None) =
     Inr \<lparr>success = False,
          message = ''Insufficient stock. Available: 50, Requested: 100'',
          reservationId = None, remainingStock = Some 50,
          status = rs_insufficient_stock\<rparr>
   \<and> reserveStock ''res-2'' shop ''order-2'' ''SKU-999'' 1 None =
     (Inr \<lparr>success = False, message = ''Product SKU-999 not found'',
          reservationId = None, remainingStock = None,
          status = rs_product_not_found\<rparr>, shop)
   \<and> reserveStock ''res-2'' shop_reserved ''order-1'' ''SKU-002'' 3 (Some ''k-42'') =
     (Inr \<lparr>success = True, message = ''Reservation already exists (idempotent)'',
          reservationId = Some ''res-1'', remainingStock = None,
          status = rs_already_exists\<rparr>, shop_reserved)
   \<and> reserveStock ''res-2'' shop_empty_key ''order-2'' ''SKU-002'' 1 (Some []) =
     (Inl (JsError
        ''duplicate key value violates unique constraint reservations_idempotency_key_key''),
      shop_empty_key)"
proof -
  have q: "(0::int) < 3" "(0::int) < 100" "(0::int) < 1" by simp_all
  have a: "reserveStock ''res-1'' shop ''order-1'' ''SKU-002'' 3 (Some ''k-42'') =
     (Inr \<lparr>success = True, message = ''Stock reserved successfully'',
          reservationId = Some ''res-1'', remainingStock = Some 197,
          status = rs_confirmed\<rparr>, shop_reserved)"
    using reserveStock_reference[OF q(1), of shop "Some ''k-42''" undefined "''res-1''"
            "''order-1''" "''SKU-002''"
            "\<lparr>p_name = ''Wireless Controller'', stock = 200, lowStockThreshold = 20\<rparr>"]
    by (simp add: shop_existing shop_products shop_reserved_eq)
  have b: "map_option stock (products shop_reserved ''SKU-002'') = Some 197"
    by (simp add: shop_reserved_eq)
  have c: "reserveStock ''res-2'' shop ''order-2'' ''SKU-001'' 100 None =
     (Inr \<lparr>success = False,
          message = ''Insufficient stock. Available: 50, Requested: 100'',
          reservationId = None, remainingStock = Some 50,
          status = rs_insufficient_stock\<rparr>, shop)"
    using reserveStock_reference[OF q(2), of shop None undefined "''res-2''" "''order-2''"
            "''SKU-001''"
            "\<lparr>p_name = ''Gaming Console X'', stock = 50, lowStockThreshold = 10\<rparr>"]
    by (simp add: shop_existing shop_products show_int_50 show_int_100)
  have d: "reserveStock ''res-2'' shop ''order-2'' ''SKU-999'' 1 None =
     (Inr \<lparr>success = False, message = ''Product SKU-999 not found'',
          reservationId = None, remainingStock = None,
          status = rs_product_not_found\<rparr>, shop)"
    using reserveStock_reference[OF q(3), of shop None undefined "''res-2''" "''order-2''"
            "''SKU-999''" undefined]
    by (simp add: shop_existing shop_products)
  have e: "reserveStock ''res-2'' shop_reserved ''order-1'' ''SKU-002'' 3 (Some ''k-42'') =
     (Inr \<lparr>success = True, message = ''Reservation already exists (idempotent)'',
          reservationId = Some ''res-1'', remainingStock = None,
          status = rs_already_exists\<rparr>, shop_reserved)"
    using reserveStock_reference[OF q(1), of shop_reserved "Some ''k-42''"
            "\<lparr>r_id = ''res-1'', r_orderId = ''order-1'', r_productId = ''SKU-002'',
              r_quantity = 3, r_status = active, r_idempotencyKey = Some ''k-42''\<rparr>"
            "''res-2''" "''order-1''" "''SKU-002''" undefined]
    by (simp add: shop_reserved_existing)
  have f: "reserveStock ''res-2'' shop_empty_key ''order-2'' ''SKU-002'' 1 (Some []) =
     (Inl (JsError
        ''duplicate key value violates unique constraint reservations_idempotency_key_key''),
      shop_empty_key)"
    using reserveStock_reference[OF q(3), of shop_empty_key "Some []" undefined "''res-2''"
            "''order-2''" "''SKU-002''"
            "\<lparr>p_name = ''Wireless Controller'', stock = 197, lowStockThreshold = 20\<rparr>"]
    by (simp add: existing_reservation_def shop_empty_key_eq shop_products)
  show ?thesis using a b c d e f by simp
qed

section \<open>Claim C5: a reservation call that runs into the deadline\<close>

text \<open>
  Claim C5 fails as stated where the Service Bus is not at hand. In offline mode
  (both senders \<^verbatim>\<open>null\<close>) \<^verbatim>\<open>sendVerifyOrderMessage\<close> and \<^verbatim>\<open>publishOrderEvent\<close>
  return without sending: the request that runs into the deadline is answered with
  202 and the order is in \<^verbatim>\<open>pending_verification\<close>, but no \<^verbatim>\<open>VerifyOrder\<close> message
  is enqueued and nothing is published. And a send that the bus refuses is rethrown
  by the publisher and reaches the outer \<^verbatim>\<open>catch\<close> of the route: with the queue
  \<^verbatim>\<open>verify-orders\<close> refusing the message the reply is 500.
\<close>

theorem timeout_enters_verification_counterexample:
  "http_status (fst (post_orders env_timeout office_offline request_k42)) = 202
   \<and> order_status_of (snd (post_orders env_timeout office_offline request_k42)) ''order-1''
       = Some pending_verification
   \<and> verify_orders_queue (snd (post_orders env_timeout office_offline request_k42)) = []
   \<and> order_events_topic (snd (post_orders env_timeout office_offline request_k42)) = []
   \<and> http_status (fst (post_orders env_timeout office_queue_down request_k42)) = 500
   \<and> \<not> body_success (fst (post_orders env_timeout office_queue_down request_k42))
   \<and> order_status_of (snd (post_orders env_timeout office_queue_down request_k42))
         ''order-1'' = Some pending_verification
   \<and> verify_orders_queue (snd (post_orders env_timeout office_queue_down request_k42)) = []
   \<and> map ev_eventType
         (order_events_topic (snd (post_orders env_timeout office_queue_down request_k42)))
       = [OrderCreated]"
  by (simp add: office_offline_def office_queue_down_def office_def env_timeout_def
        request_k42_def order_status_of_def order_defs)

text \<open>
  Claim C5, as amended. Let a create-order request reach the reservation call (it
  passes validation, matches no existing order, its order row is inserted, the uuids
  drawn being new, and the publication of \<^verbatim>\<open>OrderCreated\<close> does not throw), and let
  the call fail with gRPC code \<^verbatim>\<open>DEADLINE_EXCEEDED\<close> (the client's deadline of two
  seconds, classified \<^verbatim>\<open>TIMEOUT\<close>) or \<^verbatim>\<open>UNAVAILABLE\<close>. Then the handler sets
  the order to \<^verbatim>\<open>pending_verification\<close>. It puts one \<^verbatim>\<open>VerifyOrder\<close> message with
  the order id, product id, quantity, idempotency key and request time on the queue
  if the sender of the queue is connected and the bus accepts the message, and
  publishes \<^verbatim>\<open>OrderPendingVerification\<close> if the sender of the topic is connected and
  the bus accepts it (and the \<^verbatim>\<open>VerifyOrder\<close> send has not failed); a sender that is
  not connected sends nothing and is no error. If no send fails, the reply is 202 with
  \<^verbatim>\<open>success: true\<close> and the order: the failure of the call is not surfaced as an
  error. If a send fails, the reply is 500, the order staying in
  \<^verbatim>\<open>pending_verification\<close>.
\<close>

theorem timeout_enters_verification:
  assumes "body_customerId req = Some customerId" and "customerId \<noteq> []"
    and "body_productId req = Some productId" and "productId \<noteq> []"
    and "body_quantity req = Some quantity" and "0 < quantity"
    and "existing_order s (request_key req) = None"
    and "env_order_uuid env \<notin> set (map o_id (orders s))"
    and "\<not> truthy (request_key req) \<longrightarrow>
           Some (env_key_uuid env) \<notin> set (map o_idempotencyKey (orders s))"
    and "env_rpc env = Inl e"
    and "code e = DEADLINE_EXCEEDED \<or> code e = UNAVAILABLE"
    and "k = requestIdempotencyKey env (request_key req)"
    and "row = new_order_row (env_order_uuid env)
                 \<lparr>ci_customerId = customerId, ci_productId = productId,
                  ci_quantity = quantity, ci_idempotencyKey = Some k\<rparr>"
    and "created =
           \<lparr>ev_eventType = OrderCreated, ev_orderId = env_order_uuid env,
            ev_customerId = Some customerId, ev_productId = Some productId,
            ev_quantity = Some quantity, ev_status = Some pending,
            ev_reason = None, ev_reservationId = None\<rparr>"
    and "verifyOrder =
           \<lparr>vo_orderId = env_order_uuid env, vo_productId = productId,
            vo_quantity = quantity, vo_idempotencyKey = k,
            vo_originalRequestTime = env_now env\<rparr>"
    and "pendingVerification =
           \<lparr>ev_eventType = OrderPendingVerification, ev_orderId = env_order_uuid env,
            ev_customerId = None, ev_productId = Some productId,
            ev_quantity = Some quantity, ev_status = Some pending_verification,
            ev_reason = Some ''gRPC timeout - verification required'',
            ev_reservationId = None\<rparr>"
    and "orderEventsSender s \<longrightarrow> order_send_ok s created"
  shows "orders (snd (post_orders env s req)) =
           orders s @ [row\<lparr>o_status := pending_verification\<rparr>]
       \<and> order_status_of (snd (post_orders env s req)) (env_order_uuid env) =
           Some pending_verification
       \<and> grpc_requests (snd (post_orders env s req)) = grpc_requests s @
           [ReserveStockCall
              \<lparr>rs_orderId = env_order_uuid env, rs_productId = productId,
               rs_quantity = quantity, rs_idempotencyKey = Some k\<rparr>]
       \<and> verify_orders_queue (snd (post_orders env s req)) = verify_orders_queue s @
           (if verifyOrdersSender s \<and> verify_send_ok s verifyOrder
            then [verifyOrder] else [])
       \<and> order_events_topic (snd (post_orders env s req)) = order_events_topic s @
           (if orderEventsSender s then [created] else []) @
           (if orderEventsSender s \<and> order_send_ok s pendingVerification
               \<and> (verifyOrdersSender s \<longrightarrow> verify_send_ok s verifyOrder)
            then [pendingVerification] else [])
       \<and> ((verifyOrdersSender s \<longrightarrow> verify_send_ok s verifyOrder)
            \<and> (orderEventsSender s \<longrightarrow> order_send_ok s pendingVerification) \<longrightarrow>
            fst (post_orders env s req) =
              \<lparr>http_status = 202, body_success = True,
               body_data = Some (row\<lparr>o_status := pending_verification\<rparr>),
               body_error = None,
               body_message = Some ''Order is being verified. Please check status later.'',
               body_cached = False, body_verificationRequired = True\<rparr>)
       \<and> (verifyOrdersSender s \<and> \<not> verify_send_ok s verifyOrder
            \<or> orderEventsSender s \<and> \<not> order_send_ok s pendingVerification \<longrightarrow>
            http_status (fst (post_orders env s req)) = 500
            \<and> \<not> body_success (fst (post_orders env s req))
            \<and> body_data (fst (post_orders env s req)) = None)"
proof -
  let ?input = "\<lparr>ci_customerId = customerId, ci_productId = productId,
                  ci_quantity = quantity, ci_idempotencyKey = Some k\<rparr>"
  have ex: "existing_order s (ci_idempotencyKey ?input) = None"
    using existing_order_request_key[OF assms(7), of env] assms(9,12) by auto
  have fr: "ci_idempotencyKey ?input \<notin> set (map o_idempotencyKey (orders s))"
    using request_key_fresh[OF assms(7,9)] assms(12) by simp
  define s1 where "s1 = s\<lparr>orders := orders s @ [row],
              order_events := order_events s @
                 [\<lparr>oe_orderId = env_order_uuid env, oe_eventType = ''OrderCreated'',
                   oe_eventData = CreatedData ?input\<rparr>]\<rparr>"
  have c: "createOrder (env_order_uuid env) s ?input = (Inr row, s1)"
    using createOrder_new[OF ex assms(8) _ fr] assms(6,13) by (simp add: s1_def)
  define s2 where "s2 = s1\<lparr>order_events_topic := order_events_topic s @
                              (if orderEventsSender s then [created] else [])\<rparr>"
  have id: "o_id row = env_order_uuid env" by (simp add: assms(13))
  have p: "publishOrderEvent s1 created = Inr s2"
    using assms(17) by (simp add: publishOrderEvent_def s1_def s2_def)
  define s3 where "s3 = s2\<lparr>grpc_requests := grpc_requests s @
           [ReserveStockCall
              \<lparr>rs_orderId = env_order_uuid env, rs_productId = productId,
               rs_quantity = quantity, rs_idempotencyKey = Some k\<rparr>]\<rparr>"
  have cl: "client_reserveStock (env_rpc env) = Inl (JsError ''TIMEOUT'')
            \<or> client_reserveStock (env_rpc env) = Inl (JsError ''UNAVAILABLE'')"
    using assms(10,11) by (auto simp: client_reserveStock_def)
  have rr: "reserve_and_reply env s2 row productId quantity k =
              reply_pending_verification env s3 row productId quantity k"
    using cl by (auto simp: reserve_and_reply_def Let_def s3_def s2_def s1_def id)
  have fresh: "o_id row \<notin> set (map o_id (orders s))" using assms(8) id by simp
  have o3: "orders s3 = orders s @ [row]" by (simp add: s3_def s2_def s1_def)
  note r = reply_pending_verification_row[OF fresh o3, of env productId quantity k]
  have st: "set_status (env_now env) pending_verification None None row
            = row\<lparr>o_status := pending_verification\<rparr>"
    by (simp add: set_status_def assms(13) new_order_row_def)
  have f3: "verifyOrdersSender s3 = verifyOrdersSender s"
    "orderEventsSender s3 = orderEventsSender s"
    "verify_send_ok s3 = verify_send_ok s" "order_send_ok s3 = order_send_ok s"
    "verify_orders_queue s3 = verify_orders_queue s"
    "order_events_topic s3 = order_events_topic s @
                              (if orderEventsSender s then [created] else [])"
    "grpc_requests s3 = grpc_requests s @
           [ReserveStockCall
              \<lparr>rs_orderId = env_order_uuid env, rs_productId = productId,
               rs_quantity = quantity, rs_idempotencyKey = Some k\<rparr>]"
    by (simp_all add: s3_def s2_def s1_def)
  have po: "post_orders env s req =
              (case reply_pending_verification env s3 row productId quantity k of
                 (Inl (JsError m), s') \<Rightarrow> (internal_error m, s')
               | (Inr response, s') \<Rightarrow> (response, s'))"
    using assms(7)
    by (simp add: post_orders_valid[OF assms(1-6)] create_order_try_def
          assms(12)[symmetric] c assms(14)[symmetric] id p rr)
  have os: "find (\<lambda>ord. o_id ord = env_order_uuid env)
              (orders s @ [row\<lparr>o_status := pending_verification\<rparr>]) =
            Some (row\<lparr>o_status := pending_verification\<rparr>)"
    using assms(8) id by (simp add: find_append_fresh_img)
  consider (a) "verifyOrdersSender s \<and> \<not> verify_send_ok s verifyOrder"
    | (b) "\<not> (verifyOrdersSender s \<and> \<not> verify_send_ok s verifyOrder)"
          "orderEventsSender s \<and> \<not> order_send_ok s pendingVerification"
    | (c) "\<not> (verifyOrdersSender s \<and> \<not> verify_send_ok s verifyOrder)"
          "\<not> (orderEventsSender s \<and> \<not> order_send_ok s pendingVerification)"
    by blast
  then show ?thesis
  proof cases
    case a
    have "reply_pending_verification env s3 row productId quantity k =
        (Inl (JsError ''sendMessages failed''),
            s3\<lparr>orders := orders s @ [row\<lparr>o_status := pending_verification\<rparr>],
              order_events := order_events s3 @
                [\<lparr>oe_orderId = o_id row, oe_eventType = ''Status_pending_verification'',
                  oe_eventData = StatusData None None\<rparr>]\<rparr>)"
      unfolding r using a by (simp add: f3 id st assms(15))
    with a show ?thesis
      by (simp add: po internal_error_def f3 order_status_of_def getOrder_def
            os)
  next
    case b
    have "reply_pending_verification env s3 row productId quantity k =
        (Inl (JsError ''sendMessages failed''),
            s3\<lparr>orders := orders s @ [row\<lparr>o_status := pending_verification\<rparr>],
              order_events := order_events s3 @
                [\<lparr>oe_orderId = o_id row, oe_eventType = ''Status_pending_verification'',
                  oe_eventData = StatusData None None\<rparr>],
              verify_orders_queue := verify_orders_queue s @
                (if verifyOrdersSender s then [verifyOrder] else [])\<rparr>)"
      unfolding r using b by (auto simp add: f3 id st assms(15,16))
    with b show ?thesis
      by (auto simp add: po internal_error_def f3 order_status_of_def getOrder_def
            os)
  next
    case c
    have "reply_pending_verification env s3 row productId quantity k =
        (Inr \<lparr>http_status = 202, body_success = True,
                 body_data = Some (row\<lparr>o_status := pending_verification\<rparr>),
                 body_error = None,
                 body_message = Some ''Order is being verified. Please check status later.'',
                 body_cached = False, body_verificationRequired = True\<rparr>,
            s3\<lparr>orders := orders s @ [row\<lparr>o_status := pending_verification\<rparr>],
              order_events := order_events s3 @
                [\<lparr>oe_orderId = o_id row, oe_eventType = ''Status_pending_verification'',
                  oe_eventData = StatusData None None\<rparr>],
              verify_orders_queue := verify_orders_queue s @
                (if verifyOrdersSender s then [verifyOrder] else []),
              order_events_topic := order_events_topic s3 @
                (if orderEventsSender s then [pendingVerification] else [])\<rparr>)"
      unfolding r using c by (auto simp add: f3 id st assms(15,16))
    with c show ?thesis
      by (auto simp add: po f3 order_status_of_def getOrder_def
            os)
  qed
qed

theorem timeout_enters_verification_witness:
  "fst (post_orders env_timeout office request_k42) =
     \<lparr>http_status = 202, body_success = True,
       body_data = Some
         \<lparr>o_id = ''order-1'', o_customerId = ''C1'', o_productId = ''SKU-002'',
          o_quantity = 3, o_status = pending_verification,
          o_idempotencyKey = Some ''k-42'', o_reservationId = None,
          o_completedAt = None, o_errorMessage = None\<rparr>,
       body_error = None,
       body_message = Some ''Order is being verified. Please check status later.'',
       body_cached = False, body_verificationRequired = True\<rparr>
   \<and> order_status_of (snd (post_orders env_timeout office request_k42)) ''order-1'' =
       Some pending_verification
   \<and> verify_orders_queue (snd (post_orders env_timeout office request_k42)) =
       [\<lparr>vo_orderId = ''order-1'', vo_productId = ''SKU-002'', vo_quantity = 3,
         vo_idempotencyKey = ''k-42'',
         vo_originalRequestTime = ''2024-01-01T10:00:00Z''\<rparr>]
   \<and> map ev_eventType (order_events_topic (snd (post_orders env_timeout office request_k42)))
       = [OrderCreated, OrderPendingVerification]
   \<and> verify_orders_queue (snd (post_orders env_timeout office_offline request_k42)) = []
   \<and> http_status (fst (post_orders env_timeout office_offline request_k42)) = 202"
proof -
  have h: "body_customerId request_k42 = Some ''C1''" "''C1'' \<noteq> []"
    "body_productId request_k42 = Some ''SKU-002''" "''SKU-002'' \<noteq> []"
    "body_quantity request_k42 = Some 3" "(0::int) < 3"
    by (simp_all add: request_k42_def)
  have e: "existing_order office (request_key request_k42) = None"
    "env_order_uuid env_timeout \<notin> set (map o_id (orders office))"
    "\<not> truthy (request_key request_k42) \<longrightarrow>
       Some (env_key_uuid env_timeout) \<notin> set (map o_idempotencyKey (orders office))"
    "env_rpc env_timeout = Inl \<lparr>code = DEADLINE_EXCEEDED, g_message = ''Deadline exceeded''\<rparr>"
    "code \<lparr>code = DEADLINE_EXCEEDED, g_message = ''Deadline exceeded''\<rparr> = DEADLINE_EXCEEDED
     \<or> code \<lparr>code = DEADLINE_EXCEEDED, g_message = ''Deadline exceeded''\<rparr> = UNAVAILABLE"
    "''k-42'' = requestIdempotencyKey env_timeout (request_key request_k42)"
    by (simp_all add: request_k42_def office_def env_timeout_def request_key_def
          existing_order_def getOrderByIdempotencyKey_def requestIdempotencyKey_def)
  have e': "existing_order office_offline (request_key request_k42) = None"
    "env_order_uuid env_timeout \<notin> set (map o_id (orders office_offline))"
    "\<not> truthy (request_key request_k42) \<longrightarrow>
       Some (env_key_uuid env_timeout) \<notin> set (map o_idempotencyKey (orders office_offline))"
    by (simp_all add: request_k42_def office_offline_def office_def env_timeout_def
          request_key_def existing_order_def getOrderByIdempotencyKey_def)
  have b: "orderEventsSender office \<longrightarrow> order_send_ok office ev"
    "orderEventsSender office_offline \<longrightarrow> order_send_ok office_offline ev" for ev
    by (simp_all add: office_offline_def office_def)
  note th = timeout_enters_verification[OF h e(1-6) refl refl refl refl b(1)]
  note th' = timeout_enters_verification[OF h e' e(4-6) refl refl refl refl b(2)]
  from th have a: "fst (post_orders env_timeout office request_k42) =
     \<lparr>http_status = 202, body_success = True,
       body_data = Some
         \<lparr>o_id = ''order-1'', o_customerId = ''C1'', o_productId = ''SKU-002'',
          o_quantity = 3, o_status = pending_verification,
          o_idempotencyKey = Some ''k-42'', o_reservationId = None,
          o_completedAt = None, o_errorMessage = None\<rparr>,
       body_error = None,
       body_message = Some ''Order is being verified. Please check status later.'',
       body_cached = False, body_verificationRequired = True\<rparr>"
    by (simp add: office_def env_timeout_def new_order_row_def)
  from th have c: "order_status_of (snd (post_orders env_timeout office request_k42))
        ''order-1'' = Some pending_verification"
    "verify_orders_queue (snd (post_orders env_timeout office request_k42)) =
       [\<lparr>vo_orderId = ''order-1'', vo_productId = ''SKU-002'', vo_quantity = 3,
         vo_idempotencyKey = ''k-42'',
         vo_originalRequestTime = ''2024-01-01T10:00:00Z''\<rparr>]"
    "map ev_eventType (order_events_topic (snd (post_orders env_timeout office request_k42)))
       = [OrderCreated, OrderPendingVerification]"
    by (simp_all add: office_def env_timeout_def)
  from th' have d:
    "verify_orders_queue (snd (post_orders env_timeout office_offline request_k42)) = []"
    "http_status (fst (post_orders env_timeout office_offline request_k42)) = 202"
    by (simp_all add: office_offline_def office_def)
  show ?thesis using a c d by simp
qed

section \<open>Claim C6: the \<^verbatim>\<open>VerifyOrder\<close> handler\<close>

text \<open>
  Claim C6. For a \<^verbatim>\<open>VerifyOrder\<close> message: if the finder returns an \<^verbatim>\<open>active\<close>
  reservation of the order, the handler does nothing but publish
  \<^verbatim>\<open>OrderVerified\<close> with status \<^verbatim>\<open>confirmed\<close>, \<^verbatim>\<open>recoveredFromCrash: true\<close>
  and that reservation's id; the tables are unchanged, so \<^verbatim>\<open>reserveStock\<close> has not
  run. Otherwise it calls \<^verbatim>\<open>reserveStock\<close> with the key \<^verbatim>\<open>verify-<original>\<close>;
  on success it publishes \<^verbatim>\<open>OrderVerified\<close> (\<^verbatim>\<open>confirmed\<close>,
  \<^verbatim>\<open>recoveredFromCrash: false\<close>) and \<^verbatim>\<open>StockReserved\<close>, and on a domain failure
  \<^verbatim>\<open>OrderVerified\<close> (\<^verbatim>\<open>not_found\<close>, \<^verbatim>\<open>recoveredFromCrash: false\<close>). Publishing
  is \<^verbatim>\<open>publishInventoryEvent\<close>; with a connected sender and a bus that accepts the
  messages, the events are what the topic receives.
\<close>

theorem verify_order_handler:
  "(findReservationByOrderId s (vo_orderId d) = Some existing \<longrightarrow>
      handleVerifyOrderMessage uuid s d =
        (None, publishInventoryEvent s
                 (OrderVerified (vo_orderId d) (vo_productId d) (vo_quantity d)
                    vs_confirmed True (Some (r_id existing))))
      \<and> existing \<in> set (reservations s)
      \<and> r_orderId existing = vo_orderId d \<and> r_status existing = active
      \<and> products (snd (handleVerifyOrderMessage uuid s d)) = products s
      \<and> reservations (snd (handleVerifyOrderMessage uuid s d)) = reservations s
      \<and> stock_audit_log (snd (handleVerifyOrderMessage uuid s d)) = stock_audit_log s
      \<and> (inventoryEventsSender s \<and> (\<forall>ev. inventory_send_ok s ev) \<longrightarrow>
           inventory_events (snd (handleVerifyOrderMessage uuid s d)) =
             inventory_events s @
               [OrderVerified (vo_orderId d) (vo_productId d) (vo_quantity d)
                  vs_confirmed True (Some (r_id existing))]))
   \<and> (findReservationByOrderId s (vo_orderId d) = None
        \<and> reserveStock uuid s (vo_orderId d) (vo_productId d) (vo_quantity d)
              (Some (''verify-'' @ vo_idempotencyKey d)) = (Inr result, s') \<longrightarrow>
        (success result \<longrightarrow>
           handleVerifyOrderMessage uuid s d =
             (None,
              publishInventoryEvent
                (publishInventoryEvent s'
                   (OrderVerified (vo_orderId d) (vo_productId d) (vo_quantity d)
                      vs_confirmed False (reservationId result)))
                (StockReserved (vo_orderId d) (vo_productId d) (vo_quantity d)
                   (remainingStock result) (reservationId result)))
           \<and> (inventoryEventsSender s \<and> (\<forall>ev. inventory_send_ok s ev) \<longrightarrow>
                inventory_events (snd (handleVerifyOrderMessage uuid s d)) =
                  inventory_events s @
                    [OrderVerified (vo_orderId d) (vo_productId d) (vo_quantity d)
                       vs_confirmed False (reservationId result),
                     StockReserved (vo_orderId d) (vo_productId d) (vo_quantity d)
                       (remainingStock result) (reservationId result)]))
        \<and> (\<not> success result \<longrightarrow>
           handleVerifyOrderMessage uuid s d =
             (None, publishInventoryEvent s
                      (OrderVerified (vo_orderId d) (vo_productId d) (vo_quantity d)
                         vs_not_found False None))
           \<and> (inventoryEventsSender s \<and> (\<forall>ev. inventory_send_ok s ev) \<longrightarrow>
                inventory_events (snd (handleVerifyOrderMessage uuid s d)) =
                  inventory_events s @
                    [OrderVerified (vo_orderId d) (vo_productId d) (vo_quantity d)
                       vs_not_found False None])))"
proof (intro conjI impI)
  assume f: "findReservationByOrderId s (vo_orderId d) = Some existing"
  from f show "handleVerifyOrderMessage uuid s d =
        (None, publishInventoryEvent s
                 (OrderVerified (vo_orderId d) (vo_productId d) (vo_quantity d)
                    vs_confirmed True (Some (r_id existing))))"
    by (simp add: handleVerifyOrderMessage_def)
  from f show "existing \<in> set (reservations s)"
    "r_orderId existing = vo_orderId d" "r_status existing = active"
    by (auto simp: findReservationByOrderId_def dest: find_Some_props)
  from f show "products (snd (handleVerifyOrderMessage uuid s d)) = products s"
    "reservations (snd (handleVerifyOrderMessage uuid s d)) = reservations s"
    "stock_audit_log (snd (handleVerifyOrderMessage uuid s d)) = stock_audit_log s"
    by (simp_all add: handleVerifyOrderMessage_def publishInventoryEvent_def)
  assume "inventoryEventsSender s \<and> (\<forall>ev. inventory_send_ok s ev)"
  with f show "inventory_events (snd (handleVerifyOrderMessage uuid s d)) =
             inventory_events s @
               [OrderVerified (vo_orderId d) (vo_productId d) (vo_quantity d)
                  vs_confirmed True (Some (r_id existing))]"
    by (simp add: handleVerifyOrderMessage_def publishInventoryEvent_def)
next
  assume a: "findReservationByOrderId s (vo_orderId d) = None
        \<and> reserveStock uuid s (vo_orderId d) (vo_productId d) (vo_quantity d)
              (Some (''verify-'' @ vo_idempotencyKey d)) = (Inr result, s')"
    and ok: "success result"
  from a ok show "handleVerifyOrderMessage uuid s d =
             (None,
              publishInventoryEvent
                (publishInventoryEvent s'
                   (OrderVerified (vo_orderId d) (vo_productId d) (vo_quantity d)
                      vs_confirmed False (reservationId result)))
                (StockReserved (vo_orderId d) (vo_productId d) (vo_quantity d)
                   (remainingStock result) (reservationId result)))"
    by (simp add: handleVerifyOrderMessage_def)
  assume bus: "inventoryEventsSender s \<and> (\<forall>ev. inventory_send_ok s ev)"
  from a have s': "s' = snd (reserveStock uuid s (vo_orderId d) (vo_productId d) (vo_quantity d)
              (Some (''verify-'' @ vo_idempotencyKey d)))" by simp
  have "inventoryEventsSender s' = inventoryEventsSender s"
    "inventory_send_ok s' = inventory_send_ok s" "inventory_events s' = inventory_events s"
    unfolding s' by simp_all
  with a ok bus show "inventory_events (snd (handleVerifyOrderMessage uuid s d)) =
                  inventory_events s @
                    [OrderVerified (vo_orderId d) (vo_productId d) (vo_quantity d)
                       vs_confirmed False (reservationId result),
                     StockReserved (vo_orderId d) (vo_productId d) (vo_quantity d)
                       (remainingStock result) (reservationId result)]"
    by (simp add: handleVerifyOrderMessage_def publishInventoryEvent_def)
next
  assume a: "findReservationByOrderId s (vo_orderId d) = None
        \<and> reserveStock uuid s (vo_orderId d) (vo_productId d) (vo_quantity d)
              (Some (''verify-'' @ vo_idempotencyKey d)) = (Inr result, s')"
    and ko: "\<not> success result"
  from a ko have s': "s' = s" using reserveStock_failure_state by blast
  from a ko s' show "handleVerifyOrderMessage uuid s d =
             (None, publishInventoryEvent s
                      (OrderVerified (vo_orderId d) (vo_productId d) (vo_quantity d)
                         vs_not_found False None))"
    by (simp add: handleVerifyOrderMessage_def)
  assume bus: "inventoryEventsSender s \<and> (\<forall>ev. inventory_send_ok s ev)"
  with a ko s' show "inventory_events (snd (handleVerifyOrderMessage uuid s d)) =
                  inventory_events s @
                    [OrderVerified (vo_orderId d) (vo_productId d) (vo_quantity d)
                       vs_not_found False None]"
    by (simp add: handleVerifyOrderMessage_def publishInventoryEvent_def)
qed

theorem verify_order_handler_witness:
  "inventory_events (snd (handleVerifyOrderMessage ''res-2'' shop_reserved verify_order_1)) =
     [OrderVerified ''order-1'' ''SKU-002'' 3 vs_confirmed True (Some ''res-1'')]
   \<and> reservations (snd (handleVerifyOrderMessage ''res-2'' shop_reserved verify_order_1)) =
       reservations shop_reserved
   \<and> inventory_events (snd (handleVerifyOrderMessage ''res-1'' shop verify_order_1)) =
     [OrderVerified ''order-1'' ''SKU-002'' 3 vs_confirmed False (Some ''res-1''),
      StockReserved ''order-1'' ''SKU-002'' 3 (Some 197) (Some ''res-1'')]
   \<and> inventory_events (snd (handleVerifyOrderMessage ''res-1'' shop verify_order_big)) =
     [OrderVerified ''order-7'' ''SKU-002'' 500 vs_not_found False None]"
proof -
  have found: "findReservationByOrderId shop_reserved (vo_orderId verify_order_1) =
     Some \<lparr>r_id = ''res-1'', r_orderId = ''order-1'', r_productId = ''SKU-002'',
           r_quantity = 3, r_status = active, r_idempotencyKey = Some ''k-42''\<rparr>"
    by (simp add: verify_order_1_def shop_reserved_find)
  have a: "inventory_events (snd (handleVerifyOrderMessage ''res-2'' shop_reserved verify_order_1)) =
     [OrderVerified ''order-1'' ''SKU-002'' 3 vs_confirmed True (Some ''res-1'')]
   \<and> reservations (snd (handleVerifyOrderMessage ''res-2'' shop_reserved verify_order_1)) =
       reservations shop_reserved"
    using verify_order_handler[of shop_reserved verify_order_1 _ "''res-2''" undefined undefined,
            THEN conjunct1, rule_format, OF found]
    by (simp add: shop_reserved_bus verify_order_1_def publishInventoryEvent_def)
  have r1: "reserveStock ''res-1'' shop (vo_orderId verify_order_1) (vo_productId verify_order_1)
              (vo_quantity verify_order_1) (Some (''verify-'' @ vo_idempotencyKey verify_order_1)) =
            (Inr \<lparr>success = True, message = ''Stock reserved successfully'',
                  reservationId = Some ''res-1'', remainingStock = Some 197,
                  status = rs_confirmed\<rparr>,
             snd (reserveStock ''res-1'' shop ''order-1'' ''SKU-002'' 3 (Some ''verify-k-42'')))"
    by (simp add: verify_order_1_def reserveStock_ok[OF shop_existing shop_products(1)] shop_products)
  have b: "inventory_events (snd (handleVerifyOrderMessage ''res-1'' shop verify_order_1)) =
     [OrderVerified ''order-1'' ''SKU-002'' 3 vs_confirmed False (Some ''res-1''),
      StockReserved ''order-1'' ''SKU-002'' 3 (Some 197) (Some ''res-1'')]"
    using verify_order_handler[of shop verify_order_1 undefined "''res-1''" _ _,
            THEN conjunct2, rule_format, OF conjI[OF shop_find_none r1], THEN conjunct1]
    by (simp add: shop_bus verify_order_1_def publishInventoryEvent_def)
  have r2: "reserveStock ''res-1'' shop (vo_orderId verify_order_big) (vo_productId verify_order_big)
              (vo_quantity verify_order_big) (Some (''verify-'' @ vo_idempotencyKey verify_order_big)) =
            (Inr \<lparr>success = False,
                  message = ''Insufficient stock. Available: '' @ show_int 200
                     @ '', Requested: '' @ show_int 500,
                  reservationId = None, remainingStock = Some 200,
                  status = rs_insufficient_stock\<rparr>, shop)"
    by (simp add: verify_order_big_def reserveStock_insufficient[OF shop_existing shop_products(1)]
          shop_products(6))
  have c: "inventory_events (snd (handleVerifyOrderMessage ''res-1'' shop verify_order_big)) =
     [OrderVerified ''order-7'' ''SKU-002'' 500 vs_not_found False None]"
    using verify_order_handler[of shop verify_order_big undefined "''res-1''" _ _,
            THEN conjunct2, rule_format, OF conjI[OF shop_find_none r2], THEN conjunct2]
    by (simp add: shop_bus verify_order_big_def publishInventoryEvent_def)
  show ?thesis using a b c by simp
qed

section \<open>Claim C7: cancel-then-release conservation\<close>

text \<open>
  Claim C7. Let an order be \<^verbatim>\<open>confirmed\<close> and hold a reservation id, and let the
  inventory database hold the reservation of that id and order, \<^verbatim>\<open>active\<close>, of
  quantity \<open>q\<close> on a product of current stock \<open>s\<close>. Then the cancel handler sends
  exactly one \<^verbatim>\<open>ReleaseStock\<close> request, for the order and its reservation, and leaves
  the order \<^verbatim>\<open>cancelled\<close>; and the \<^verbatim>\<open>ReleaseStock\<close> handler, given that request,
  answers with success and the new stock \<open>s + q\<close>, sets the product's stock to
  \<open>s + q\<close> and changes no other product, and marks the reservation \<^verbatim>\<open>released\<close>.
  And \<^verbatim>\<open>releaseStock\<close>, for a reservation that is missing or not \<^verbatim>\<open>active\<close>,
  returns \<^verbatim>\<open>success: false\<close> without a new stock and leaves the database as it was.
\<close>

theorem cancel_release_conservation:
  "(getOrder os oid = Some ord \<and> o_status ord = confirmed
      \<and> o_reservationId ord = Some rid \<and> rid \<noteq> []
      \<and> find (\<lambda>r. r_id r = rid \<and> r_orderId r = oid) (reservations db) = Some r
      \<and> r_status r = active \<and> products db (r_productId r) = Some p \<longrightarrow>
      grpc_requests (snd (post_cancel now os oid)) = grpc_requests os @
           [ReleaseStockCall \<lparr>rq_orderId = oid, rq_reservationId = rid,
                              rq_reason = ''Order cancelled by user''\<rparr>]
      \<and> order_status_of (snd (post_cancel now os oid)) oid = Some cancelled
      \<and> fst (grpc_releaseStock db \<lparr>rq_orderId = oid, rq_reservationId = rid,
                                    rq_reason = ''Order cancelled by user''\<rparr>) =
          Inr \<lparr>rr_success = True, rr_message = ''Stock released successfully'',
               rr_newStock = stock p + r_quantity r\<rparr>
      \<and> products (snd (grpc_releaseStock db \<lparr>rq_orderId = oid, rq_reservationId = rid,
                                    rq_reason = ''Order cancelled by user''\<rparr>)) =
          (products db)(r_productId r \<mapsto> p\<lparr>stock := stock p + r_quantity r\<rparr>)
      \<and> reservations (snd (grpc_releaseStock db \<lparr>rq_orderId = oid, rq_reservationId = rid,
                                    rq_reason = ''Order cancelled by user''\<rparr>)) =
          map (\<lambda>x. if r_id x = rid then x\<lparr>r_status := released\<rparr> else x) (reservations db)
      \<and> find (\<lambda>x. r_id x = rid \<and> r_orderId x = oid)
           (reservations (snd (grpc_releaseStock db \<lparr>rq_orderId = oid, rq_reservationId = rid,
                                    rq_reason = ''Order cancelled by user''\<rparr>))) =
          Some (r\<lparr>r_status := released\<rparr>))
   \<and> (find (\<lambda>r. r_id r = resId \<and> r_orderId r = orderId) (reservations db) = None
        \<or> (\<exists>r. find (\<lambda>r. r_id r = resId \<and> r_orderId r = orderId) (reservations db)
                  = Some r \<and> r_status r \<noteq> active) \<longrightarrow>
      snd (releaseStock db orderId resId reason) = db
      \<and> (\<exists>res. fst (releaseStock db orderId resId reason) = Inr res
               \<and> \<not> rl_success res \<and> newStock res = None))"
proof (intro conjI impI)
  assume "find (\<lambda>r. r_id r = resId \<and> r_orderId r = orderId) (reservations db) = None
        \<or> (\<exists>r. find (\<lambda>r. r_id r = resId \<and> r_orderId r = orderId) (reservations db)
                  = Some r \<and> r_status r \<noteq> active)"
  from releaseStock_refused[OF this, of reason]
  show "snd (releaseStock db orderId resId reason) = db"
    "\<exists>res. fst (releaseStock db orderId resId reason) = Inr res
               \<and> \<not> rl_success res \<and> newStock res = None" by simp_all
next
  assume h: "getOrder os oid = Some ord \<and> o_status ord = confirmed
      \<and> o_reservationId ord = Some rid \<and> rid \<noteq> []
      \<and> find (\<lambda>r. r_id r = rid \<and> r_orderId r = oid) (reservations db) = Some r
      \<and> r_status r = active \<and> products db (r_productId r) = Some p"
  let ?rq = "\<lparr>rq_orderId = oid, rq_reservationId = rid,
              rq_reason = ''Order cancelled by user''\<rparr>"
  from h post_cancel_confirmed[of os oid ord rid now]
  show "grpc_requests (snd (post_cancel now os oid)) = grpc_requests os @
           [ReleaseStockCall ?rq]"
    "order_status_of (snd (post_cancel now os oid)) oid = Some cancelled" by simp_all
  from h have rel: "releaseStock db oid rid ''Order cancelled by user'' =
     (Inr \<lparr>rl_success = True, rl_message = ''Stock released successfully'',
           newStock = Some (stock p + r_quantity r)\<rparr>,
      db\<lparr>products := (products db)(r_productId r \<mapsto> p\<lparr>stock := stock p + r_quantity r\<rparr>),
          reservations :=
            map (\<lambda>x. if r_id x = rid then x\<lparr>r_status := released\<rparr> else x) (reservations db),
          stock_audit_log := stock_audit_log db @
            [\<lparr>a_productId = r_productId r, a_operation = op_release,
              a_quantityChange = r_quantity r, a_previousStock = stock p,
              a_newStock = stock p + r_quantity r, a_orderId = oid,
              a_reservationId = rid, a_reason = ''Order cancelled by user''\<rparr>]\<rparr>)"
    by (simp add: releaseStock_active)
  show "fst (grpc_releaseStock db ?rq) =
          Inr \<lparr>rr_success = True, rr_message = ''Stock released successfully'',
               rr_newStock = stock p + r_quantity r\<rparr>"
    by (simp add: grpc_releaseStock_def rel)
  show "products (snd (grpc_releaseStock db ?rq)) =
          (products db)(r_productId r \<mapsto> p\<lparr>stock := stock p + r_quantity r\<rparr>)"
    by (simp add: grpc_releaseStock_def rel publish_products)
  show rs: "reservations (snd (grpc_releaseStock db ?rq)) =
          map (\<lambda>x. if r_id x = rid then x\<lparr>r_status := released\<rparr> else x) (reservations db)"
    by (simp add: grpc_releaseStock_def rel)
  from h have rid: "r_id r = rid"
    by (auto dest: find_Some_props)
  have "find (\<lambda>x. r_id x = rid \<and> r_orderId x = oid)
          (map (\<lambda>x. if r_id x = rid then x\<lparr>r_status := released\<rparr> else x) (reservations db)) =
        map_option (\<lambda>x. if r_id x = rid then x\<lparr>r_status := released\<rparr> else x)
          (find (\<lambda>x. r_id x = rid \<and> r_orderId x = oid) (reservations db))"
    by (rule find_map_pred) simp
  with h rid show "find (\<lambda>x. r_id x = rid \<and> r_orderId x = oid)
           (reservations (snd (grpc_releaseStock db ?rq))) = Some (r\<lparr>r_status := released\<rparr>)"
    by (simp add: rs)
qed

text \<open>
  The scenario of the specification: the shop holds 200 controllers, the reservation
  of three for \<^verbatim>\<open>order-1\<close> leaves 197, and the release that the cancellation of
  the confirmed order asks for restores 200 and marks the reservation released.
\<close>

theorem cancel_release_conservation_witness:
  "grpc_requests (snd (post_cancel ''2024-01-01T10:01:00Z'' office_confirmed ''order-1'')) =
     grpc_requests office_confirmed @ [ReleaseStockCall release_order_1]
   \<and> order_status_of (snd (post_cancel ''2024-01-01T10:01:00Z'' office_confirmed ''order-1''))
        ''order-1'' = Some cancelled
   \<and> map_option stock (products shop ''SKU-002'') = Some 200
   \<and> map_option stock (products shop_reserved ''SKU-002'') = Some 197
   \<and> map_option stock
        (products (snd (grpc_releaseStock shop_reserved release_order_1)) ''SKU-002'') =
       Some 200
   \<and> map r_status (reservations (snd (grpc_releaseStock shop_reserved release_order_1))) =
       [released]
   \<and> snd (releaseStock shop ''order-1'' ''res-1'' ''Order cancelled by user'') = shop"
proof -
  let ?ord = "\<lparr>o_id = ''order-1'', o_customerId = ''C1'', o_productId = ''SKU-002'',
       o_quantity = 3, o_status = confirmed, o_idempotencyKey = Some ''k-42'',
       o_reservationId = Some ''res-1'', o_completedAt = Some ''2024-01-01T10:00:00Z'',
       o_errorMessage = None\<rparr>"
  let ?r = "\<lparr>r_id = ''res-1'', r_orderId = ''order-1'', r_productId = ''SKU-002'',
            r_quantity = 3, r_status = active, r_idempotencyKey = Some ''k-42''\<rparr>"
  let ?p = "\<lparr>p_name = ''Wireless Controller'', stock = 197, lowStockThreshold = 20\<rparr>"
  have g: "getOrder office_confirmed ''order-1'' = Some ?ord"
    by (simp add: getOrder_def office_confirmed_orders)
  have f: "find (\<lambda>r. r_id r = ''res-1'' \<and> r_orderId r = ''order-1'')
             (reservations shop_reserved) = Some ?r"
    by (simp add: shop_reserved_eq)
  have p: "products shop_reserved ''SKU-002'' = Some ?p"
    by (simp add: shop_reserved_eq)
  have rs: "reservations shop_reserved = [?r]"
    by (simp add: shop_reserved_eq)
  note th = cancel_release_conservation[of office_confirmed "''order-1''" ?ord "''res-1''"
      shop_reserved ?r ?p "''2024-01-01T10:01:00Z''"]
  from th g f p have a:
    "grpc_requests (snd (post_cancel ''2024-01-01T10:01:00Z'' office_confirmed ''order-1'')) =
       grpc_requests office_confirmed @ [ReleaseStockCall release_order_1]"
    "order_status_of (snd (post_cancel ''2024-01-01T10:01:00Z'' office_confirmed ''order-1''))
        ''order-1'' = Some cancelled"
    by (simp_all add: release_order_1_def)
  from th g f p have b:
    "products (snd (grpc_releaseStock shop_reserved release_order_1)) =
       (products shop_reserved)(''SKU-002'' \<mapsto> ?p\<lparr>stock := 200\<rparr>)"
    "reservations (snd (grpc_releaseStock shop_reserved release_order_1)) =
       map (\<lambda>x. if r_id x = ''res-1'' then x\<lparr>r_status := released\<rparr> else x)
         (reservations shop_reserved)"
    by (simp_all add: release_order_1_def)
  have n: "find (\<lambda>r. r_id r = ''res-1'' \<and> r_orderId r = ''order-1'') (reservations shop) = None"
    by (simp add: shop_def)
  from cancel_release_conservation[of _ _ _ _ shop _ _ _ "''res-1''" "''order-1''"
      "''Order cancelled by user''"] n
  have c: "snd (releaseStock shop ''order-1'' ''res-1'' ''Order cancelled by user'') = shop"
    by simp
  show ?thesis using a b c by (simp add: rs p shop_products)
qed

section \<open>Claim C8: idempotent create\<close>

text \<open>
  Claim C8 fails as stated in two ways. The empty string is a non-null key, but the
  handler tests the key with \<^verbatim>\<open>if (idempotencyKey)\<close>, skips the lookup and stores
  the order under a generated key (\<^verbatim>\<open>idempotencyKey || uuidv4()\<close>): two valid requests
  with the key \<^verbatim>\<open>""\<close> create the two orders \<^verbatim>\<open>order-1\<close> and \<^verbatim>\<open>order-2\<close>. And
  validation comes before the lookup: a request without a quantity whose key
  \<^verbatim>\<open>k-42\<close> matches the confirmed \<^verbatim>\<open>order-1\<close> is answered with 400 and no order.
\<close>

theorem idempotent_create_counterexample:
  "valid_request request_empty_key
   \<and> request_key request_empty_key = Some []
   \<and> map_option o_id (body_data (fst (post_orders env_confirmed office request_empty_key)))
       = Some ''order-1''
   \<and> map_option o_id (body_data (fst (post_orders env_second
         (snd (post_orders env_confirmed office request_empty_key)) request_empty_key)))
       = Some ''order-2''
   \<and> \<not> body_cached (fst (post_orders env_second
         (snd (post_orders env_confirmed office request_empty_key)) request_empty_key))
   \<and> map o_id (orders (snd (post_orders env_second
         (snd (post_orders env_confirmed office request_empty_key)) request_empty_key)))
       = [''order-1'', ''order-2'']
   \<and> request_key request_no_quantity = Some ''k-42''
   \<and> map_option o_id
         (find (\<lambda>ord. o_idempotencyKey ord = Some ''k-42'') (orders office_confirmed))
       = Some ''order-1''
   \<and> post_orders env_second office_confirmed request_no_quantity =
       (\<lparr>http_status = 400, body_success = False, body_data = None,
         body_error = Some ''Missing required fields: customerId, productId, quantity'',
         body_message = None, body_cached = False, body_verificationRequired = False\<rparr>,
        office_confirmed)"
proof -
  have a: "valid_request request_empty_key" "request_key request_empty_key = Some []"
    by (simp_all add: valid_request_def request_key_def request_empty_key_def)
  have b: "map_option o_id (body_data (fst (post_orders env_confirmed office request_empty_key)))
       = Some ''order-1''"
    by (simp add: office_def request_empty_key_def env_confirmed_def order_defs)
  define s1 where "s1 = snd (post_orders env_confirmed office request_empty_key)"
  have o1: "orders s1 =
     [\<lparr>o_id = ''order-1'', o_customerId = ''C1'', o_productId = ''SKU-002'', o_quantity = 3,
       o_status = confirmed, o_idempotencyKey = Some ''key-1'',
       o_reservationId = Some ''res-1'', o_completedAt = Some ''2024-01-01T10:00:00Z'',
       o_errorMessage = None\<rparr>]"
    by (simp add: s1_def office_def request_empty_key_def env_confirmed_def order_defs)
  have bus: "orderEventsSender s1" "order_send_ok s1 = (\<lambda>_. True)"
    by (simp_all add: s1_def office_def request_empty_key_def env_confirmed_def order_defs)
  have c: "map_option o_id (body_data (fst (post_orders env_second s1 request_empty_key)))
       = Some ''order-2''"
    "\<not> body_cached (fst (post_orders env_second s1 request_empty_key))"
    "map o_id (orders (snd (post_orders env_second s1 request_empty_key)))
       = [''order-1'', ''order-2'']"
    by (simp_all add: o1 bus request_empty_key_def env_second_def order_defs)
  have d: "request_key request_no_quantity = Some ''k-42''"
    by (simp add: request_key_def request_no_quantity_def)
  have e: "map_option o_id
         (find (\<lambda>ord. o_idempotencyKey ord = Some ''k-42'') (orders office_confirmed))
       = Some ''order-1''"
    by (simp add: office_confirmed_orders)
  have f: "post_orders env_second office_confirmed request_no_quantity =
       (\<lparr>http_status = 400, body_success = False, body_data = None,
         body_error = Some ''Missing required fields: customerId, productId, quantity'',
         body_message = None, body_cached = False, body_verificationRequired = False\<rparr>,
        office_confirmed)"
    by (simp add: post_orders_def request_no_quantity_def bad_request_def)
  show ?thesis using a b c d e f unfolding s1_def by simp
qed

text \<open>
  Claim C8, as amended. Let a request pass validation and carry a non-empty
  idempotency key (the header, else the body field), and let \<open>existing\<close> be the
  order row that holds this key. Then the reply is 200 with \<^verbatim>\<open>success: true\<close>, the
  row \<open>existing\<close> as read and \<^verbatim>\<open>cached: true\<close>, and the state of the service is the
  one before the request: no order row, no row of the event log, no message on the
  topic or the queue and no reservation call is added. Hence, of two valid requests
  with the same non-empty key, sent one after the other, the first of which returns
  an order, the second is answered in that way with an order of the same id,
  whatever the environment of either request.
\<close>

theorem idempotent_create:
  "(valid_request req \<and> request_key req = Some k \<and> k \<noteq> []
      \<and> find (\<lambda>ord. o_idempotencyKey ord = Some k) (orders s) = Some existing \<longrightarrow>
      post_orders env s req =
        (\<lparr>http_status = 200, body_success = True, body_data = Some existing,
          body_error = None, body_message = None, body_cached = True,
          body_verificationRequired = False\<rparr>, s))
   \<and> (valid_request req1 \<and> valid_request req2
        \<and> request_key req1 = Some k \<and> k \<noteq> [] \<and> request_key req2 = Some k
        \<and> body_data (fst (post_orders env1 s req1)) = Some ord1 \<longrightarrow>
        (\<exists>ord2. post_orders env2 (snd (post_orders env1 s req1)) req2 =
                  (\<lparr>http_status = 200, body_success = True, body_data = Some ord2,
                    body_error = None, body_message = None, body_cached = True,
                    body_verificationRequired = False\<rparr>,
                   snd (post_orders env1 s req1))
                \<and> o_id ord2 = o_id ord1))"
proof (intro conjI impI)
  assume a: "valid_request req \<and> request_key req = Some k \<and> k \<noteq> []
      \<and> find (\<lambda>ord. o_idempotencyKey ord = Some k) (orders s) = Some existing"
  then have "existing_order s (request_key req) = Some existing"
    by (simp add: existing_order_def getOrderByIdempotencyKey_def)
  with a have "post_orders env s req = (cached_reply existing, s)"
    by (simp add: post_orders_cached)
  then show "post_orders env s req =
        (\<lparr>http_status = 200, body_success = True, body_data = Some existing,
          body_error = None, body_message = None, body_cached = True,
          body_verificationRequired = False\<rparr>, s)"
    by (simp add: cached_reply_def)
next
  assume a: "valid_request req1 \<and> valid_request req2
        \<and> request_key req1 = Some k \<and> k \<noteq> [] \<and> request_key req2 = Some k
        \<and> body_data (fst (post_orders env1 s req1)) = Some ord1"
  then have "\<exists>ord2. existing_order (snd (post_orders env1 s req1)) (Some k) = Some ord2
               \<and> o_id ord2 = o_id ord1"
    using post_orders_keyed[of req1 k env1 s ord1] by simp
  then obtain ord2 where
    e: "existing_order (snd (post_orders env1 s req1)) (request_key req2) = Some ord2"
    and i: "o_id ord2 = o_id ord1" using a by auto
  from a post_orders_cached[OF _ e, of env2]
  have "post_orders env2 (snd (post_orders env1 s req1)) req2 =
          (\<lparr>http_status = 200, body_success = True, body_data = Some ord2,
            body_error = None, body_message = None, body_cached = True,
            body_verificationRequired = False\<rparr>,
           snd (post_orders env1 s req1))"
    by (simp add: cached_reply_def)
  with i show "\<exists>ord2. post_orders env2 (snd (post_orders env1 s req1)) req2 =
                  (\<lparr>http_status = 200, body_success = True, body_data = Some ord2,
                    body_error = None, body_message = None, body_cached = True,
                    body_verificationRequired = False\<rparr>,
                   snd (post_orders env1 s req1))
                \<and> o_id ord2 = o_id ord1" by blast
qed

theorem idempotent_create_witness:
  "post_orders env_second office_confirmed request_k42 =
     (\<lparr>http_status = 200, body_success = True,
       body_data = Some
         \<lparr>o_id = ''order-1'', o_customerId = ''C1'', o_productId = ''SKU-002'',
          o_quantity = 3, o_status = confirmed, o_idempotencyKey = Some ''k-42'',
          o_reservationId = Some ''res-1'',
          o_completedAt = Some ''2024-01-01T10:00:00Z'', o_errorMessage = None\<rparr>,
       body_error = None, body_message = None, body_cached = True,
       body_verificationRequired = False\<rparr>,
      office_confirmed)
   \<and> map_option o_id (body_data (fst (post_orders env_confirmed office request_k42))) =
       Some ''order-1''
   \<and> (\<exists>ord2. post_orders env_second (snd (post_orders env_confirmed office request_k42))
                 request_k42 =
               (\<lparr>http_status = 200, body_success = True, body_data = Some ord2,
                 body_error = None, body_message = None, body_cached = True,
                 body_verificationRequired = False\<rparr>,
                snd (post_orders env_confirmed office request_k42))
             \<and> o_id ord2 = ''order-1'')"
proof -
  let ?row = "\<lparr>o_id = ''order-1'', o_customerId = ''C1'', o_productId = ''SKU-002'',
         o_quantity = 3, o_status = confirmed, o_idempotencyKey = Some ''k-42'',
         o_reservationId = Some ''res-1'',
         o_completedAt = Some ''2024-01-01T10:00:00Z'', o_errorMessage = None\<rparr>"
  have d: "body_data (fst (post_orders env_confirmed office request_k42)) = Some ?row"
    by (simp add: office_def request_k42_def env_confirmed_def order_defs)
  have f: "find (\<lambda>ord. o_idempotencyKey ord = Some ''k-42'') (orders office_confirmed) =
             Some ?row"
    by (simp add: office_confirmed_orders)
  note th = idempotent_create[of request_k42 "''k-42''" office_confirmed ?row env_second]
  note th2 = idempotent_create[of _ "''k-42''" office _ _ request_k42 request_k42
      env_confirmed ?row env_second]
  from th f have a: "post_orders env_second office_confirmed request_k42 =
     (\<lparr>http_status = 200, body_success = True, body_data = Some ?row,
       body_error = None, body_message = None, body_cached = True,
       body_verificationRequired = False\<rparr>, office_confirmed)"
    by (simp add: request_k42_valid request_k42_key)
  from th2 d have b: "\<exists>ord2. post_orders env_second
        (snd (post_orders env_confirmed office request_k42)) request_k42 =
               (\<lparr>http_status = 200, body_success = True, body_data = Some ord2,
                 body_error = None, body_message = None, body_cached = True,
                 body_verificationRequired = False\<rparr>,
                snd (post_orders env_confirmed office request_k42))
             \<and> o_id ord2 = ''order-1''"
    by (simp add: request_k42_valid request_k42_key)
  show ?thesis using a b d by simp
qed

section \<open>Claim C9: the status codes of \<^verbatim>\<open>POST /orders\<close>\<close>

text \<open>
  Claim C9 fails as stated: a valid request whose idempotency key matches an existing
  order is answered with \<^verbatim>\<open>res.status(200)\<close> and \<^verbatim>\<open>cached: true\<close>, and 200 is not
  among the four codes of the claim.
\<close>

theorem post_orders_status_codes_counterexample:
  "valid_request request_k42
   \<and> http_status (fst (post_orders env_second office_confirmed request_k42)) = 200
   \<and> body_cached (fst (post_orders env_second office_confirmed request_k42))
   \<and> (200::nat) \<notin> {201, 202, 400, 500}"
  by (simp add: post_orders_cached[OF request_k42_valid
                  office_confirmed_existing[folded request_k42_key]]
        cached_reply_def request_k42_valid)

text \<open>
  Claim C9, as amended. The status code of every reply to \<^verbatim>\<open>POST /orders\<close> is one
  of 200, 201, 202, 400 and 500. A request that fails validation (customer id, product
  id or quantity missing or falsy, or the quantity not positive) gets 400, without an
  order, and changes nothing. A valid request whose key matches an existing order
  gets 200 with that order and changes nothing. Any other valid request gets 201 with
  the order \<^verbatim>\<open>confirmed\<close>, 202 with the order in \<^verbatim>\<open>pending_verification\<close>, 400
  with the order \<^verbatim>\<open>failed\<close>, or the reply of the outer \<^verbatim>\<open>catch\<close>, which is 500.
\<close>

theorem post_orders_status_codes:
  "http_status (fst (post_orders env s req)) \<in> {200, 201, 202, 400, 500}
   \<and> (\<not> valid_request req \<longrightarrow>
         http_status (fst (post_orders env s req)) = 400
         \<and> body_data (fst (post_orders env s req)) = None
         \<and> snd (post_orders env s req) = s)
   \<and> (valid_request req \<and> existing_order s (request_key req) = Some existing \<longrightarrow>
         post_orders env s req = (cached_reply existing, s)
         \<and> http_status (fst (post_orders env s req)) = 200)
   \<and> (valid_request req \<and> existing_order s (request_key req) = None \<longrightarrow>
         (http_status (fst (post_orders env s req)) = 201
            \<and> (\<exists>row. body_data (fst (post_orders env s req)) = Some row
                      \<and> o_status row = confirmed))
         \<or> (http_status (fst (post_orders env s req)) = 202
            \<and> (\<exists>row. body_data (fst (post_orders env s req)) = Some row
                      \<and> o_status row = pending_verification))
         \<or> (http_status (fst (post_orders env s req)) = 400
            \<and> (\<exists>row. body_data (fst (post_orders env s req)) = Some row
                      \<and> o_status row = failed))
         \<or> (\<exists>m. fst (post_orders env s req) = internal_error m))"
proof -
  have inv: "\<not> valid_request req \<Longrightarrow>
         http_status (fst (post_orders env s req)) = 400
         \<and> body_data (fst (post_orders env s req)) = None
         \<and> snd (post_orders env s req) = s"
    using post_orders_invalid[of req env s] by simp
  have cached: "valid_request req \<Longrightarrow> existing_order s (request_key req) = Some existing \<Longrightarrow>
         post_orders env s req = (cached_reply existing, s)
         \<and> http_status (fst (post_orders env s req)) = 200" for existing
    by (simp add: post_orders_cached cached_reply_def)
  have fresh: "(http_status (fst (post_orders env s req)) = 201
            \<and> (\<exists>row. body_data (fst (post_orders env s req)) = Some row
                      \<and> o_status row = confirmed))
         \<or> (http_status (fst (post_orders env s req)) = 202
            \<and> (\<exists>row. body_data (fst (post_orders env s req)) = Some row
                      \<and> o_status row = pending_verification))
         \<or> (http_status (fst (post_orders env s req)) = 400
            \<and> (\<exists>row. body_data (fst (post_orders env s req)) = Some row
                      \<and> o_status row = failed))
         \<or> (\<exists>m. fst (post_orders env s req) = internal_error m)"
    if v: "valid_request req" and n: "existing_order s (request_key req) = None"
  proof -
    from valid_request_fields[OF v] obtain c p q where
      f: "body_customerId req = Some c" "c \<noteq> []" "body_productId req = Some p" "p \<noteq> []"
      "body_quantity req = Some q" "0 < q" by blast
    obtain res s' where t: "create_order_try env s c p q (request_key req) = (res, s')"
      by fastforce
    show ?thesis
    proof (cases res)
      case (Inl e)
      obtain m where "e = JsError m" by (cases e)
      with t Inl have "fst (post_orders env s req) = internal_error m"
        by (simp add: post_orders_valid[OF f])
      then show ?thesis by blast
    next
      case (Inr resp)
      with t have p: "fst (post_orders env s req) = resp" by (simp add: post_orders_valid[OF f])
      from create_order_try_outcome[OF t[unfolded Inr]] n
      show ?thesis unfolding p by auto
    qed
  qed
  have mem: "http_status (fst (post_orders env s req)) \<in> {200, 201, 202, 400, 500}"
  proof (cases "valid_request req")
    case False
    with inv show ?thesis by simp
  next
    case True
    show ?thesis
    proof (cases "existing_order s (request_key req)")
      case None
      from fresh[OF True None] show ?thesis by (auto simp: internal_error_def)
    next
      case (Some ex)
      from cached[OF True Some] show ?thesis by (simp add: cached_reply_def)
    qed
  qed
  from mem inv cached fresh show ?thesis by blast
qed

theorem post_orders_status_codes_witness:
  "http_status (fst (post_orders env_confirmed office request_k42)) = 201
   \<and> http_status (fst (post_orders env_timeout office request_k42)) = 202
   \<and> http_status (fst (post_orders env_refused office request_k42)) = 400
   \<and> http_status (fst (post_orders env_internal office request_k42)) = 500
   \<and> post_orders env_confirmed office request_no_quantity =
       (bad_request ''Missing required fields: customerId, productId, quantity'', office)
   \<and> post_orders env_second office_confirmed request_k42 =
       (cached_reply
          \<lparr>o_id = ''order-1'', o_customerId = ''C1'', o_productId = ''SKU-002'',
           o_quantity = 3, o_status = confirmed, o_idempotencyKey = Some ''k-42'',
           o_reservationId = Some ''res-1'',
           o_completedAt = Some ''2024-01-01T10:00:00Z'', o_errorMessage = None\<rparr>,
        office_confirmed)"
proof -
  have a: "http_status (fst (post_orders env_confirmed office request_k42)) = 201"
    "http_status (fst (post_orders env_timeout office request_k42)) = 202"
    "http_status (fst (post_orders env_refused office request_k42)) = 400"
    "http_status (fst (post_orders env_internal office request_k42)) = 500"
    by (simp_all add: office_def request_k42_def env_confirmed_def env_timeout_def
          env_refused_def env_internal_def order_defs)
  have b: "post_orders env_confirmed office request_no_quantity =
       (bad_request ''Missing required fields: customerId, productId, quantity'', office)"
    by (simp add: post_orders_def request_no_quantity_def)
  have nv: "\<not> valid_request request_no_quantity"
    by (simp add: valid_request_def request_no_quantity_def)
  note th = post_orders_status_codes[of env_second office_confirmed request_k42
      "\<lparr>o_id = ''order-1'', o_customerId = ''C1'', o_productId = ''SKU-002'',
           o_quantity = 3, o_status = confirmed, o_idempotencyKey = Some ''k-42'',
           o_reservationId = Some ''res-1'',
           o_completedAt = Some ''2024-01-01T10:00:00Z'', o_errorMessage = None\<rparr>"]
  from th have c: "post_orders env_second office_confirmed request_k42 =
       (cached_reply
          \<lparr>o_id = ''order-1'', o_customerId = ''C1'', o_productId = ''SKU-002'',
           o_quantity = 3, o_status = confirmed, o_idempotencyKey = Some ''k-42'',
           o_reservationId = Some ''res-1'',
           o_completedAt = Some ''2024-01-01T10:00:00Z'', o_errorMessage = None\<rparr>,
        office_confirmed)"
    by (simp add: request_k42_valid request_k42_key office_confirmed_existing)
  from post_orders_status_codes[of env_confirmed office request_no_quantity undefined] nv
  have d: "snd (post_orders env_confirmed office request_no_quantity) = office" by simp
  show ?thesis using a b c d by simp
qed

section \<open>Claim C10: the \<^verbatim>\<open>StockReleased\<close> event of the gRPC handler\<close>

text \<open>
  Claim C10. When the \<^verbatim>\<open>ReleaseStock\<close> handler answers with success, a reservation
  of the request's id and order was found and its product's stock was raised by its
  quantity; the state the handler leaves is the database after the release with
  \<^verbatim>\<open>publishInventoryEvent\<close> applied to one \<^verbatim>\<open>StockReleased\<close> event whose product
  id is the literal \<^verbatim>\<open>unknown\<close> and whose quantity is \<open>0\<close>, whatever the product and
  quantity of the reservation; its order id and reason are the request's and its
  \<^verbatim>\<open>newStock\<close> is the stock after the release. With a connected sender and a bus
  that accepts the message, that event is what the topic receives.
\<close>

theorem release_event_placeholder:
  assumes "grpc_releaseStock s rq = (Inr response, s')" and "rr_success response"
  shows "\<exists>reservation product.
           find (\<lambda>r. r_id r = rq_reservationId rq \<and> r_orderId r = rq_orderId rq)
                (reservations s) = Some reservation
         \<and> products s (r_productId reservation) = Some product
         \<and> rr_newStock response = stock product + r_quantity reservation
         \<and> map_option stock (products s' (r_productId reservation)) =
             Some (stock product + r_quantity reservation)
         \<and> s' = publishInventoryEvent
                  (snd (releaseStock s (rq_orderId rq) (rq_reservationId rq) (rq_reason rq)))
                  (StockReleased (rq_orderId rq) ''unknown'' 0
                     (Some (stock product + r_quantity reservation)) (rq_reason rq))
         \<and> (inventoryEventsSender s \<and> (\<forall>ev. inventory_send_ok s ev) \<longrightarrow>
               inventory_events s' = inventory_events s @
                 [StockReleased (rq_orderId rq) ''unknown'' 0
                    (Some (stock product + r_quantity reservation)) (rq_reason rq)])"
proof -
  obtain res s1 where r: "releaseStock s (rq_orderId rq) (rq_reservationId rq) (rq_reason rq) = (res, s1)"
    by fastforce
  with assms obtain result where res: "res = Inr result" "rl_success result"
    and s': "s' = publishInventoryEvent s1
                  (StockReleased (rq_orderId rq) ''unknown'' 0 (newStock result) (rq_reason rq))"
    and resp: "rr_newStock response = (case newStock result of None \<Rightarrow> 0 | Some n \<Rightarrow> n)"
    by (auto simp: grpc_releaseStock_def split: sum.splits js_error.splits if_splits)
  from releaseStock_success_cases[OF r[unfolded res(1)] res(2)]
  obtain reservation product where
    f: "find (\<lambda>r. r_id r = rq_reservationId rq \<and> r_orderId r = rq_orderId rq)
                (reservations s) = Some reservation"
    and p: "products s (r_productId reservation) = Some product"
    and n: "newStock result = Some (stock product + r_quantity reservation)"
    and s1: "s1 = s\<lparr>products := (products s)
                     (r_productId reservation \<mapsto>
                        product\<lparr>stock := stock product + r_quantity reservation\<rparr>),
                   reservations :=
                     map (\<lambda>r. if r_id r = rq_reservationId rq then r\<lparr>r_status := released\<rparr> else r)
                         (reservations s),
                   stock_audit_log := stock_audit_log s @
                     [\<lparr>a_productId = r_productId reservation, a_operation = op_release,
                       a_quantityChange = r_quantity reservation,
                       a_previousStock = stock product,
                       a_newStock = stock product + r_quantity reservation,
                       a_orderId = rq_orderId rq, a_reservationId = rq_reservationId rq,
                       a_reason = rq_reason rq\<rparr>]\<rparr>"
    by blast
  have "map_option stock (products s' (r_productId reservation)) =
             Some (stock product + r_quantity reservation)"
    by (simp add: s' s1 publishInventoryEvent_def)
  moreover have "inventoryEventsSender s \<and> (\<forall>ev. inventory_send_ok s ev) \<longrightarrow>
               inventory_events s' = inventory_events s @
                 [StockReleased (rq_orderId rq) ''unknown'' 0
                    (Some (stock product + r_quantity reservation)) (rq_reason rq)]"
    by (simp add: s' s1 n publishInventoryEvent_def)
  ultimately show ?thesis using f p n s' r resp by auto
qed

theorem release_event_placeholder_witness:
  "fst (grpc_releaseStock shop_reserved release_order_1) =
     Inr \<lparr>rr_success = True, rr_message = ''Stock released successfully'',
          rr_newStock = 200\<rparr>
   \<and> map (\<lambda>r. (r_id r, r_productId r, r_quantity r)) (reservations shop_reserved) =
       [(''res-1'', ''SKU-002'', 3)]
   \<and> inventory_events (snd (grpc_releaseStock shop_reserved release_order_1)) =
       [StockReleased ''order-1'' ''unknown'' 0 (Some 200) ''Order cancelled by user'']"
proof -
  have ok: "rr_success \<lparr>rr_success = True, rr_message = ''Stock released successfully'',
           rr_newStock = 200\<rparr>" by simp
  from release_event_placeholder[OF shop_reserved_release ok]
  have "inventory_events (snd (grpc_releaseStock shop_reserved release_order_1)) =
       [StockReleased ''order-1'' ''unknown'' 0 (Some 200) ''Order cancelled by user'']"
    by (auto simp: shop_reserved_bus release_order_1_def)
  moreover have "map (\<lambda>r. (r_id r, r_productId r, r_quantity r)) (reservations shop_reserved) =
       [(''res-1'', ''SKU-002'', 3)]"
    by (simp add: shop_reserved_eq)
  ultimately show ?thesis using shop_reserved_release_fst by simp
qed

end
